(* ===== verification/Prelude.thy ===== *)
theory Prelude
  imports Main "HOL-Library.Multiset" "HOL-Library.List_Lexorder" "HOL-Library.Char_ord" "HOL-Library.Product_Lexorder"
begin

text \<open>
  Shared vocabulary of the development: the Python exceptions the program can raise, the
  result type \<open>py_error + 'a\<close> that carries them, the types naming coordinates and
  chromosomes, Python's list indexing, counting dictionaries, lemmas on lists and
  multisets, and the lemma collections the component theories
  feed and use. Python integers are unbounded, so coordinates are \<open>int\<close>.
\<close>

named_theorems eval_simps "rules that evaluate the model on concrete inputs"
named_theorems region_simps "unfolding rules of the region orchestration"

section \<open>Python errors and results\<close>

datatype py_error =
    ZeroDivisionError
  | IndexError
  | TypeError
  | ValueError
  | FileExistsError
  | FileNotFoundError
  | IsADirectoryError
  | SystemExit

type_synonym 'a result = "py_error + 'a"
type_synonym coord = int
type_synonym chrom = string

definition bind_result :: "'a result \<Rightarrow> ('a \<Rightarrow> 'b result) \<Rightarrow> 'b result" where
  "bind_result r f = (case r of Inl e \<Rightarrow> Inl e | Inr a \<Rightarrow> f a)"

lemma bind_result_Inl [simp]: "bind_result (Inl e) f = Inl e"
  by (simp add: bind_result_def)

lemma bind_result_Inr [simp]: "bind_result (Inr a) f = f a"
  by (simp add: bind_result_def)

lemma bind_result_eq_Inr:
  "bind_result r f = Inr b \<longleftrightarrow> (\<exists>a. r = Inr a \<and> f a = Inr b)"
  by (cases r) auto

lemma bind_result_eq_Inl:
  "bind_result r f = Inl e \<longleftrightarrow> r = Inl e \<or> (\<exists>a. r = Inr a \<and> f a = Inl e)"
  by (cases r) auto

section \<open>Python list indexing\<close>

text \<open>
  Subscription \<open>s[k]\<close> of a Python sequence: an index below zero is taken relative to
  the length; an index that is still outside \<open>[0, len(s))\<close> raises IndexError.
\<close>

definition py_index :: "'a list \<Rightarrow> int \<Rightarrow> 'a result" where
  "py_index s k =
     (let pos = (if k < 0 then k + int (length s) else k)
      in if pos < 0 \<or> int (length s) \<le> pos then Inl IndexError else Inr (s ! nat pos))"

lemma py_index_last [simp]: "py_index (xs @ [x]) (-1) = Inr x"
  by (simp add: py_index_def nth_append)

lemma py_index_Nil [simp]: "py_index [] i = Inl IndexError"
  by (simp add: py_index_def)

lemma py_index_last_nonempty: "xs \<noteq> [] \<Longrightarrow> py_index xs (-1) = Inr (last xs)"
  by (metis append_butlast_last_id py_index_last)

section \<open>Statements with effects\<close>

text \<open>
  A statement that reads and changes a state \<open>'s\<close> and may raise: it returns its value or
  the exception together with the state reached. Effects that happened before a
  \<open>raise\<close> persist, as they do in Python.
\<close>

type_synonym ('s, 'a) st = "'s \<Rightarrow> 'a result \<times> 's"

definition st_return :: "'a \<Rightarrow> ('s, 'a) st" where
  "st_return a = (\<lambda>s. (Inr a, s))"

definition st_raise :: "py_error \<Rightarrow> ('s, 'a) st" where
  "st_raise e = (\<lambda>s. (Inl e, s))"

definition st_bind :: "('s, 'a) st \<Rightarrow> ('a \<Rightarrow> ('s, 'b) st) \<Rightarrow> ('s, 'b) st" where
  "st_bind m f = (\<lambda>s. case m s of (Inl e, s') \<Rightarrow> (Inl e, s') | (Inr a, s') \<Rightarrow> f a s')"

lemma st_return_apply [simp]: "st_return a s = (Inr a, s)"
  by (simp add: st_return_def)

lemma st_raise_apply [simp]: "st_raise e s = (Inl e, s)"
  by (simp add: st_raise_def)

lemma st_bind_apply [simp]:
  "m s = (Inr a, s') \<Longrightarrow> st_bind m f s = f a s'"
  "m s = (Inl e, s') \<Longrightarrow> st_bind m f s = (Inl e, s')"
  by (simp_all add: st_bind_def)

lemma st_bind_return [simp]: "st_bind (st_return a) f = f a"
  by (simp add: st_bind_def fun_eq_iff)

lemma st_bind_raise [simp]: "st_bind (st_raise e) f = st_raise e"
  by (simp add: st_bind_def fun_eq_iff)

lemma st_bind_assoc: "st_bind (st_bind m f) g = st_bind m (\<lambda>a. st_bind (f a) g)"
  by (simp add: st_bind_def fun_eq_iff split: prod.splits sum.splits)

lemma st_bind_cases:
  "st_bind m f s = (r, s') \<Longrightarrow>
     (\<exists>e. m s = (Inl e, s') \<and> r = Inl e) \<or> (\<exists>a s1. m s = (Inr a, s1) \<and> f a s1 = (r, s'))"
  by (cases "m s") (auto simp: st_bind_def split: sum.splits)

section \<open>Counting dictionaries\<close>

text \<open>
  A Python \<open>dict\<close> from keys to counts, \<open>d[k] = d.get(k, 0) + 1\<close>: an association list
  in insertion order, a known key's count grows in place and a new key is appended.
\<close>

fun dict_bump :: "('k \<times> nat) list \<Rightarrow> 'k \<Rightarrow> ('k \<times> nat) list" where
  "dict_bump [] k = [(k, 1)]"
| "dict_bump ((q, n) # kvs) k = (if q = k then (q, Suc n) # kvs else (q, n) # dict_bump kvs k)"

definition dict_count :: "('k \<times> nat) list \<Rightarrow> 'k \<Rightarrow> nat" where
  "dict_count kvs k = (case map_of kvs k of None \<Rightarrow> 0 | Some n \<Rightarrow> n)"

definition count_all :: "'k list \<Rightarrow> ('k \<times> nat) list \<Rightarrow> ('k \<times> nat) list" where
  "count_all ks d = fold (\<lambda>k kvs. dict_bump kvs k) ks d"

lemma keys_dict_bump: "fst ` set (dict_bump kvs k) = insert k (fst ` set kvs)"
  by (induction kvs k rule: dict_bump.induct) auto

lemma dict_count_bump: "dict_count (dict_bump kvs k) q = dict_count kvs q + (if k = q then 1 else 0)"
  by (induction kvs k rule: dict_bump.induct) (auto simp: dict_count_def)

lemma distinct_dict_bump: "distinct (map fst kvs) \<Longrightarrow> distinct (map fst (dict_bump kvs k))"
proof (induction kvs k rule: dict_bump.induct)
  case (1 k)
  then show ?case by simp
next
  case (2 q n kvs k)
  then show ?case by (auto simp: keys_dict_bump)
qed

lemma count_all_props:
  "dict_count (count_all ks d) q = dict_count d q + count_list ks q"
  "fst ` set (count_all ks d) = fst ` set d \<union> set ks"
  "distinct (map fst d) \<Longrightarrow> distinct (map fst (count_all ks d))"
  by (induction ks arbitrary: d)
     (auto simp: count_all_def dict_count_bump keys_dict_bump distinct_dict_bump)

lemma sum_counts_dict_bump: "sum_list (map snd (dict_bump kvs k)) = Suc (sum_list (map snd kvs))"
  by (induction kvs k rule: dict_bump.induct) auto

lemma sum_counts_count_all:
  "sum_list (map snd (count_all ks d)) = length ks + sum_list (map snd d)"
  by (induction ks arbitrary: d) (simp_all add: count_all_def sum_counts_dict_bump)

lemma map_of_count_all:
  "distinct (map fst d) \<Longrightarrow> (k, n) \<in> set (count_all ks d) \<Longrightarrow> n = dict_count (count_all ks d) k"
proof -
  assume d: "distinct (map fst d)" and kn: "(k, n) \<in> set (count_all ks d)"
  have "map_of (count_all ks d) k = Some n"
    using count_all_props(3) [OF d] kn by (rule map_of_is_SomeI)
  then show ?thesis by (simp add: dict_count_def)
qed

lemma count_all_Nil_iff:
  "(k, n) \<in> set (count_all ks []) \<longleftrightarrow> k \<in> set ks \<and> n = count_list ks k"
proof -
  have cnt: "dict_count (count_all ks []) k = count_list ks k"
    using count_all_props(1) [of ks "[]" k] by (simp add: dict_count_def)
  show ?thesis
  proof
  assume kn: "(k, n) \<in> set (count_all ks [])"
  then have "k \<in> fst ` set (count_all ks [])" by force
  then have "k \<in> set ks" by (simp add: count_all_props(2))
  moreover have "n = dict_count (count_all ks []) k"
    using kn by (intro map_of_count_all) simp_all
  ultimately show "k \<in> set ks \<and> n = count_list ks k"
    by (simp add: cnt)
next
  assume k: "k \<in> set ks \<and> n = count_list ks k"
  then have "k \<in> fst ` set (count_all ks [])" by (simp add: count_all_props(2))
  then obtain m where km: "(k, m) \<in> set (count_all ks [])" by force
  then have "m = dict_count (count_all ks []) k"
    by (intro map_of_count_all) simp_all
  with k km show "(k, n) \<in> set (count_all ks [])"
    by (simp add: cnt)
qed
qed

lemma distinct_concat_map:
  assumes "distinct xs" and "\<And>x. x \<in> set xs \<Longrightarrow> distinct (f x)"
    and "\<And>x y. x \<in> set xs \<Longrightarrow> y \<in> set xs \<Longrightarrow> x \<noteq> y \<Longrightarrow> set (f x) \<inter> set (f y) = {}"
  shows "distinct (concat (map f xs))"
  using assms
proof (induction xs)
  case Nil
  then show ?case by simp
next
  case (Cons x xs)
  have "set (f x) \<inter> set (concat (map f xs)) = {}"
    using Cons.prems by fastforce
  with Cons show ?case by simp
qed

section \<open>Lists and multisets\<close>

lemma mset_concat_map: "mset (concat (map f xs)) = (\<Sum>x\<in>#mset xs. mset (f x))"
  by (induction xs) simp_all

lemma strict_sorted_key_unique:
  fixes f :: "'a \<Rightarrow> 'b::linorder"
  assumes "sorted_wrt (<) (map f xs)" and "sorted_wrt (<) (map f ys)" and "set xs = set ys"
  shows "xs = ys"
proof (rule map_sorted_distinct_set_unique [of f])
  have "distinct (map f xs)" using assms(1) by (simp add: strict_sorted_iff)
  then show "inj_on f (set xs \<union> set ys)" using assms(3) by (simp add: distinct_map)
qed (use assms in \<open>simp_all add: strict_sorted_iff\<close>)

end
