(* ===== verification/RegionResult.thy ===== *)
theory RegionResult
  imports Prelude
begin

text \<open>
  The result of one region run and its JSON encoding. \<open>AllCandidatesInRegion\<close>
  (\<open>src/main.py\<close> lines 47--77) is the record \<open>all_candidates_in_region\<close>, polymorphic
  in the candidate-list objects it holds. Serialisation is \<open>json.dumps(obj.reprJSON(),
  cls=ComplexEncoder, sort_keys=True)\<close> (line 105): the Python values are the datatype
  \<open>pyval\<close> (an object carries its class name and, when it has one, the value its
  \<open>reprJSON\<close> returns), JSON documents are \<open>json\<close>, \<open>py_to_json\<close> is the encoder's
  walk with \<open>ComplexEncoder.default\<close> as its fallback for objects, and
  \<open>json_sort_keys\<close> orders the keys of every object. The layout of the text
  (\<open>indent=4\<close>) is not modelled: the artifact is the document itself.
  \<open>region_of_json\<close> reads a document back; the round trip is proved here for every
  candidate encoding that can itself be read back, and applied to the allele enumerator's
  lists in \<open>AlleleEnumerator\<close>. \<open>json_type\<close> describes the shape of a document and
  \<open>json_has_type\<close> checks a document against one.
\<close>

section \<open>Values and documents\<close>

datatype json =
    JObject "(string \<times> json) list"
  | JArray "json list"
  | JString string
  | JInt int
  | JBool bool
  | JNull

datatype pyval =
    PyStr string
  | PyInt int
  | PyBool bool
  | PyNone
  | PyList "pyval list"
  | PyDict "(string \<times> pyval) list"
  | PyObject string "pyval option"

section \<open>The region result\<close>

record 'c all_candidates_in_region =
  chromosome_name :: string
  start_position :: int
  end_position :: int
  all_candidates :: "'c list"

definition init_all_candidates_in_region ::
  "string \<Rightarrow> int \<Rightarrow> int \<Rightarrow> 'c all_candidates_in_region" where
  "init_all_candidates_in_region chr s e =
     \<lparr>chromosome_name = chr, start_position = s, end_position = e, all_candidates = []\<rparr>"

definition add_candidate_to_list ::
  "'c all_candidates_in_region \<Rightarrow> 'c \<Rightarrow> 'c all_candidates_in_region" where
  "add_candidate_to_list r c = r\<lparr>all_candidates := all_candidates r @ [c]\<rparr>"

text \<open>\<open>reprJSON\<close>: the dictionary of the four attributes, in the order \<open>dict(...)\<close> lists
  them; \<open>obj\<close> gives the Python object of each candidate list.\<close>

definition region_reprJSON :: "('c \<Rightarrow> pyval) \<Rightarrow> 'c all_candidates_in_region \<Rightarrow> pyval" where
  "region_reprJSON obj r =
     PyDict [(''chromosome_name'', PyStr (chromosome_name r)),
             (''start_position'', PyInt (start_position r)),
             (''end_position'', PyInt (end_position r)),
             (''all_candidates'', PyList (map obj (all_candidates r)))]"

section \<open>The encoder\<close>

text \<open>\<open>ComplexEncoder.default\<close>: an object with a \<open>reprJSON\<close> method is replaced by what it
  returns; anything else goes to \<open>JSONEncoder.default\<close>, which raises TypeError.\<close>

definition complex_encoder_default :: "pyval \<Rightarrow> pyval result" where
  "complex_encoder_default v =
     (case v of PyObject cls (Some d) \<Rightarrow> Inr d | _ \<Rightarrow> Inl TypeError)"

text \<open>The walk of \<open>json.dumps\<close>: native values map to JSON directly, lists and dicts
  element by element in order, and an object through \<open>default\<close>, whose result is
  encoded in turn.\<close>

fun py_to_json :: "pyval \<Rightarrow> json result"
and py_list_to_json :: "pyval list \<Rightarrow> json list result"
and py_items_to_json :: "(string \<times> pyval) list \<Rightarrow> (string \<times> json) list result" where
  "py_to_json (PyStr s) = Inr (JString s)"
| "py_to_json (PyInt i) = Inr (JInt i)"
| "py_to_json (PyBool b) = Inr (JBool b)"
| "py_to_json PyNone = Inr JNull"
| "py_to_json (PyList vs) = bind_result (py_list_to_json vs) (\<lambda>js. Inr (JArray js))"
| "py_to_json (PyDict kvs) = bind_result (py_items_to_json kvs) (\<lambda>kjs. Inr (JObject kjs))"
| "py_to_json (PyObject cls r) =
     (case r of None \<Rightarrow> Inl TypeError | Some d \<Rightarrow> py_to_json d)"
| "py_list_to_json [] = Inr []"
| "py_list_to_json (v # vs) =
     bind_result (py_to_json v) (\<lambda>j. bind_result (py_list_to_json vs) (\<lambda>js. Inr (j # js)))"
| "py_items_to_json [] = Inr []"
| "py_items_to_json ((k, v) # kvs) =
     bind_result (py_to_json v) (\<lambda>j. bind_result (py_items_to_json kvs) (\<lambda>kjs. Inr ((k, j) # kjs)))"

text \<open>\<open>sort_keys=True\<close>: the items of every object in ascending key order.\<close>

fun json_sort_keys :: "json \<Rightarrow> json" where
  "json_sort_keys (JObject kvs) = JObject (sort_key fst (map (\<lambda>(k, v). (k, json_sort_keys v)) kvs))"
| "json_sort_keys (JArray vs) = JArray (map json_sort_keys vs)"
| "json_sort_keys j = j"

definition json_dumps_sorted :: "pyval \<Rightarrow> json result" where
  "json_dumps_sorted v = bind_result (py_to_json v) (\<lambda>j. Inr (json_sort_keys j))"

section \<open>Reading a document back\<close>

definition json_field :: "string \<Rightarrow> json \<Rightarrow> json option" where
  "json_field k j = (case j of JObject kvs \<Rightarrow> map_of kvs k | _ \<Rightarrow> None)"

definition region_of_json ::
  "(json \<Rightarrow> 'c option) \<Rightarrow> json \<Rightarrow> 'c all_candidates_in_region option" where
  "region_of_json dec j =
     (case (json_field ''chromosome_name'' j, json_field ''start_position'' j,
            json_field ''end_position'' j, json_field ''all_candidates'' j) of
        (Some (JString c), Some (JInt s), Some (JInt e), Some (JArray cs)) \<Rightarrow>
          map_option (\<lambda>xs. \<lparr>chromosome_name = c, start_position = s, end_position = e,
                            all_candidates = xs\<rparr>) (those (map dec cs))
      | _ \<Rightarrow> None)"

section \<open>Document types\<close>

text \<open>The shape of a document: an object with its keys in order and the type of each
  value, an array whose elements all have one type, or a scalar type.\<close>

datatype json_type =
    TObject "(string \<times> json_type) list"
  | TArray json_type
  | TString
  | TInt
  | TBool
  | TNull

fun json_has_type :: "json \<Rightarrow> json_type \<Rightarrow> bool"
and fields_have_types :: "(string \<times> json) list \<Rightarrow> (string \<times> json_type) list \<Rightarrow> bool"
and all_have_type :: "json list \<Rightarrow> json_type \<Rightarrow> bool" where
  "json_has_type (JObject kvs) (TObject fs) = fields_have_types kvs fs"
| "json_has_type (JArray vs) (TArray t) = all_have_type vs t"
| "json_has_type (JString _) TString = True"
| "json_has_type (JInt _) TInt = True"
| "json_has_type (JBool _) TBool = True"
| "json_has_type JNull TNull = True"
| "json_has_type _ _ = False"
| "fields_have_types [] [] = True"
| "fields_have_types ((k, v) # kvs) ((k', t) # fs) = (k = k' \<and> json_has_type v t \<and> fields_have_types kvs fs)"
| "fields_have_types _ _ = False"
| "all_have_type [] t = True"
| "all_have_type (v # vs) t = (json_has_type v t \<and> all_have_type vs t)"

text \<open>The artifact of a region, its candidate lists of type \<open>ct\<close>, keys sorted.\<close>

definition region_json_type :: "json_type \<Rightarrow> json_type" where
  "region_json_type ct =
     TObject [(''all_candidates'', TArray ct), (''chromosome_name'', TString),
              (''end_position'', TInt), (''start_position'', TInt)]"

section \<open>Lemmas\<close>

lemma fold_add_candidate_to_list:
  "fold (\<lambda>c r. add_candidate_to_list r c) cs r =
     r\<lparr>all_candidates := all_candidates r @ cs\<rparr>"
  by (induction cs arbitrary: r) (simp_all add: add_candidate_to_list_def)

lemma py_to_json_object:
  "py_to_json (PyObject cls r) = bind_result (complex_encoder_default (PyObject cls r)) py_to_json"
  by (cases r) (simp_all add: complex_encoder_default_def)

lemma py_to_json_error:
  "py_to_json v = Inl e \<Longrightarrow> e = TypeError"
  "py_list_to_json vs = Inl e \<Longrightarrow> e = TypeError"
  "py_items_to_json kvs = Inl e \<Longrightarrow> e = TypeError"
  by (induction v and vs and kvs arbitrary: e and e and e rule: py_to_json_py_list_to_json_py_items_to_json.induct)
     (auto simp: bind_result_eq_Inl split: option.splits)

lemma py_list_to_json_map:
  "(\<And>c. c \<in> set cs \<Longrightarrow> py_to_json (obj c) = Inr (enc c)) \<Longrightarrow>
   py_list_to_json (map obj cs) = Inr (map enc cs)"
  by (induction cs) auto

lemma py_list_to_json_fails:
  "v \<in> set vs \<Longrightarrow> py_to_json v = Inl e \<Longrightarrow> \<exists>e'. py_list_to_json vs = Inl e'"
  by (induction vs) (auto simp: bind_result_def split: sum.splits)

lemma those_map_decode:
  "(\<And>x. x \<in> set xs \<Longrightarrow> dec (g x) = Some x) \<Longrightarrow> those (map dec (map g xs)) = Some xs"
  by (induction xs) auto

lemma region_dumps:
  assumes "\<And>c. c \<in> set (all_candidates r) \<Longrightarrow> py_to_json (obj c) = Inr (enc c)"
  shows "json_dumps_sorted (region_reprJSON obj r) =
    Inr (JObject [(''all_candidates'', JArray (map (json_sort_keys \<circ> enc) (all_candidates r))),
                  (''chromosome_name'', JString (chromosome_name r)),
                  (''end_position'', JInt (end_position r)),
                  (''start_position'', JInt (start_position r))])"
  using py_list_to_json_map [of "all_candidates r" obj enc, OF assms]
  by (simp add: json_dumps_sorted_def region_reprJSON_def)

lemma py_list_to_json_typed:
  assumes "\<And>x. x \<in> set xs \<Longrightarrow> \<exists>j. py_to_json (f x) = Inr j \<and> json_has_type (json_sort_keys j) t"
  shows "\<exists>js. py_list_to_json (map f xs) = Inr js \<and> all_have_type (map json_sort_keys js) t"
  using assms
proof (induction xs)
  case Nil
  then show ?case by simp
next
  case (Cons x xs)
  then obtain j js where "py_to_json (f x) = Inr j" "json_has_type (json_sort_keys j) t"
    "py_list_to_json (map f xs) = Inr js" "all_have_type (map json_sort_keys js) t"
    by (metis list.set_intros)
  then show ?case by simp
qed

lemma py_list_roundtrip:
  "(\<And>c. c \<in> set cs \<Longrightarrow> \<exists>j. py_to_json (obj c) = Inr j \<and> dec (json_sort_keys j) = Some c) \<Longrightarrow>
   \<exists>js. py_list_to_json (map obj cs) = Inr js \<and> those (map dec (map json_sort_keys js)) = Some cs"
proof (induction cs)
  case (Cons c cs)
  then obtain j js where "py_to_json (obj c) = Inr j" "dec (json_sort_keys j) = Some c"
    "py_list_to_json (map obj cs) = Inr js" "those (map dec (map json_sort_keys js)) = Some cs"
    by (metis list.set_intros)
  then show ?case by simp
qed simp

lemma region_json_roundtrip:
  assumes "\<And>c. c \<in> set (all_candidates r) \<Longrightarrow>
             \<exists>j. py_to_json (obj c) = Inr j \<and> dec (json_sort_keys j) = Some c"
  shows "\<exists>j. json_dumps_sorted (region_reprJSON obj r) = Inr j \<and> region_of_json dec j = Some r"
proof -
  obtain js where "py_list_to_json (map obj (all_candidates r)) = Inr js"
    "those (map dec (map json_sort_keys js)) = Some (all_candidates r)"
    using py_list_roundtrip [OF assms] by blast
  then show ?thesis
    by (simp add: json_dumps_sorted_def region_reprJSON_def region_of_json_def json_field_def)
qed
section \<open>Properties of the encoding\<close>

text \<open>C27: A candidate list object without a \<open>reprJSON\<close> method makes the serialisation
  raise TypeError: \<open>ComplexEncoder.default\<close> hands it to \<open>JSONEncoder.default\<close>.\<close>

theorem region_dumps_type_error:
  assumes "c \<in> set (all_candidates r)" and "obj c = PyObject cls None"
  shows "json_dumps_sorted (region_reprJSON obj r) = Inl TypeError"
proof -
  have "py_to_json (obj c) = Inl TypeError" using assms(2) by simp
  then obtain e where "py_list_to_json (map obj (all_candidates r)) = Inl e"
    using assms(1) py_list_to_json_fails by (metis image_eqI set_map)
  then show ?thesis
    using py_to_json_error(2) by (simp add: json_dumps_sorted_def region_reprJSON_def)
qed

section \<open>Witnesses\<close>

theorem region_dumps_type_error_witness:
  "json_dumps_sorted (region_reprJSON (\<lambda>_. PyObject ''CandidateList'' None)
     \<lparr>chromosome_name = ''3'', start_position = 100000, end_position = 200000,
      all_candidates = [7::int]\<rparr>) = Inl TypeError"
  by (rule region_dumps_type_error [where c = 7 and cls = "''CandidateList''"]) simp_all

end
