(* ===== verification/FileSystem.thy ===== *)
theory FileSystem
  imports RegionResult
begin

text \<open>
  The part of the operating system \<open>src/main.py\<close> talks to: \<open>os.path.exists\<close>,
  \<open>os.mkdir\<close> and \<open>open(path, 'w')\<close> followed by \<open>write\<close>. The \<open>world\<close> holds the
  directories (each named with a trailing slash, the current directory as the empty
  name), the files with their content, and the log of every call the program makes to its
  sources and to the file system, in order. Each call is one statement of the monad
  \<open>('s, 'a) st\<close>: effects made before an exception persist.
\<close>

datatype io_event =
    GetReads string int int
  | GetSequence string int int
  | GetPileup string int int
  | MakeDir string
  | OpenFile string
  | WriteFile string

datatype file_content = FileEmpty | FileJson json

record world =
  dirs :: "string set"
  files :: "string \<rightharpoonup> file_content"
  io_log :: "io_event list"

text \<open>The directory a path lives in: drop trailing slashes, then the last component.\<close>

definition parent_dir :: "string \<Rightarrow> string" where
  "parent_dir p =
     rev (dropWhile (\<lambda>c. c \<noteq> CHR ''/'') (dropWhile (\<lambda>c. c = CHR ''/'') (rev p)))"

definition path_exists :: "world \<Rightarrow> string \<Rightarrow> bool" where
  "path_exists w p \<longleftrightarrow> p \<in> dirs w \<or> files w p \<noteq> None"

definition log_event :: "io_event \<Rightarrow> world \<Rightarrow> world" where
  "log_event ev w = w\<lparr>io_log := io_log w @ [ev]\<rparr>"

text \<open>\<open>os.path.exists(p)\<close>.\<close>

definition os_path_exists :: "string \<Rightarrow> (world, bool) st" where
  "os_path_exists p = (\<lambda>w. (Inr (path_exists w p), w))"

text \<open>\<open>os.mkdir(p)\<close>: FileExistsError if the path exists, FileNotFoundError if its parent
  directory does not.\<close>

definition os_mkdir :: "string \<Rightarrow> (world, unit) st" where
  "os_mkdir p =
     (\<lambda>w. if path_exists w p then (Inl FileExistsError, w)
          else if parent_dir p \<notin> dirs w then (Inl FileNotFoundError, w)
          else (Inr (), log_event (MakeDir p) (w\<lparr>dirs := insert p (dirs w)\<rparr>)))"

text \<open>\<open>open(p, 'w')\<close>: creates the file, or truncates it, before anything is written.\<close>

definition open_write :: "string \<Rightarrow> (world, unit) st" where
  "open_write p =
     (\<lambda>w. if p \<in> dirs w then (Inl IsADirectoryError, w)
          else if parent_dir p \<notin> dirs w then (Inl FileNotFoundError, w)
          else (Inr (), log_event (OpenFile p) (w\<lparr>files := (files w)(p \<mapsto> FileEmpty)\<rparr>)))"

text \<open>\<open>json_file.write(text)\<close> on the file just opened.\<close>

definition write_file :: "string \<Rightarrow> json \<Rightarrow> (world, unit) st" where
  "write_file p doc =
     (\<lambda>w. (Inr (), log_event (WriteFile p) (w\<lparr>files := (files w)(p \<mapsto> FileJson doc)\<rparr>)))"

section \<open>Lemmas\<close>

lemma parent_dir_append_name:
  assumes "CHR ''/'' \<notin> set name" and "name \<noteq> []"
  shows "parent_dir (d @ CHR ''/'' # name) = d @ ''/''"
proof -
  have hd: "hd (rev name @ CHR ''/'' # rev d) \<noteq> CHR ''/''"
    using assms by (simp add: hd_append hd_rev last_in_set) (metis last_in_set)
  have "dropWhile (\<lambda>c. c = CHR ''/'') (rev name @ CHR ''/'' # rev d) = rev name @ CHR ''/'' # rev d"
    using hd by (simp add: dropWhile_eq_self_iff)
  moreover have "dropWhile (\<lambda>c. c \<noteq> CHR ''/'') (rev name @ CHR ''/'' # rev d) = CHR ''/'' # rev d"
    using assms(1) by (subst dropWhile_append2) auto
  ultimately show ?thesis by (simp add: parent_dir_def)
qed

lemma parent_dir_snoc_slash: "parent_dir (p @ ''/'') = parent_dir p"
  by (simp add: parent_dir_def)

lemma parent_dir_subdir:
  assumes "CHR ''/'' \<notin> set name" and "name \<noteq> []" and "d \<noteq> []" and "last d = CHR ''/''"
  shows "parent_dir (d @ name @ ''/'') = d"
proof -
  from assms(3,4) have d: "d = butlast d @ [CHR ''/'']"
    by (metis append_butlast_last_id)
  have "parent_dir (d @ name @ ''/'') = parent_dir (butlast d @ CHR ''/'' # name)"
    by (subst d) (simp add: parent_dir_snoc_slash flip: append_assoc, simp)
  also have "\<dots> = d"
    using assms(1,2) d by (simp add: parent_dir_append_name)
  finally show ?thesis .
qed

lemma world_frame [simp]:
  "dirs (log_event ev w) = dirs w" "files (log_event ev w) = files w"
  "io_log (log_event ev w) = io_log w @ [ev]"
  by (simp_all add: log_event_def)

lemma os_path_exists_apply [simp]: "os_path_exists p w = (Inr (path_exists w p), w)"
  by (simp add: os_path_exists_def)

lemma os_mkdir_ok:
  "\<not> path_exists w p \<Longrightarrow> parent_dir p \<in> dirs w \<Longrightarrow>
   os_mkdir p w = (Inr (), log_event (MakeDir p) (w\<lparr>dirs := insert p (dirs w)\<rparr>))"
  by (simp add: os_mkdir_def)

lemma os_mkdir_exists: "path_exists w p \<Longrightarrow> os_mkdir p w = (Inl FileExistsError, w)"
  by (simp add: os_mkdir_def)

lemma os_mkdir_no_parent:
  "\<not> path_exists w p \<Longrightarrow> parent_dir p \<notin> dirs w \<Longrightarrow> os_mkdir p w = (Inl FileNotFoundError, w)"
  by (simp add: os_mkdir_def)

lemma open_write_ok:
  "p \<notin> dirs w \<Longrightarrow> parent_dir p \<in> dirs w \<Longrightarrow>
   open_write p w = (Inr (), log_event (OpenFile p) (w\<lparr>files := (files w)(p \<mapsto> FileEmpty)\<rparr>))"
  by (simp add: open_write_def)

lemma write_file_apply [simp]:
  "write_file p doc w = (Inr (), log_event (WriteFile p) (w\<lparr>files := (files w)(p \<mapsto> FileJson doc)\<rparr>))"
  by (simp add: write_file_def)

end
