(* ===== verification/PyBuiltins.thy ===== *)
theory PyBuiltins
  imports Prelude
begin

text \<open>
  The Python built-ins that \<open>src/main.py\<close> applies to its data: \<open>str\<close> of an integer
  (the artifact file name of \<open>View.write_json\<close>), \<open>int(math.ceil(a / b))\<close> (the segment
  length of \<open>do_parallel\<close>), \<open>bool\<close> of a string and \<open>str.lower\<close> (the two argument
  converters of the command line). \<open>parse_int\<close> is the inverse of \<open>str\<close> used to read
  coordinates back out of a file name; the round trip and the injectivity of \<open>str\<close> are
  proved here.
\<close>

section \<open>Decimal rendering of integers\<close>

definition digit_char :: "nat \<Rightarrow> char" where
  "digit_char d = char_of (48 + d)"

fun py_str_nat :: "nat \<Rightarrow> string" where
  "py_str_nat n =
     (if n < 10 then [digit_char n] else py_str_nat (n div 10) @ [digit_char (n mod 10)])"

declare py_str_nat.simps [simp del]

text \<open>\<open>str(i)\<close>: a minus sign, then the decimal digits of \<open>|i|\<close>, no leading zeros.\<close>

definition py_str_int :: "int \<Rightarrow> string" where
  "py_str_int i =
     (if i < 0 then CHR ''-'' # py_str_nat (nat (- i)) else py_str_nat (nat i))"

definition digit_val :: "char \<Rightarrow> nat option" where
  "digit_val c = (let k = of_char c in if 48 \<le> k \<and> k < 58 then Some (k - 48) else None)"

fun parse_nat_acc :: "nat \<Rightarrow> string \<Rightarrow> nat option" where
  "parse_nat_acc acc [] = Some acc"
| "parse_nat_acc acc (c # cs) =
     (case digit_val c of None \<Rightarrow> None | Some d \<Rightarrow> parse_nat_acc (10 * acc + d) cs)"

definition parse_nat :: "string \<Rightarrow> nat option" where
  "parse_nat s = (if s = [] then None else parse_nat_acc 0 s)"

definition parse_int :: "string \<Rightarrow> int option" where
  "parse_int s =
     (case s of
        c # t \<Rightarrow> (if c = CHR ''-'' then map_option (\<lambda>n. - int n) (parse_nat t)
                 else map_option int (parse_nat s))
      | [] \<Rightarrow> None)"

section \<open>Ceiling division and the argument converters\<close>

text \<open>
  \<open>int(math.ceil(a / b))\<close>. Python divides in floating point; for \<open>|a| < 2^53\<close>
  (every chromosome length) the rounded quotient has the same ceiling as the exact one,
  so the model computes the exact ceiling, \<open>-((-a) div b)\<close> with Python's floor
  division. Dividing by zero raises ZeroDivisionError.
\<close>

definition py_ceil_div :: "int \<Rightarrow> int \<Rightarrow> int result" where
  "py_ceil_div a b = (if b = 0 then Inl ZeroDivisionError else Inr (- ((- a) div b)))"

text \<open>\<open>bool(s)\<close> on a string: true exactly when the string is not empty.\<close>

definition py_bool_of_str :: "string \<Rightarrow> bool" where
  "py_bool_of_str s = (s \<noteq> [])"

text \<open>\<open>str.lower\<close> on ASCII letters (the option values of the command line).\<close>

definition py_lower_char :: "char \<Rightarrow> char" where
  "py_lower_char c =
     (if CHR ''A'' \<le> c \<and> c \<le> CHR ''Z'' then char_of (of_char c + (32::nat)) else c)"

definition py_lower :: "string \<Rightarrow> string" where
  "py_lower s = map py_lower_char s"

section \<open>Lemmas\<close>

lemma digit_char_eval [eval_simps]:
  "digit_char 0 = CHR ''0''" "digit_char 1 = CHR ''1''" "digit_char 2 = CHR ''2''"
  "digit_char 3 = CHR ''3''" "digit_char 4 = CHR ''4''" "digit_char 5 = CHR ''5''"
  "digit_char 6 = CHR ''6''" "digit_char 7 = CHR ''7''" "digit_char 8 = CHR ''8''"
  "digit_char 9 = CHR ''9''"
  by code_simp+

lemma of_char_digit_char: "d < 10 \<Longrightarrow> of_char (digit_char d) = 48 + d"
  by (simp add: digit_char_def)

lemma digit_val_digit_char [simp]: "d < 10 \<Longrightarrow> digit_val (digit_char d) = Some d"
  by (simp add: digit_val_def of_char_digit_char)

lemma digit_char_not_sep:
  assumes "d < 10"
  shows "digit_char d \<noteq> CHR ''-'' \<and> digit_char d \<noteq> CHR ''_'' \<and> digit_char d \<noteq> CHR ''.''
         \<and> digit_char d \<noteq> CHR ''/''"
proof -
  have o: "of_char (digit_char d) = 48 + d"
    using assms by (rule of_char_digit_char)
  have "of_char (digit_char d) \<noteq> (of_char CHR ''-'' :: nat)"
    and "of_char (digit_char d) \<noteq> (of_char CHR ''_'' :: nat)"
    and "of_char (digit_char d) \<noteq> (of_char CHR ''.'' :: nat)"
    and "of_char (digit_char d) \<noteq> (of_char CHR ''/'' :: nat)"
    using assms by (simp_all add: o)
  then show ?thesis by metis
qed

lemma py_str_nat_digits: "set (py_str_nat n) \<subseteq> digit_char ` {..<10}"
proof (induction n rule: py_str_nat.induct)
  case (1 n)
  show ?case
  proof (cases "n < 10")
    case True
    then show ?thesis by (simp add: py_str_nat.simps [of n])
  next
    case False
    then have "set (py_str_nat n) = set (py_str_nat (n div 10)) \<union> {digit_char (n mod 10)}"
      by (simp add: py_str_nat.simps [of n])
    with False "1.IH" show ?thesis by auto
  qed
qed

lemma py_str_nat_no_sep:
  "CHR ''-'' \<notin> set (py_str_nat n) \<and> CHR ''_'' \<notin> set (py_str_nat n)
   \<and> CHR ''.'' \<notin> set (py_str_nat n) \<and> CHR ''/'' \<notin> set (py_str_nat n)"
proof -
  have sep: "c \<noteq> CHR ''-'' \<and> c \<noteq> CHR ''_'' \<and> c \<noteq> CHR ''.'' \<and> c \<noteq> CHR ''/''" if c: "c \<in> set (py_str_nat n)" for c
  proof -
    obtain d where d: "d < 10" and cd: "c = digit_char d"
      using c py_str_nat_digits [of n] by blast
    from d have "digit_char d \<noteq> CHR ''-'' \<and> digit_char d \<noteq> CHR ''_'' \<and> digit_char d \<noteq> CHR ''.''
        \<and> digit_char d \<noteq> CHR ''/''"
      by (rule digit_char_not_sep)
    then show ?thesis unfolding cd .
  qed
  show ?thesis
    using sep [of "CHR ''-''"] sep [of "CHR ''_''"] sep [of "CHR ''.''"] sep [of "CHR ''/''"]
    by auto
qed

lemma py_str_nat_not_Nil [simp]: "py_str_nat n \<noteq> []"
  by (simp add: py_str_nat.simps [of n])

lemma parse_nat_acc_append:
  "parse_nat_acc acc (xs @ ys) =
     (case parse_nat_acc acc xs of None \<Rightarrow> None | Some a \<Rightarrow> parse_nat_acc a ys)"
  by (induction acc xs rule: parse_nat_acc.induct) (auto split: option.splits)

lemma parse_nat_acc_py_str_nat:
  "parse_nat_acc acc (py_str_nat n) = Some (acc * 10 ^ length (py_str_nat n) + n)"
proof (induction n arbitrary: acc rule: py_str_nat.induct)
  case (1 n)
  show ?case
  proof (cases "n < 10")
    case True
    then show ?thesis by (simp add: py_str_nat.simps [of n])
  next
    case False
    then have "parse_nat_acc acc (py_str_nat n) =
        parse_nat_acc (acc * 10 ^ length (py_str_nat (n div 10)) + n div 10) [digit_char (n mod 10)]"
      using "1.IH" by (simp add: py_str_nat.simps [of n] parse_nat_acc_append)
    also have "\<dots> = Some (acc * 10 ^ length (py_str_nat n) + n)"
      using False by (simp add: py_str_nat.simps [of n] algebra_simps)
    finally show ?thesis .
  qed
qed

lemma parse_nat_py_str_nat [simp]: "parse_nat (py_str_nat n) = Some n"
  by (simp add: parse_nat_def parse_nat_acc_py_str_nat)

lemma parse_int_py_str_int [simp]: "parse_int (py_str_int i) = Some i"
proof (cases "i < 0")
  case True
  then show ?thesis by (simp add: py_str_int_def parse_int_def)
next
  case False
  obtain c t where ct: "py_str_nat (nat i) = c # t"
    by (cases "py_str_nat (nat i)") auto
  have "c \<noteq> CHR ''-''"
    using py_str_nat_no_sep [of "nat i"] ct by auto
  moreover have "parse_nat (c # t) = Some (nat i)"
    by (metis ct parse_nat_py_str_nat)
  ultimately show ?thesis
    using False by (simp add: py_str_int_def parse_int_def ct)
qed

lemma py_str_int_inj: "py_str_int i = py_str_int j \<longleftrightarrow> i = j"
  by (metis option.inject parse_int_py_str_int)

lemma py_str_int_no_sep:
  "CHR ''_'' \<notin> set (py_str_int i) \<and> CHR ''.'' \<notin> set (py_str_int i) \<and> CHR ''/'' \<notin> set (py_str_int i)"
  using py_str_nat_no_sep by (simp add: py_str_int_def)

lemma py_ceil_div_pos:
  assumes "0 < b"
  shows "\<exists>c. py_ceil_div a b = Inr c \<and> (c - 1) * b < a \<and> a \<le> c * b"
proof -
  define q r where "q = (- a) div b" and "r = (- a) mod b"
  have qr: "q * b + r = - a"
    by (simp add: q_def r_def div_mult_mod_eq)
  have r: "0 \<le> r" "r < b"
    using assms by (simp_all add: r_def)
  have l1: "- (q * b) - b < a" and l2: "a \<le> - (q * b)"
    using qr r by linarith+
  have "(- q - 1) * b = - (q * b) - b" and "- q * b = - (q * b)"
    by (simp_all add: algebra_simps)
  with l1 l2 have "(- q - 1) * b < a \<and> a \<le> - q * b"
    by simp
  moreover have "py_ceil_div a b = Inr (- q)"
    using assms by (simp add: py_ceil_div_def q_def)
  ultimately show ?thesis by blast
qed

lemma py_ceil_div_nonneg:
  assumes "0 \<le> a" and "0 < b" and "py_ceil_div a b = Inr c"
  shows "0 \<le> c"
proof -
  from py_ceil_div_pos [OF assms(2), of a] assms(3) have "a \<le> c * b"
    by auto
  with assms(1) have "0 \<le> c * b" by linarith
  with assms(2) show ?thesis by (simp add: zero_le_mult_iff)
qed

lemma py_ceil_div_pos_pos:
  assumes "0 < a" and "0 < b" and "py_ceil_div a b = Inr c"
  shows "0 < c"
proof -
  from py_ceil_div_pos [OF assms(2), of a] assms(3) have "a \<le> c * b"
    by auto
  with assms(1) have "0 < c * b" by linarith
  with assms(2) show ?thesis by (simp add: zero_less_mult_iff)
qed

end
