(* ===== verification/Orchestrator.thy ===== *)
theory Orchestrator
  imports FileSystem PyBuiltins
begin

text \<open>
  The region orchestrator, class \<open>View\<close> of \<open>src/main.py\<close> (lines 80--159).
  \<open>parse_region\<close> fetches the reads of the region, lets the window detector
  (\<open>CandidateFinder\<close>) turn them into windows, and for each window fetches the reference
  and the pileup columns over \<open>[start, end + 1)\<close>, lets the allele enumerator
  (\<open>AlleleFinder\<close>) build the window's candidate list and appends it to the region result;
  with \<open>json_out\<close> it then writes the result with \<open>write_json\<close>.

  The collaborators are the fields of a \<open>pipeline\<close> record: the BAM and FASTA handlers
  (\<open>get_reads\<close>, \<open>get_pileupcolumns\<close>, \<open>get_sequence\<close>), the two finders, and the
  Python object of a candidate list as the JSON encoder sees it. Every lemma of this theory
  holds for any pipeline; \<open>Detector\<close> supplies the concrete finders. Calls to the
  sources are logged in the world, so that the order of the program's I/O is part of its
  result. The debug flags \<open>DEBUG_PRINT_WINDOWS\<close> and \<open>DEBUG_PRINT_CANDIDATES\<close> are
  constant \<open>False\<close>: their prints never run and are omitted.
\<close>

type_synonym window = "string \<times> int \<times> int"

record ('r, 'p, 'c) pipeline =
  get_reads :: "string \<Rightarrow> int \<Rightarrow> int \<Rightarrow> 'r list"
  get_pileupcolumns :: "string \<Rightarrow> int \<Rightarrow> int \<Rightarrow> 'p list"
  get_sequence :: "string \<Rightarrow> int \<Rightarrow> int \<Rightarrow> string"
  candidate_windows :: "string \<Rightarrow> int \<Rightarrow> int \<Rightarrow> 'r list \<Rightarrow> window list"
  candidate_alleles :: "string \<Rightarrow> int \<Rightarrow> int \<Rightarrow> 'p list \<Rightarrow> string \<Rightarrow> 'c"
  candidate_obj :: "'c \<Rightarrow> pyval"

record view =
  view_chromosome :: string
  view_bam :: string
  view_ref :: string
  view_output_dir :: string

section \<open>Calls to the sources\<close>

definition fetch_reads :: "('r, 'p, 'c) pipeline \<Rightarrow> string \<Rightarrow> int \<Rightarrow> int \<Rightarrow> (world, 'r list) st" where
  "fetch_reads pl c s e = (\<lambda>w. (Inr (get_reads pl c s e), log_event (GetReads c s e) w))"

definition fetch_sequence :: "('r, 'p, 'c) pipeline \<Rightarrow> string \<Rightarrow> int \<Rightarrow> int \<Rightarrow> (world, string) st" where
  "fetch_sequence pl c s e = (\<lambda>w. (Inr (get_sequence pl c s e), log_event (GetSequence c s e) w))"

definition fetch_pileupcolumns ::
  "('r, 'p, 'c) pipeline \<Rightarrow> string \<Rightarrow> int \<Rightarrow> int \<Rightarrow> (world, 'p list) st" where
  "fetch_pileupcolumns pl c s e =
     (\<lambda>w. (Inr (get_pileupcolumns pl c s e), log_event (GetPileup c s e) w))"

section \<open>parse_region\<close>

text \<open>The loop over the windows (lines 133--148).\<close>

fun process_windows ::
  "('r, 'p, 'c) pipeline \<Rightarrow> window list \<Rightarrow> 'c all_candidates_in_region \<Rightarrow>
   (world, 'c all_candidates_in_region) st" where
  "process_windows pl [] acc = st_return acc"
| "process_windows pl ((chr_name, window_start, window_end) # wins) acc =
     st_bind (fetch_sequence pl chr_name window_start (window_end + 1)) (\<lambda>reference_sequence.
     st_bind (fetch_pileupcolumns pl chr_name window_start (window_end + 1)) (\<lambda>pileup_columns.
       process_windows pl wins
         (add_candidate_to_list acc
            (candidate_alleles pl chr_name window_start window_end pileup_columns
               reference_sequence))))"

text \<open>The artifact name of \<open>write_json\<close> (lines 103--104).\<close>

definition json_output_dir :: "string \<Rightarrow> string" where
  "json_output_dir out = out @ ''json_output/''"

definition artifact_path :: "string \<Rightarrow> string \<Rightarrow> int \<Rightarrow> int \<Rightarrow> string" where
  "artifact_path out chr start stop =
     json_output_dir out @ ''Candidates'' @ ''_'' @ chr @ ''_'' @ py_str_int start @ ''_''
       @ py_str_int stop @ ''.json''"

text \<open>\<open>write_json\<close> (lines 93--105): create \<open>json_output/\<close> when it does not exist, open
  the artifact (which creates it empty), encode the result, write the document.\<close>

definition write_json ::
  "('r, 'p, 'c) pipeline \<Rightarrow> view \<Rightarrow> int \<Rightarrow> int \<Rightarrow> 'c all_candidates_in_region \<Rightarrow>
   (world, unit) st" where
  "write_json pl v start stop r =
     (let d = json_output_dir (view_output_dir v);
          path = artifact_path (view_output_dir v) (view_chromosome v) start stop in
      st_bind (os_path_exists d) (\<lambda>ex.
      st_bind (if ex then st_return () else os_mkdir d) (\<lambda>_.
      st_bind (open_write path) (\<lambda>_.
        case json_dumps_sorted (region_reprJSON (candidate_obj pl) r) of
          Inl e \<Rightarrow> st_raise e
        | Inr doc \<Rightarrow> write_file path doc))))"

text \<open>\<open>parse_region\<close> (lines 107--151). Python returns \<open>None\<close>; the model returns the
  region result the method has assembled, which is what its caller could observe through
  the artifact.\<close>

definition parse_region ::
  "('r, 'p, 'c) pipeline \<Rightarrow> view \<Rightarrow> int \<Rightarrow> int \<Rightarrow> bool \<Rightarrow>
   (world, 'c all_candidates_in_region) st" where
  "parse_region pl v start_pos end_pos json_out =
     st_bind (fetch_reads pl (view_chromosome v) start_pos end_pos) (\<lambda>reads.
     let candidate_windows = candidate_windows pl (view_chromosome v) start_pos end_pos reads in
     st_bind (process_windows pl candidate_windows
                (init_all_candidates_in_region (view_chromosome v) start_pos end_pos))
       (\<lambda>all_candidate_lists.
     st_bind (if json_out then write_json pl v start_pos end_pos all_candidate_lists
              else st_return ())
       (\<lambda>_. st_return all_candidate_lists)))"

text \<open>\<open>View.test\<close> (lines 153--159): the fixed region \<open>[100000, 200000]\<close>.\<close>

definition view_test :: "('r, 'p, 'c) pipeline \<Rightarrow> view \<Rightarrow> bool \<Rightarrow> (world, 'c all_candidates_in_region) st" where
  "view_test pl v json_out = parse_region pl v 100000 200000 json_out"

section \<open>What a run is expected to produce\<close>

text \<open>The candidate list of one window, built from the sources over \<open>[start, end + 1)\<close>,
  and the two fetches that window causes.\<close>

definition window_alleles :: "('r, 'p, 'c) pipeline \<Rightarrow> window \<Rightarrow> 'c" where
  "window_alleles pl win =
     (case win of (c, ws, we) \<Rightarrow>
        candidate_alleles pl c ws we (get_pileupcolumns pl c ws (we + 1)) (get_sequence pl c ws (we + 1)))"

definition window_fetches :: "window \<Rightarrow> io_event list" where
  "window_fetches win =
     (case win of (c, ws, we) \<Rightarrow> [GetSequence c ws (we + 1), GetPileup c ws (we + 1)])"

definition region_windows :: "('r, 'p, 'c) pipeline \<Rightarrow> view \<Rightarrow> int \<Rightarrow> int \<Rightarrow> window list" where
  "region_windows pl v s e =
     candidate_windows pl (view_chromosome v) s e (get_reads pl (view_chromosome v) s e)"

definition expected_region ::
  "('r, 'p, 'c) pipeline \<Rightarrow> view \<Rightarrow> int \<Rightarrow> int \<Rightarrow> 'c all_candidates_in_region" where
  "expected_region pl v s e =
     \<lparr>chromosome_name = view_chromosome v, start_position = s, end_position = e,
      all_candidates = map (window_alleles pl) (region_windows pl v s e)\<rparr>"

definition read_log :: "('r, 'p, 'c) pipeline \<Rightarrow> view \<Rightarrow> int \<Rightarrow> int \<Rightarrow> io_event list" where
  "read_log pl v s e =
     GetReads (view_chromosome v) s e # concat (map window_fetches (region_windows pl v s e))"

definition opened_world :: "string \<Rightarrow> string \<Rightarrow> world \<Rightarrow> world" where
  "opened_world d path w =
     (let wd = (if d \<in> dirs w then w else log_event (MakeDir d) (w\<lparr>dirs := insert d (dirs w)\<rparr>))
      in log_event (OpenFile path) (wd\<lparr>files := (files wd)(path \<mapsto> FileEmpty)\<rparr>))"

text \<open>A small configuration used by the witnesses: one read, one window around position
  150000, candidate lists standing for themselves as integers.\<close>

abbreviation example_pipeline :: "(unit, unit, int) pipeline" where
  "example_pipeline \<equiv>
     \<lparr>get_reads = (\<lambda>_ _ _. [()]), get_pileupcolumns = (\<lambda>_ _ _. []),
      get_sequence = (\<lambda>_ _ _. ''AC''),
      candidate_windows = (\<lambda>c _ _ rs. if rs = [] then [] else [(c, 150000, 150000)]),
      candidate_alleles = (\<lambda>_ _ _ _ _. 1), candidate_obj = PyInt\<rparr>"

abbreviation example_view :: view where
  "example_view \<equiv> \<lparr>view_chromosome = ''3'', view_bam = ''b.bam'', view_ref = ''r.fa'',
     view_output_dir = ''output/''\<rparr>"

abbreviation example_world :: "string set \<Rightarrow> world" where
  "example_world ds \<equiv> \<lparr>dirs = ds, files = Map.empty, io_log = []\<rparr>"

section \<open>Lemmas\<close>

lemma fetch_apply [simp]:
  "fetch_reads pl c s e w = (Inr (get_reads pl c s e), log_event (GetReads c s e) w)"
  "fetch_sequence pl c s e w = (Inr (get_sequence pl c s e), log_event (GetSequence c s e) w)"
  "fetch_pileupcolumns pl c s e w = (Inr (get_pileupcolumns pl c s e), log_event (GetPileup c s e) w)"
  by (simp_all add: fetch_reads_def fetch_sequence_def fetch_pileupcolumns_def)

lemma process_windows_run:
  "process_windows pl wins acc w =
     (Inr (acc\<lparr>all_candidates := all_candidates acc @ map (window_alleles pl) wins\<rparr>),
      w\<lparr>io_log := io_log w @ concat (map window_fetches wins)\<rparr>)"
proof (induction pl wins acc arbitrary: w rule: process_windows.induct)
  case (1 pl acc)
  then show ?case by simp
next
  case (2 pl chr_name ws we wins acc)
  then show ?case
    by (simp add: add_candidate_to_list_def window_alleles_def window_fetches_def log_event_def)
qed

lemma parse_region_run:
  "parse_region pl v s e json_out w =
     st_bind (if json_out then write_json pl v s e (expected_region pl v s e) else st_return ())
       (\<lambda>_. st_return (expected_region pl v s e)) (w\<lparr>io_log := io_log w @ read_log pl v s e\<rparr>)"
  by (simp add: parse_region_def process_windows_run init_all_candidates_in_region_def
      expected_region_def read_log_def region_windows_def log_event_def)

lemma artifact_path_split:
  "artifact_path out chr s e =
     (out @ ''json_output'') @ CHR ''/'' # (''Candidates_'' @ chr @ ''_'' @ py_str_int s @ ''_'' @ py_str_int e @ ''.json'')"
  by (simp add: artifact_path_def json_output_dir_def)

lemma parent_artifact_path:
  "CHR ''/'' \<notin> set chr \<Longrightarrow> parent_dir (artifact_path out chr s e) = json_output_dir out"
  unfolding artifact_path_split
  by (subst parent_dir_append_name) (auto simp: json_output_dir_def py_str_int_no_sep)

lemma parent_json_output_dir:
  "out \<noteq> [] \<Longrightarrow> last out = CHR ''/'' \<Longrightarrow> parent_dir (json_output_dir out) = out"
  using parent_dir_subdir [of "''json_output''" out] by (simp add: json_output_dir_def)

lemma artifact_path_not_dir: "artifact_path out chr s e \<noteq> json_output_dir out"
proof -
  have "last (artifact_path out chr s e) = CHR ''n''"
    by (simp add: artifact_path_def)
  moreover have "last (json_output_dir out) = CHR ''/''"
    by (simp add: json_output_dir_def)
  ultimately show ?thesis by auto
qed

lemma write_json_run:
  assumes out: "view_output_dir v \<noteq> []" "last (view_output_dir v) = CHR ''/''"
      "view_output_dir v \<in> dirs w"
    and chr: "CHR ''/'' \<notin> set (view_chromosome v)"
    and nofile: "files w (json_output_dir (view_output_dir v)) = None"
    and notdir: "artifact_path (view_output_dir v) (view_chromosome v) s e \<notin> dirs w"
  shows "write_json pl v s e r w =
     (let path = artifact_path (view_output_dir v) (view_chromosome v) s e;
          wo = opened_world (json_output_dir (view_output_dir v)) path w
      in case json_dumps_sorted (region_reprJSON (candidate_obj pl) r) of
           Inl err \<Rightarrow> (Inl err, wo)
         | Inr doc \<Rightarrow> write_file path doc wo)"
proof -
  define d where "d = json_output_dir (view_output_dir v)"
  define path where "path = artifact_path (view_output_dir v) (view_chromosome v) s e"
  have pd: "parent_dir d = view_output_dir v"
    using out(1,2) by (simp add: d_def parent_json_output_dir)
  have pp: "parent_dir path = d"
    using chr by (simp add: path_def d_def parent_artifact_path)
  have nd: "path \<noteq> d"
    by (simp add: path_def d_def artifact_path_not_dir)
  show ?thesis
  proof (cases "d \<in> dirs w")
    case True
    then have "path_exists w d" by (simp add: path_exists_def)
    moreover have "open_write path w =
        (Inr (), log_event (OpenFile path) (w\<lparr>files := (files w)(path \<mapsto> FileEmpty)\<rparr>))"
      using notdir True pp by (simp add: path_def open_write_ok)
    ultimately show ?thesis
      using True by (simp add: write_json_def Let_def d_def [symmetric] path_def [symmetric]
          opened_world_def split: sum.splits)
  next
    case False
    then have ne: "\<not> path_exists w d"
      using nofile by (simp add: path_exists_def d_def)
    let ?wd = "log_event (MakeDir d) (w\<lparr>dirs := insert d (dirs w)\<rparr>)"
    have mk: "os_mkdir d w = (Inr (), ?wd)"
      using ne out(3) pd by (simp add: os_mkdir_ok)
    have op: "open_write path ?wd =
        (Inr (), log_event (OpenFile path) (?wd\<lparr>files := (files ?wd)(path \<mapsto> FileEmpty)\<rparr>))"
      using notdir nd pp by (simp add: path_def open_write_ok)
    show ?thesis
      using ne False mk op by (simp add: write_json_def Let_def d_def [symmetric] path_def [symmetric]
          opened_world_def split: sum.splits)
  qed
qed

lemma split_first_sep:
  "ys @ c # xs = ys' @ c # xs' \<Longrightarrow> c \<notin> set ys \<Longrightarrow> c \<notin> set ys' \<Longrightarrow> ys = ys' \<and> xs = xs'"
proof (induction ys arbitrary: ys')
  case Nil
  then show ?case by (cases ys') auto
next
  case (Cons y ys)
  then show ?case by (cases ys') auto
qed

lemma split_last_sep:
  assumes "xs @ c # ys = xs' @ c # ys'" and "c \<notin> set ys" and "c \<notin> set ys'"
  shows "xs = xs' \<and> ys = ys'"
proof -
  from assms(1) have "rev (xs @ c # ys) = rev (xs' @ c # ys')" by simp
  then have "rev ys @ c # rev xs = rev ys' @ c # rev xs'" by simp
  with assms(2,3) have "rev ys = rev ys' \<and> rev xs = rev xs'"
    by (intro split_first_sep) auto
  then show ?thesis by simp
qed

lemma parse_region_result:
  "fst (parse_region pl v s e j w) = Inr r \<Longrightarrow> r = expected_region pl v s e"
  by (auto simp: parse_region_run st_bind_def split: sum.splits prod.splits if_splits)

lemma artifact_path_inj:
  assumes "artifact_path out c s e = artifact_path out c' s' e'"
  shows "c = c' \<and> s = s' \<and> e = e'"
proof -
  let ?u = "CHR ''_''"
  have nu: "?u \<notin> set (py_str_int i)" for i using py_str_int_no_sep by blast
  from assms have eq: "(c @ ?u # py_str_int s) @ ?u # (py_str_int e @ ''.json'') =
                   (c' @ ?u # py_str_int s') @ ?u # (py_str_int e' @ ''.json'')"
    by (simp add: artifact_path_def)
  have "?u \<notin> set (py_str_int e @ ''.json'')" and "?u \<notin> set (py_str_int e' @ ''.json'')"
    using nu by simp_all
  from split_last_sep [OF eq this] have 1: "c @ ?u # py_str_int s = c' @ ?u # py_str_int s'"
    and 2: "py_str_int e @ ''.json'' = py_str_int e' @ ''.json''"
    by blast+
  from split_last_sep [OF 1 nu nu] have "c = c' \<and> py_str_int s = py_str_int s'" .
  with 2 show ?thesis by (simp add: py_str_int_inj)
qed

section \<open>Properties of a region run\<close>

text \<open>C2: Without JSON output, \<open>parse_region\<close> returns one candidate list per window of the
  window detector, in the detector's order, each built from the reference and pileup over
  \<open>[start, end + 1)\<close>; it calls the sources in the order reads, then sequence and
  pileup window by window, and touches no file or directory.\<close>

theorem parse_region_no_json:
  "parse_region pl v s e False w =
     (Inr (expected_region pl v s e), w\<lparr>io_log := io_log w @ read_log pl v s e\<rparr>)"
  by (simp add: parse_region_run)

text \<open>C3: With JSON output into an existing, slash-terminated output directory,
  \<open>parse_region\<close> returns the same result, creates \<open>json_output/\<close> when needed and
  stores the encoding of exactly that result in its artifact, changing no other file; the
  artifact is opened and written only after every fetch of the region.\<close>

theorem parse_region_json_writes:
  assumes out: "view_output_dir v \<noteq> []" "last (view_output_dir v) = CHR ''/''"
      "view_output_dir v \<in> dirs w"
    and chr: "CHR ''/'' \<notin> set (view_chromosome v)"
    and nofile: "files w (json_output_dir (view_output_dir v)) = None"
    and notdir: "artifact_path (view_output_dir v) (view_chromosome v) s e \<notin> dirs w"
    and enc: "\<And>c. py_to_json (candidate_obj pl c) = Inr (enc c)"
  shows "\<exists>doc w'. parse_region pl v s e True w = (Inr (expected_region pl v s e), w') \<and>
     json_dumps_sorted (region_reprJSON (candidate_obj pl) (expected_region pl v s e)) = Inr doc \<and>
     files w' = (files w)(artifact_path (view_output_dir v) (view_chromosome v) s e \<mapsto> FileJson doc) \<and>
     json_output_dir (view_output_dir v) \<in> dirs w' \<and>
     (\<exists>mk. io_log w' = io_log w @ read_log pl v s e @ mk @
        [OpenFile (artifact_path (view_output_dir v) (view_chromosome v) s e),
         WriteFile (artifact_path (view_output_dir v) (view_chromosome v) s e)])"
proof -
  let ?w1 = "w\<lparr>io_log := io_log w @ read_log pl v s e\<rparr>"
  let ?r = "expected_region pl v s e"
  let ?path = "artifact_path (view_output_dir v) (view_chromosome v) s e"
  let ?d = "json_output_dir (view_output_dir v)"
  obtain doc where doc: "json_dumps_sorted (region_reprJSON (candidate_obj pl) ?r) = Inr doc"
    using region_dumps [of ?r "candidate_obj pl" enc] enc by blast
  have run: "write_json pl v s e ?r ?w1 = write_file ?path doc (opened_world ?d ?path ?w1)"
    using write_json_run [of v ?w1 s e pl ?r] out chr nofile notdir doc by (simp add: Let_def)
  show ?thesis
    using doc
    by (auto simp: parse_region_run run opened_world_def Let_def intro!: exI [of _ "if ?d \<in> dirs w then [] else [MakeDir ?d]"])
qed

text \<open>C25: When the output directory does not exist, \<open>os.mkdir\<close> of \<open>json_output/\<close>
  raises FileNotFoundError out of \<open>parse_region\<close>, and no file or directory is created.\<close>

theorem parse_region_missing_output_dir:
  assumes "view_output_dir v \<noteq> []" "last (view_output_dir v) = CHR ''/''"
    and "view_output_dir v \<notin> dirs w"
    and "\<not> path_exists w (json_output_dir (view_output_dir v))"
  shows "\<exists>w'. parse_region pl v s e True w = (Inl FileNotFoundError, w') \<and> files w' = files w \<and>
     dirs w' = dirs w"
proof -
  let ?w1 = "w\<lparr>io_log := io_log w @ read_log pl v s e\<rparr>"
  have mk: "os_mkdir (json_output_dir (view_output_dir v)) ?w1 = (Inl FileNotFoundError, ?w1)"
    using assms by (simp add: os_mkdir_no_parent parent_json_output_dir path_exists_def)
  have "write_json pl v s e (expected_region pl v s e) ?w1 = (Inl FileNotFoundError, ?w1)"
    using assms(4) mk by (simp add: write_json_def Let_def path_exists_def st_bind_def)
  then show ?thesis
    by (simp add: parse_region_run)
qed

text \<open>C26: When a candidate list cannot be encoded, \<open>parse_region\<close> raises TypeError after
  \<open>open(path, 'w')\<close> has already created the artifact: an empty artifact is left behind.\<close>

theorem parse_region_type_error_partial_artifact:
  assumes out: "view_output_dir v \<noteq> []" "last (view_output_dir v) = CHR ''/''"
      "view_output_dir v \<in> dirs w"
    and chr: "CHR ''/'' \<notin> set (view_chromosome v)"
    and nofile: "files w (json_output_dir (view_output_dir v)) = None"
    and notdir: "artifact_path (view_output_dir v) (view_chromosome v) s e \<notin> dirs w"
    and win: "win \<in> set (region_windows pl v s e)"
    and bad: "candidate_obj pl (window_alleles pl win) = PyObject cls None"
  shows "\<exists>w'. parse_region pl v s e True w = (Inl TypeError, w') \<and>
     files w' (artifact_path (view_output_dir v) (view_chromosome v) s e) = Some FileEmpty"
proof -
  let ?w1 = "w\<lparr>io_log := io_log w @ read_log pl v s e\<rparr>"
  let ?r = "expected_region pl v s e"
  let ?path = "artifact_path (view_output_dir v) (view_chromosome v) s e"
  let ?d = "json_output_dir (view_output_dir v)"
  have "window_alleles pl win \<in> set (all_candidates ?r)"
    using win by (simp add: expected_region_def)
  then have te: "json_dumps_sorted (region_reprJSON (candidate_obj pl) ?r) = Inl TypeError"
    using bad by (rule region_dumps_type_error)
  have run: "write_json pl v s e ?r ?w1 = (Inl TypeError, opened_world ?d ?path ?w1)"
    using write_json_run [of v ?w1 s e pl ?r] out chr nofile notdir te by simp
  show ?thesis
    by (simp add: parse_region_run run opened_world_def Let_def)
qed

section \<open>Witnesses\<close>

theorem parse_region_json_writes_witness:
  "\<exists>doc w'. parse_region example_pipeline example_view 100000 200000 True
       (example_world {'''', ''output/''}) =
       (Inr (expected_region example_pipeline example_view 100000 200000), w') \<and>
     json_dumps_sorted (region_reprJSON PyInt (expected_region example_pipeline example_view 100000 200000))
       = Inr doc \<and>
     files w' = Map.empty(artifact_path ''output/'' ''3'' 100000 200000 \<mapsto> FileJson doc) \<and>
     json_output_dir ''output/'' \<in> dirs w' \<and>
     (\<exists>mk. io_log w' = read_log example_pipeline example_view 100000 200000 @ mk @
        [OpenFile (artifact_path ''output/'' ''3'' 100000 200000),
         WriteFile (artifact_path ''output/'' ''3'' 100000 200000)])"
  using parse_region_json_writes [where pl = example_pipeline and v = example_view
      and w = "example_world {'''', ''output/''}" and s = 100000 and e = 200000 and enc = JInt]
  by (simp add: artifact_path_def json_output_dir_def)

theorem parse_region_missing_output_dir_witness:
  "\<exists>w'. parse_region example_pipeline example_view 100000 200000 True (example_world {''''}) =
     (Inl FileNotFoundError, w') \<and> files w' = Map.empty \<and> dirs w' = {''''}"
  using parse_region_missing_output_dir [where pl = example_pipeline and v = example_view
      and w = "example_world {''''}" and s = 100000 and e = 200000]
  by (simp add: json_output_dir_def path_exists_def)

theorem parse_region_type_error_partial_artifact_witness:
  "\<exists>w'. parse_region (example_pipeline\<lparr>candidate_obj := \<lambda>_. PyObject ''CandidateList'' None\<rparr>)
       example_view 100000 200000 True (example_world {'''', ''output/''}) = (Inl TypeError, w') \<and>
     files w' (artifact_path ''output/'' ''3'' 100000 200000) = Some FileEmpty"
  using parse_region_type_error_partial_artifact
      [where pl = "example_pipeline\<lparr>candidate_obj := \<lambda>_. PyObject ''CandidateList'' None\<rparr>"
       and v = example_view and w = "example_world {'''', ''output/''}" and s = 100000 and e = 200000
       and win = "(''3'', 150000, 150000)" and cls = "''CandidateList''"]
  by (simp add: artifact_path_def json_output_dir_def region_windows_def window_alleles_def)

end
