(* ===== verification/WindowDetector.thy ===== *)
theory WindowDetector
  imports Prelude
begin

text \<open>
  The window detector, \<open>modules/CandidateFinder\<close>, which is not under \<open>src/\<close> and is modelled
  from the specification (section 4.1). \<open>main.py\<close> constructs it with the reads, the
  reference, the chromosome and the region, then calls \<open>parse_reads\<close>, \<open>merge_positions\<close>
  and \<open>get_candidate_windows\<close>.

  A read is its start coordinate, its alignment operations and its bases. Scanning walks
  the operations against reference coordinates: an aligned base that differs from the
  reference flags its coordinate, an insertion flags the coordinate it precedes, a deletion
  flags every deleted coordinate. A coordinate whose reference base cannot be read is
  skipped and recorded as a diagnostic. Reads rejected by the configurable filter are not
  scanned. Flagged coordinates are counted in a dictionary kept in insertion order, as a
  Python \<open>dict\<close>. Merging sorts the flagged coordinates and joins two neighbours into one
  window when they are at most \<open>G\<close> apart.
\<close>

datatype aln_op = AlnMatch nat | AlnIns nat | AlnDel nat

record aligned_read =
  read_start :: int
  read_ops :: "aln_op list"
  read_bases :: string

record candidate_finder =
  cf_chromosome :: string
  cf_positions :: "(int \<times> nat) list"
  cf_diagnostics :: "int list"
  cf_windows :: "(string \<times> int \<times> int) list"

section \<open>Scanning\<close>

text \<open>Aligned bases from coordinate \<open>pos\<close> on: flagged coordinates and diagnostics.\<close>

fun scan_match :: "(int \<Rightarrow> char option) \<Rightarrow> int \<Rightarrow> string \<Rightarrow> int list \<times> int list" where
  "scan_match ref pos [] = ([], [])"
| "scan_match ref pos (b # bs) =
     (let (fl, dg) = scan_match ref (pos + 1) bs in
      case ref pos of
        None \<Rightarrow> (fl, pos # dg)
      | Some r \<Rightarrow> (if r = b then (fl, dg) else (pos # fl, dg)))"

fun scan_ops ::
  "(int \<Rightarrow> char option) \<Rightarrow> int \<Rightarrow> string \<Rightarrow> aln_op list \<Rightarrow> int list \<times> int list" where
  "scan_ops ref pos bases [] = ([], [])"
| "scan_ops ref pos bases (AlnMatch n # ops) =
     (let (fl, dg) = scan_match ref pos (take n bases);
          (fl', dg') = scan_ops ref (pos + int n) (drop n bases) ops
      in (fl @ fl', dg @ dg'))"
| "scan_ops ref pos bases (AlnIns n # ops) =
     (let (fl', dg') = scan_ops ref pos (drop n bases) ops in (pos # fl', dg'))"
| "scan_ops ref pos bases (AlnDel n # ops) =
     (let (fl', dg') = scan_ops ref (pos + int n) bases ops in ([pos..pos + int n - 1] @ fl', dg'))"

definition scan_read :: "(int \<Rightarrow> char option) \<Rightarrow> aligned_read \<Rightarrow> int list \<times> int list" where
  "scan_read ref rd = scan_ops ref (read_start rd) (read_bases rd) (read_ops rd)"

text \<open>\<open>parse_reads\<close>: scan every read the filter keeps, in order.\<close>

fun parse_reads ::
  "(aligned_read \<Rightarrow> bool) \<Rightarrow> (int \<Rightarrow> char option) \<Rightarrow> aligned_read list \<Rightarrow>
   candidate_finder \<Rightarrow> candidate_finder" where
  "parse_reads keep ref [] cf = cf"
| "parse_reads keep ref (rd # rds) cf =
     parse_reads keep ref rds
       (if keep rd then
          (let (fl, dg) = scan_read ref rd in
           cf\<lparr>cf_positions := count_all fl (cf_positions cf),
              cf_diagnostics := cf_diagnostics cf @ dg\<rparr>)
        else cf)"

section \<open>Merging\<close>

fun merge_acc :: "nat \<Rightarrow> int \<times> int \<Rightarrow> int list \<Rightarrow> (int \<times> int) list" where
  "merge_acc g (s, e) [] = [(s, e)]"
| "merge_acc g (s, e) (p # ps) =
     (if p - e \<le> int g then merge_acc g (s, p) ps else (s, e) # merge_acc g (p, p) ps)"

definition merge_sorted :: "nat \<Rightarrow> int list \<Rightarrow> (int \<times> int) list" where
  "merge_sorted g ps = (case ps of [] \<Rightarrow> [] | p # ps' \<Rightarrow> merge_acc g (p, p) ps')"

definition merge_positions :: "nat \<Rightarrow> candidate_finder \<Rightarrow> candidate_finder" where
  "merge_positions g cf =
     cf\<lparr>cf_windows := map (\<lambda>(s, e). (cf_chromosome cf, s, e))
                        (merge_sorted g (sort (map fst (cf_positions cf))))\<rparr>"

definition get_candidate_windows :: "candidate_finder \<Rightarrow> (string \<times> int \<times> int) list" where
  "get_candidate_windows cf = cf_windows cf"

definition init_candidate_finder :: "string \<Rightarrow> candidate_finder" where
  "init_candidate_finder chr =
     \<lparr>cf_chromosome = chr, cf_positions = [], cf_diagnostics = [], cf_windows = []\<rparr>"

text \<open>The three calls \<open>parse_region\<close> makes, composed.\<close>

definition find_windows ::
  "nat \<Rightarrow> (aligned_read \<Rightarrow> bool) \<Rightarrow> (int \<Rightarrow> char option) \<Rightarrow> string \<Rightarrow> aligned_read list \<Rightarrow>
   (string \<times> int \<times> int) list" where
  "find_windows g keep ref chr reads =
     get_candidate_windows (merge_positions g (parse_reads keep ref reads (init_candidate_finder chr)))"

section \<open>The specification of a window list\<close>

text \<open>Windows are ordered, each is a non-empty interval, and neighbours are more than
  \<open>G\<close> apart.\<close>

fun windows_ok :: "nat \<Rightarrow> (int \<times> int) list \<Rightarrow> bool" where
  "windows_ok g [] = True"
| "windows_ok g [(s, e)] = (s \<le> e)"
| "windows_ok g ((s, e) # (s', e') # ws) = (s \<le> e \<and> e + int g < s' \<and> windows_ok g ((s', e') # ws))"

text \<open>Every coordinate flagged by the reads the filter keeps, in scanning order.\<close>

definition kept_flags ::
  "(aligned_read \<Rightarrow> bool) \<Rightarrow> (int \<Rightarrow> char option) \<Rightarrow> aligned_read list \<Rightarrow> int list" where
  "kept_flags keep ref rds = concat (map (\<lambda>rd. fst (scan_read ref rd)) (filter keep rds))"

section \<open>Lemmas\<close>

lemma merge_acc_head:
  "\<exists>e' rest. merge_acc g (s, e) ps = (s, e') # rest \<and> e \<le> e'" if "sorted_wrt (<) (e # ps)"
  using that
proof (induction g "(s, e)" ps arbitrary: e rule: merge_acc.induct)
  case (1 g e)
  then show ?case by simp
next
  case (2 g e p ps)
  then show ?case by (fastforce simp: less_imp_le)
qed

lemma merge_acc_ok:
  "s \<le> e \<Longrightarrow> sorted_wrt (<) (e # ps) \<Longrightarrow> windows_ok g (merge_acc g (s, e) ps)"
proof (induction g "(s, e)" ps arbitrary: s e rule: merge_acc.induct)
  case (1 g s e)
  then show ?case by simp
next
  case (2 g s e p ps)
  show ?case
  proof (cases "p - e \<le> int g")
    case True
    with "2.prems" "2.hyps"(1) show ?thesis by simp
  next
    case False
    obtain e' rest where h: "merge_acc g (p, p) ps = (p, e') # rest"
      using merge_acc_head [of p ps g p] "2.prems"(2) by auto
    have "windows_ok g (merge_acc g (p, p) ps)"
      using False "2.prems"(2) by (intro "2.hyps"(2)) simp_all
    with False "2.prems"(1) h show ?thesis by simp
  qed
qed

lemma merge_acc_covers:
  "s \<le> e \<Longrightarrow> sorted_wrt (<) (e # ps) \<Longrightarrow> x \<in> set ps \<or> (s \<le> x \<and> x \<le> e) \<Longrightarrow>
   \<exists>(a, b) \<in> set (merge_acc g (s, e) ps). a \<le> x \<and> x \<le> b"
proof (induction g "(s, e)" ps arbitrary: s e rule: merge_acc.induct)
  case (1 g s e)
  then show ?case by simp
next
  case (2 g s e p ps)
  have sp: "sorted_wrt (<) (p # ps)" and ep: "e < p" using "2.prems"(2) by simp_all
  show ?case
  proof (cases "p - e \<le> int g")
    case True
    have "x \<in> set ps \<or> (s \<le> x \<and> x \<le> p)" using "2.prems"(1,3) ep by auto
    moreover have "s \<le> p" using "2.prems"(1) ep by simp
    ultimately show ?thesis using True sp "2.hyps"(1) [OF True] by simp
  next
    case False
    show ?thesis
    proof (cases "s \<le> x \<and> x \<le> e")
      case True
      with False show ?thesis by auto
    next
      case nin: False
      then have "x \<in> set ps \<or> (p \<le> x \<and> x \<le> p)" using "2.prems"(3) by auto
      then have "\<exists>(a, b) \<in> set (merge_acc g (p, p) ps). a \<le> x \<and> x \<le> b"
        using "2.hyps"(2) [OF False] sp by blast
      with False show ?thesis by auto
    qed
  qed
qed

lemma merge_acc_tight:
  "(a, b) \<in> set (merge_acc g (s, e) ps) \<Longrightarrow> a \<in> insert s (set ps) \<and> b \<in> insert e (set ps)"
  by (induction g "(s, e)" ps arbitrary: s e rule: merge_acc.induct) (auto split: if_splits)

lemma merge_sorted_ok: "sorted_wrt (<) ps \<Longrightarrow> windows_ok g (merge_sorted g ps)"
  by (cases ps) (simp_all add: merge_sorted_def merge_acc_ok)

lemma merge_sorted_covers:
  "sorted_wrt (<) ps \<Longrightarrow> x \<in> set ps \<Longrightarrow> \<exists>(a, b) \<in> set (merge_sorted g ps). a \<le> x \<and> x \<le> b"
  by (cases ps) (auto simp: merge_sorted_def intro!: merge_acc_covers)

lemma merge_sorted_tight:
  "(a, b) \<in> set (merge_sorted g ps) \<Longrightarrow> a \<in> set ps \<and> b \<in> set ps"
  by (cases ps) (auto simp: merge_sorted_def dest: merge_acc_tight)

lemma parse_reads_positions:
  "dict_count (cf_positions (parse_reads keep ref rds cf)) q =
     dict_count (cf_positions cf) q + count_list (kept_flags keep ref rds) q"
  "fst ` set (cf_positions (parse_reads keep ref rds cf)) =
     fst ` set (cf_positions cf) \<union> set (kept_flags keep ref rds)"
  "distinct (map fst (cf_positions cf)) \<Longrightarrow>
     distinct (map fst (cf_positions (parse_reads keep ref rds cf)))"
  "cf_chromosome (parse_reads keep ref rds cf) = cf_chromosome cf"
  by (induction keep ref rds cf rule: parse_reads.induct)
     (auto simp: kept_flags_def count_all_props split: prod.splits)

lemma scan_match_agree:
  "(\<And>i. i < length bs \<Longrightarrow> ref (pos + int i) = Some (bs ! i)) \<Longrightarrow> scan_match ref pos bs = ([], [])"
proof (induction ref pos bs rule: scan_match.induct)
  case (1 ref pos)
  then show ?case by simp
next
  case (2 ref pos b bs)
  have "ref (pos + 1 + int i) = Some (bs ! i)" if "i < length bs" for i
    using "2.prems" [of "Suc i"] that by (simp add: add.assoc)
  then have "scan_match ref (pos + 1) bs = ([], [])"
    by (rule "2.IH")
  moreover have "ref pos = Some b" using "2.prems" [of 0] by simp
  ultimately show ?case by simp
qed

lemma find_windows_eq:
  "find_windows g keep ref chr reads =
     map (\<lambda>(s, e). (chr, s, e)) (merge_sorted g (sorted_list_of_set (set (kept_flags keep ref reads))))"
proof -
  let ?cf = "parse_reads keep ref reads (init_candidate_finder chr)"
  have d: "distinct (map fst (cf_positions ?cf))"
    by (rule parse_reads_positions(3)) (simp add: init_candidate_finder_def)
  have "set (map fst (cf_positions ?cf)) = set (kept_flags keep ref reads)"
    using parse_reads_positions(2) [of keep ref reads "init_candidate_finder chr"]
    by (simp add: init_candidate_finder_def)
  then have "sort (map fst (cf_positions ?cf)) = sorted_list_of_set (set (kept_flags keep ref reads))"
    using d by (metis distinct_remdups_id sorted_list_of_set_sort_remdups)
  then show ?thesis
    by (simp add: find_windows_def get_candidate_windows_def merge_positions_def
        parse_reads_positions(4) init_candidate_finder_def)
qed

lemma find_windows_ok: "windows_ok g (map snd (find_windows g keep ref chr reads))"
  by (simp add: find_windows_eq comp_def case_prod_unfold merge_sorted_ok [unfolded case_prod_unfold])

lemma find_windows_covers:
  "p \<in> set (kept_flags keep ref reads) \<Longrightarrow>
   \<exists>(c, a, b) \<in> set (find_windows g keep ref chr reads). c = chr \<and> a \<le> p \<and> p \<le> b"
  using merge_sorted_covers [of "sorted_list_of_set (set (kept_flags keep ref reads))" p g]
  by (fastforce simp: find_windows_eq)

lemma find_windows_tight:
  "(c, a, b) \<in> set (find_windows g keep ref chr reads) \<Longrightarrow>
   c = chr \<and> a \<in> set (kept_flags keep ref reads) \<and> b \<in> set (kept_flags keep ref reads)"
  by (auto simp: find_windows_eq dest: merge_sorted_tight)

lemma find_windows_none:
  "kept_flags keep ref reads = [] \<Longrightarrow> find_windows g keep ref chr reads = []"
  by (simp add: find_windows_eq merge_sorted_def)


lemma merge_gap_boundary:
  "merge_sorted g [p, p + int g] = [(p, p + int g)]"
  "merge_sorted g [p, p + int g + 1] = [(p, p), (p + int g + 1, p + int g + 1)]"
  by (simp_all add: merge_sorted_def)

end
