(* ===== verification/AlleleEnumerator.thy ===== *)
theory AlleleEnumerator
  imports PyBuiltins RegionResult
begin

text \<open>
  The allele enumerator, \<open>modules/AlleleFinder\<close>, which is not under \<open>src/\<close> and is modelled
  from the specification (section 4.2). \<open>View.parse_region\<close> constructs it for one window
  with the chromosome, the window bounds, the window's pileup columns and its reference
  sequence, and takes the result of \<open>generate_candidate_allele_list\<close>.

  A pileup column is a coordinate and the tokens the reads show there: a base, an
  insertion of a base string, or a deletion of \<open>n\<close> bases starting at the column. The
  frequency table of a coordinate counts the tokens of its column (a Python \<open>dict\<close> in
  insertion order, as in the window detector); a coordinate with no column has an empty
  table. A token other than the reference base qualifies when its count reaches the
  minimum support \<open>S\<close> and its share of the coverage reaches the minimum frequency
  \<open>F = num / den\<close>, compared without division as \<open>num * coverage \<le> den * count\<close>. A
  deletion is one candidate spanning the deleted coordinates. Candidates are sorted by
  descending support, then by the text of the token, then by ascending start.
\<close>

section \<open>Data\<close>

datatype allele_token = TBase char | TIns string | TDel nat

record pileup_column =
  col_pos :: int
  col_tokens :: "allele_token list"

record allele_thresholds =
  min_support :: nat
  min_freq_num :: nat
  min_freq_den :: nat

text \<open>The defaults chosen here: \<open>S = 2\<close> and \<open>F = 0.05\<close>, the values of the specification's
  example.\<close>

definition default_thresholds :: allele_thresholds where
  "default_thresholds = \<lparr>min_support = 2, min_freq_num = 1, min_freq_den = 20\<rparr>"

record allele_candidate =
  cand_start :: int
  cand_end :: int
  cand_alt :: allele_token
  cand_support :: nat

record window_candidate_list =
  wcl_chromosome :: string
  wcl_start :: int
  wcl_end :: int
  wcl_reference :: string
  wcl_candidates :: "allele_candidate list"

section \<open>Tokens as text\<close>

text \<open>The alternate sequence a token stands for: a base, \<open>+\<close> and the inserted bases, \<open>-\<close>
  and the number of deleted bases.\<close>

definition token_text :: "allele_token \<Rightarrow> string" where
  "token_text t =
     (case t of TBase c \<Rightarrow> [c] | TIns s \<Rightarrow> CHR ''+'' # s | TDel n \<Rightarrow> CHR ''-'' # py_str_nat n)"

definition token_of_text :: "string \<Rightarrow> allele_token option" where
  "token_of_text s =
     (case s of
        [c] \<Rightarrow> Some (TBase c)
      | c # t \<Rightarrow> (if c = CHR ''+'' then Some (TIns t)
                 else if c = CHR ''-'' then map_option TDel (parse_nat t) else None)
      | [] \<Rightarrow> None)"

text \<open>An insertion token inserts at least one base.\<close>

definition token_ok :: "allele_token \<Rightarrow> bool" where
  "token_ok t = (case t of TIns s \<Rightarrow> s \<noteq> [] | _ \<Rightarrow> True)"

section \<open>Frequency tables and candidates\<close>

definition column_at :: "pileup_column list \<Rightarrow> int \<Rightarrow> pileup_column option" where
  "column_at cols p = find (\<lambda>c. col_pos c = p) cols"

text \<open>The tokens observed at a coordinate; a missing column means zero coverage.\<close>

definition column_tokens :: "pileup_column list \<Rightarrow> int \<Rightarrow> allele_token list" where
  "column_tokens cols p = (case column_at cols p of None \<Rightarrow> [] | Some c \<Rightarrow> col_tokens c)"

text \<open>\<open>generate_base_dictionaries\<close>: the \<open>BaseFrequencyTable\<close> of one coordinate.\<close>

definition base_frequency_table :: "allele_token list \<Rightarrow> (allele_token \<times> nat) list" where
  "base_frequency_table toks = count_all toks []"

text \<open>The reference base at coordinate \<open>p\<close> of a sequence that starts at \<open>ws\<close>.\<close>

definition ref_base_at :: "string \<Rightarrow> int \<Rightarrow> int \<Rightarrow> char option" where
  "ref_base_at ref ws p =
     (if ws \<le> p \<and> p - ws < int (length ref) then Some (ref ! nat (p - ws)) else None)"

definition qualifies ::
  "allele_thresholds \<Rightarrow> char \<Rightarrow> nat \<Rightarrow> allele_token \<Rightarrow> nat \<Rightarrow> bool" where
  "qualifies th rb cov tok cnt \<longleftrightarrow>
     tok \<noteq> TBase rb \<and> min_support th \<le> cnt \<and> min_freq_num th * cov \<le> min_freq_den th * cnt"

text \<open>The last coordinate an allele covers: a deletion of \<open>n\<close> bases covers \<open>n\<close> coordinates.\<close>

definition allele_end :: "int \<Rightarrow> allele_token \<Rightarrow> int" where
  "allele_end p tok = (case tok of TDel n \<Rightarrow> p + int (n - 1) | _ \<Rightarrow> p)"

definition position_candidates ::
  "allele_thresholds \<Rightarrow> string \<Rightarrow> int \<Rightarrow> int \<Rightarrow> (allele_token \<times> nat) list \<Rightarrow>
   allele_candidate list" where
  "position_candidates th ref ws p table =
     (case ref_base_at ref ws p of
        None \<Rightarrow> []
      | Some rb \<Rightarrow>
          (let cov = sum_list (map snd table) in
           map (\<lambda>(tok, cnt). \<lparr>cand_start = p, cand_end = allele_end p tok, cand_alt = tok,
                               cand_support = cnt\<rparr>)
             (filter (\<lambda>(tok, cnt). qualifies th rb cov tok cnt) table)))"

text \<open>The sort key: descending support, then the token's text, then ascending start.\<close>

definition candidate_key :: "allele_candidate \<Rightarrow> int \<times> string \<times> int" where
  "candidate_key c = (- int (cand_support c), token_text (cand_alt c), cand_start c)"

definition generate_candidates ::
  "allele_thresholds \<Rightarrow> int \<Rightarrow> int \<Rightarrow> pileup_column list \<Rightarrow> string \<Rightarrow> allele_candidate list" where
  "generate_candidates th ws we cols ref =
     sort_key candidate_key
       (concat (map (\<lambda>p. position_candidates th ref ws p (base_frequency_table (column_tokens cols p)))
                  [ws..we]))"

text \<open>\<open>AlleleFinder(...).generate_candidate_allele_list()\<close> for one window.\<close>

definition generate_candidate_allele_list ::
  "allele_thresholds \<Rightarrow> string \<Rightarrow> int \<Rightarrow> int \<Rightarrow> pileup_column list \<Rightarrow> string \<Rightarrow>
   window_candidate_list" where
  "generate_candidate_allele_list th chr ws we cols ref =
     \<lparr>wcl_chromosome = chr, wcl_start = ws, wcl_end = we, wcl_reference = ref,
      wcl_candidates = generate_candidates th ws we cols ref\<rparr>"

section \<open>Serialisation\<close>

text \<open>The \<open>reprJSON\<close> of a candidate and of a window's candidate list.\<close>

definition candidate_repr :: "allele_candidate \<Rightarrow> pyval" where
  "candidate_repr c =
     PyObject ''AlleleCandidate''
       (Some (PyDict [(''start'', PyInt (cand_start c)), (''end'', PyInt (cand_end c)),
                      (''alt'', PyStr (token_text (cand_alt c))),
                      (''support'', PyInt (int (cand_support c)))]))"

definition window_list_repr :: "window_candidate_list \<Rightarrow> pyval" where
  "window_list_repr w =
     PyObject ''WindowCandidateList''
       (Some (PyDict [(''chromosome_name'', PyStr (wcl_chromosome w)),
                      (''start'', PyInt (wcl_start w)), (''end'', PyInt (wcl_end w)),
                      (''reference'', PyStr (wcl_reference w)),
                      (''candidates'', PyList (map candidate_repr (wcl_candidates w)))]))"

text \<open>The shape of the encoded candidate and candidate list, keys sorted.\<close>

definition candidate_json_type :: json_type where
  "candidate_json_type = TObject [(''alt'', TString), (''end'', TInt), (''start'', TInt), (''support'', TInt)]"

definition window_list_json_type :: json_type where
  "window_list_json_type =
     TObject [(''candidates'', TArray candidate_json_type), (''chromosome_name'', TString),
              (''end'', TInt), (''reference'', TString), (''start'', TInt)]"

definition candidate_of_json :: "json \<Rightarrow> allele_candidate option" where
  "candidate_of_json j =
     (case (json_field ''start'' j, json_field ''end'' j, json_field ''alt'' j,
            json_field ''support'' j) of
        (Some (JInt s), Some (JInt e), Some (JString a), Some (JInt n)) \<Rightarrow>
          (if n < 0 then None
           else map_option (\<lambda>t. \<lparr>cand_start = s, cand_end = e, cand_alt = t,
                                  cand_support = nat n\<rparr>) (token_of_text a))
      | _ \<Rightarrow> None)"

definition window_list_of_json :: "json \<Rightarrow> window_candidate_list option" where
  "window_list_of_json j =
     (case (json_field ''chromosome_name'' j, json_field ''start'' j, json_field ''end'' j,
            json_field ''reference'' j, json_field ''candidates'' j) of
        (Some (JString c), Some (JInt s), Some (JInt e), Some (JString r), Some (JArray cs)) \<Rightarrow>
          map_option (\<lambda>xs. \<lparr>wcl_chromosome = c, wcl_start = s, wcl_end = e, wcl_reference = r,
                            wcl_candidates = xs\<rparr>) (those (map candidate_of_json cs))
      | _ \<Rightarrow> None)"

section \<open>Lemmas\<close>

lemma token_of_text_token_text: "token_ok t \<Longrightarrow> token_of_text (token_text t) = Some t"
proof (cases t)
  case (TIns s)
  moreover assume "token_ok t"
  ultimately obtain c cs where "s = c # cs" by (cases s) (auto simp: token_ok_def)
  with TIns show ?thesis by (simp add: token_text_def token_of_text_def)
next
  case (TDel n)
  obtain c cs where "py_str_nat n = c # cs" by (cases "py_str_nat n") auto
  moreover have "parse_nat (c # cs) = Some n" by (metis calculation parse_nat_py_str_nat)
  ultimately show ?thesis using TDel by (simp add: token_text_def token_of_text_def)
qed (simp add: token_text_def token_of_text_def)

lemma token_text_inj:
  "token_ok t \<Longrightarrow> token_ok u \<Longrightarrow> token_text t = token_text u \<Longrightarrow> t = u"
  by (metis option.inject token_of_text_token_text)

lemma position_candidates_iff:
  "c \<in> set (position_candidates th ref ws p (base_frequency_table toks)) \<longleftrightarrow>
   (\<exists>rb. ref_base_at ref ws p = Some rb \<and> cand_alt c \<in> set toks \<and>
        cand_support c = count_list toks (cand_alt c) \<and>
        qualifies th rb (length toks) (cand_alt c) (cand_support c) \<and>
        cand_start c = p \<and> cand_end c = allele_end p (cand_alt c))"
proof -
  have cov: "sum_list (map snd (count_all toks [])) = length toks"
    by (simp add: sum_counts_count_all)
  show ?thesis
  proof (cases "ref_base_at ref ws p")
    case None
    then show ?thesis by (simp add: position_candidates_def)
  next
    case (Some rb)
    then show ?thesis
      by (cases c) (auto simp: position_candidates_def cov base_frequency_table_def count_all_Nil_iff)
  qed
qed

lemma generate_candidates_iff:
  "c \<in> set (generate_candidates th ws we cols ref) \<longleftrightarrow>
   ws \<le> cand_start c \<and> cand_start c \<le> we \<and>
   c \<in> set (position_candidates th ref ws (cand_start c) (base_frequency_table (column_tokens cols (cand_start c))))"
  by (auto simp: generate_candidates_def position_candidates_iff)

lemma generate_candidates_sorted: "sorted (map candidate_key (generate_candidates th ws we cols ref))"
  by (simp add: generate_candidates_def)

lemma distinct_position_candidates:
  "distinct (position_candidates th ref ws p (base_frequency_table toks))"
proof -
  have "distinct (map fst (base_frequency_table toks))"
    by (simp add: base_frequency_table_def count_all_props(3))
  then have "distinct (base_frequency_table toks)"
    by (simp add: distinct_map)
  moreover have "inj_on (\<lambda>(tok, cnt). \<lparr>cand_start = p, cand_end = allele_end p tok, cand_alt = tok,
                          cand_support = cnt\<rparr>) X" for X
    by (auto simp: inj_on_def)
  ultimately show ?thesis
    by (auto simp: position_candidates_def distinct_map split: option.splits)
qed

lemma distinct_generate_candidates: "distinct (generate_candidates th ws we cols ref)"
proof -
  let ?f = "\<lambda>p. position_candidates th ref ws p (base_frequency_table (column_tokens cols p))"
  have "distinct (concat (map ?f [ws..we]))"
  proof (rule distinct_concat_map)
    show "set (?f p) \<inter> set (?f q) = {}" if "p \<noteq> q" for p q
      using that by (auto simp: position_candidates_iff)
  qed (simp_all add: distinct_position_candidates)
  then show ?thesis by (simp add: generate_candidates_def)
qed

lemma column_at_Some: "column_at cols p = Some c \<Longrightarrow> c \<in> set cols \<and> col_pos c = p"
  unfolding column_at_def find_Some_iff by auto

lemma column_tokens_ok:
  "\<forall>col\<in>set cols. \<forall>t\<in>set (col_tokens col). token_ok t \<Longrightarrow>
   t \<in> set (column_tokens cols p) \<Longrightarrow> token_ok t"
  by (cases "column_at cols p") (auto simp: column_tokens_def dest: column_at_Some)

lemma candidate_key_inj:
  assumes "c \<in> set (generate_candidates th ws we cols ref)" "d \<in> set (generate_candidates th ws we cols ref)"
    and ok: "\<forall>col\<in>set cols. \<forall>t\<in>set (col_tokens col). token_ok t"
    and key: "candidate_key c = candidate_key d"
  shows "c = d"
proof -
  have c: "c \<in> set (position_candidates th ref ws (cand_start c)
             (base_frequency_table (column_tokens cols (cand_start c))))"
    and d: "d \<in> set (position_candidates th ref ws (cand_start d)
             (base_frequency_table (column_tokens cols (cand_start d))))"
    using assms(1,2) by (simp_all add: generate_candidates_iff)
  have st: "cand_start c = cand_start d" and tx: "token_text (cand_alt c) = token_text (cand_alt d)"
    using key by (simp_all add: candidate_key_def)
  have "token_ok (cand_alt c)" "token_ok (cand_alt d)"
    using c d column_tokens_ok [OF ok] by (auto simp: position_candidates_iff)
  with tx have "cand_alt c = cand_alt d" by (rule token_text_inj [rotated 2])
  moreover from this c d st have "cand_support c = cand_support d" "cand_end c = cand_end d"
    by (auto simp: position_candidates_iff)
  ultimately show ?thesis
    using st by (intro allele_candidate.equality) simp_all
qed

lemma generate_candidates_strict:
  "\<forall>col\<in>set cols. \<forall>t\<in>set (col_tokens col). token_ok t \<Longrightarrow>
   sorted_wrt (<) (map candidate_key (generate_candidates th ws we cols ref))"
  using candidate_key_inj [of _ th ws we cols ref]
  by (auto simp: strict_sorted_iff generate_candidates_sorted distinct_map distinct_generate_candidates inj_on_def)
text \<open>The candidate list of a window depends on each column only through the multiset of
  its tokens: the order in which the reads deliver them does not matter.\<close>

lemma generate_candidates_perm:
  assumes perm: "\<And>p. mset (column_tokens cols p) = mset (column_tokens cols' p)"
    and ok: "\<forall>col\<in>set cols. \<forall>t\<in>set (col_tokens col). token_ok t"
    and ok': "\<forall>col\<in>set cols'. \<forall>t\<in>set (col_tokens col). token_ok t"
  shows "generate_candidates th ws we cols ref = generate_candidates th ws we cols' ref"
proof (rule strict_sorted_key_unique [OF generate_candidates_strict [OF ok] generate_candidates_strict [OF ok']])
  have "set (column_tokens cols p) = set (column_tokens cols' p)"
    "count_list (column_tokens cols p) t = count_list (column_tokens cols' p) t"
    "length (column_tokens cols p) = length (column_tokens cols' p)" for p t
    using perm [of p] by (metis mset_eq_setD, metis count_mset, metis size_mset)
  then show "set (generate_candidates th ws we cols ref) = set (generate_candidates th ws we cols' ref)"
    by (auto simp: generate_candidates_iff position_candidates_iff)
qed

lemma spec_example:
  "generate_candidates default_thresholds 150000 150000
     [\<lparr>col_pos = 150000, col_tokens = replicate 10 (TBase CHR ''A'') @ replicate 10 (TBase CHR ''T'')
        @ replicate 3 (TBase CHR ''G'')\<rparr>] ''C'' =
   [\<lparr>cand_start = 150000, cand_end = 150000, cand_alt = TBase CHR ''A'', cand_support = 10\<rparr>,
    \<lparr>cand_start = 150000, cand_end = 150000, cand_alt = TBase CHR ''T'', cand_support = 10\<rparr>,
    \<lparr>cand_start = 150000, cand_end = 150000, cand_alt = TBase CHR ''G'', cand_support = 3\<rparr>]"
  by code_simp

lemma agreement_no_candidates:
  assumes "\<forall>p\<in>{ws..we}. set (column_tokens cols p) \<subseteq> TBase ` set_option (ref_base_at ref ws p)"
  shows "generate_candidates th ws we cols ref = []"
proof -
  have "c \<notin> set (generate_candidates th ws we cols ref)" for c
    using assms by (fastforce simp: generate_candidates_iff position_candidates_iff qualifies_def)
  then show ?thesis by (metis last_in_set)
qed

lemma candidate_roundtrip:
  "token_ok (cand_alt c) \<Longrightarrow>
   \<exists>j. py_to_json (candidate_repr c) = Inr j \<and> candidate_of_json (json_sort_keys j) = Some c"
  by (simp add: candidate_repr_def candidate_of_json_def json_field_def token_of_text_token_text)

lemma candidate_typed:
  "\<exists>j. py_to_json (candidate_repr c) = Inr j \<and> json_has_type (json_sort_keys j) candidate_json_type"
  by (simp add: candidate_repr_def candidate_json_type_def)

lemma window_list_typed:
  "\<exists>j. py_to_json (window_list_repr w) = Inr j \<and> json_has_type (json_sort_keys j) window_list_json_type"
proof -
  obtain js where "py_list_to_json (map candidate_repr (wcl_candidates w)) = Inr js"
    "all_have_type (map json_sort_keys js) candidate_json_type"
    using py_list_to_json_typed [of "wcl_candidates w" candidate_repr] candidate_typed by blast
  then show ?thesis by (simp add: window_list_repr_def window_list_json_type_def)
qed

lemma window_list_roundtrip:
  "\<forall>c\<in>set (wcl_candidates w). token_ok (cand_alt c) \<Longrightarrow>
   \<exists>j. py_to_json (window_list_repr w) = Inr j \<and> window_list_of_json (json_sort_keys j) = Some w"
proof -
  assume ok: "\<forall>c\<in>set (wcl_candidates w). token_ok (cand_alt c)"
  obtain js where "py_list_to_json (map candidate_repr (wcl_candidates w)) = Inr js"
    "those (map candidate_of_json (map json_sort_keys js)) = Some (wcl_candidates w)"
    using py_list_roundtrip [of "wcl_candidates w" candidate_repr candidate_of_json] ok candidate_roundtrip
    by blast
  then show ?thesis
    by (simp add: window_list_repr_def window_list_of_json_def json_field_def)
qed

section \<open>Properties\<close>

text \<open>C17: Serialising a region result of window candidate lists and reading the artifact back
  gives the same result: the region, and every window with its coordinates, reference and
  candidates, in their order.\<close>

theorem region_artifact_roundtrip:
  assumes "\<forall>w\<in>set (all_candidates r). \<forall>c\<in>set (wcl_candidates w). token_ok (cand_alt c)"
  shows "\<exists>j. json_dumps_sorted (region_reprJSON window_list_repr r) = Inr j \<and>
             region_of_json window_list_of_json j = Some r"
  using assms by (intro region_json_roundtrip) (simp add: window_list_roundtrip)

section \<open>Witnesses\<close>

theorem region_artifact_roundtrip_witness:
  "\<exists>j. json_dumps_sorted (region_reprJSON window_list_repr
        \<lparr>chromosome_name = ''3'', start_position = 100000, end_position = 200000,
         all_candidates = [\<lparr>wcl_chromosome = ''3'', wcl_start = 150000, wcl_end = 150002,
           wcl_reference = ''CAG'',
           wcl_candidates = [\<lparr>cand_start = 150001, cand_end = 150002, cand_alt = TDel 2, cand_support = 4\<rparr>,
                             \<lparr>cand_start = 150000, cand_end = 150000, cand_alt = TIns ''TT'', cand_support = 3\<rparr>]\<rparr>]\<rparr>) = Inr j \<and>
      region_of_json window_list_of_json j =
        Some \<lparr>chromosome_name = ''3'', start_position = 100000, end_position = 200000,
         all_candidates = [\<lparr>wcl_chromosome = ''3'', wcl_start = 150000, wcl_end = 150002,
           wcl_reference = ''CAG'',
           wcl_candidates = [\<lparr>cand_start = 150001, cand_end = 150002, cand_alt = TDel 2, cand_support = 4\<rparr>,
                             \<lparr>cand_start = 150000, cand_end = 150000, cand_alt = TIns ''TT'', cand_support = 3\<rparr>]\<rparr>]\<rparr>"
  by (rule region_artifact_roundtrip) (simp add: token_ok_def)

end
