(* ===== verification/Polish.thy ===== *)
theory Polish
  imports Orchestrator WindowDetector AlleleEnumerator
begin

text \<open>
  The program as \<open>src/main.py\<close> assembles it: \<open>View.parse_region\<close> over the window
  detector and the allele enumerator. The alignment and reference sources (\<open>BamHandler\<close>,
  \<open>FastaHandler\<close>) are external: \<open>sources\<close> gives what each of their calls returns.
  The window detector reads one reference base at a time through the FASTA handler
  (\<open>reference_accessor\<close>: a one-base sequence, or no base). \<open>polish_pipeline\<close> is the
  instance of the orchestrator's interface \<open>pipeline\<close> that the program builds;
  \<open>polish_windows\<close> and \<open>polish_window\<close> name the windows of a region and the candidate
  list of one window, and the lemmas reduce a run of \<open>parse_region\<close> to them. The
  scenario of the specification (section 8) is the data \<open>scenario_sources\<close>: one read
  of 20 bases from 149990 with one mismatch, at 150000, over a reference of \<open>A\<close>s.
  The property proved here: the artifact of every region has the documented JSON shape.
\<close>

record sources =
  src_reads :: "string \<Rightarrow> int \<Rightarrow> int \<Rightarrow> aligned_read list"
  src_pileup :: "string \<Rightarrow> int \<Rightarrow> int \<Rightarrow> pileup_column list"
  src_sequence :: "string \<Rightarrow> int \<Rightarrow> int \<Rightarrow> string"

text \<open>The tunable constants of the two finders: the merge gap \<open>G\<close>, the read filter and
  the thresholds \<open>S\<close> and \<open>F\<close>.\<close>

record polish_config =
  cfg_gap :: nat
  cfg_keep :: "aligned_read \<Rightarrow> bool"
  cfg_thresholds :: allele_thresholds

definition reference_accessor :: "sources \<Rightarrow> string \<Rightarrow> int \<Rightarrow> char option" where
  "reference_accessor src chr p =
     (case src_sequence src chr p (p + 1) of [b] \<Rightarrow> Some b | _ \<Rightarrow> None)"

definition polish_pipeline ::
  "sources \<Rightarrow> polish_config \<Rightarrow> (aligned_read, pileup_column, window_candidate_list) pipeline" where
  "polish_pipeline src cfg =
     \<lparr>get_reads = src_reads src, get_pileupcolumns = src_pileup src,
      get_sequence = src_sequence src,
      candidate_windows = (\<lambda>chr s e reads.
        find_windows (cfg_gap cfg) (cfg_keep cfg) (reference_accessor src chr) chr reads),
      candidate_alleles = (\<lambda>chr ws we cols ref.
        generate_candidate_allele_list (cfg_thresholds cfg) chr ws we cols ref),
      candidate_obj = window_list_repr\<rparr>"

text \<open>The coordinates the detector flags in the reads of a region.\<close>

definition region_flags :: "sources \<Rightarrow> polish_config \<Rightarrow> string \<Rightarrow> int \<Rightarrow> int \<Rightarrow> int list" where
  "region_flags src cfg chr s e =
     kept_flags (cfg_keep cfg) (reference_accessor src chr) (src_reads src chr s e)"

text \<open>The windows of a region, and the candidate list of one window computed from the
  pileup columns and the reference over \<open>[start, end + 1)\<close>.\<close>

definition polish_windows :: "sources \<Rightarrow> polish_config \<Rightarrow> string \<Rightarrow> int \<Rightarrow> int \<Rightarrow> window list" where
  "polish_windows src cfg chr s e =
     find_windows (cfg_gap cfg) (cfg_keep cfg) (reference_accessor src chr) chr (src_reads src chr s e)"

definition polish_window :: "sources \<Rightarrow> polish_config \<Rightarrow> window \<Rightarrow> window_candidate_list" where
  "polish_window src cfg win =
     (case win of (c, ws, we) \<Rightarrow>
        generate_candidate_allele_list (cfg_thresholds cfg) c ws we
          (src_pileup src c ws (we + 1)) (src_sequence src c ws (we + 1)))"

text \<open>The pileup tokens a window's candidate list was computed from, at coordinate \<open>p\<close>.\<close>

definition window_tokens :: "sources \<Rightarrow> window_candidate_list \<Rightarrow> int \<Rightarrow> allele_token list" where
  "window_tokens src l p =
     column_tokens (src_pileup src (wcl_chromosome l) (wcl_start l) (wcl_end l + 1)) p"

section \<open>The scenario of the specification\<close>

definition scenario_base :: "int \<Rightarrow> char" where
  "scenario_base p = (if p = 150000 then CHR ''C'' else CHR ''A'')"

definition scenario_read :: aligned_read where
  "scenario_read =
     \<lparr>read_start = 149990, read_ops = [AlnMatch 20], read_bases = map scenario_base [149990..150009]\<rparr>"

definition scenario_sources :: sources where
  "scenario_sources =
     \<lparr>src_reads = (\<lambda>chr s e. if chr = ''3'' \<and> s \<le> 150009 \<and> 149990 \<le> e then [scenario_read] else []),
      src_pileup = (\<lambda>chr s e. if chr = ''3'' then
          map (\<lambda>p. \<lparr>col_pos = p, col_tokens = [TBase (scenario_base p)]\<rparr>)
            (filter (\<lambda>p. 149990 \<le> p \<and> p \<le> 150009) [s..e - 1]) else []),
      src_sequence = (\<lambda>chr s e. replicate (nat (e - s)) CHR ''A'')\<rparr>"

definition scenario_config :: "nat \<Rightarrow> polish_config" where
  "scenario_config s =
     \<lparr>cfg_gap = 10, cfg_keep = (\<lambda>_. True),
      cfg_thresholds = \<lparr>min_support = s, min_freq_num = 1, min_freq_den = 20\<rparr>\<rparr>"

abbreviation scenario_view :: view where
  "scenario_view \<equiv> \<lparr>view_chromosome = ''3'', view_bam = ''b.bam'', view_ref = ''r.fa'',
     view_output_dir = ''output/''\<rparr>"

section \<open>Lemmas\<close>

lemma expected_polish_region:
  "expected_region (polish_pipeline src cfg) v s e =
     \<lparr>chromosome_name = view_chromosome v, start_position = s, end_position = e,
      all_candidates = map (polish_window src cfg) (polish_windows src cfg (view_chromosome v) s e)\<rparr>"
  by (simp add: expected_region_def region_windows_def polish_pipeline_def polish_windows_def
      window_alleles_def polish_window_def)

lemma polish_result:
  "fst (parse_region (polish_pipeline src cfg) v s e j w) = Inr r \<Longrightarrow>
   all_candidates r = map (polish_window src cfg) (polish_windows src cfg (view_chromosome v) s e)"
  by (drule parse_region_result) (simp add: expected_polish_region)

lemma polish_window_fields [simp]:
  "wcl_chromosome (polish_window src cfg (c, ws, we)) = c"
  "wcl_start (polish_window src cfg (c, ws, we)) = ws"
  "wcl_end (polish_window src cfg (c, ws, we)) = we"
  "wcl_reference (polish_window src cfg (c, ws, we)) = src_sequence src c ws (we + 1)"
  "wcl_candidates (polish_window src cfg (c, ws, we)) =
     generate_candidates (cfg_thresholds cfg) ws we (src_pileup src c ws (we + 1))
       (src_sequence src c ws (we + 1))"
  by (simp_all add: polish_window_def generate_candidate_allele_list_def)

lemma polish_window_bounds: "(wcl_start (polish_window src cfg win), wcl_end (polish_window src cfg win)) = snd win"
  by (cases win) simp

lemma polish_result_member:
  assumes "fst (parse_region (polish_pipeline src cfg) v s e j w) = Inr r"
    and "l \<in> set (all_candidates r)"
  obtains ws we where "(view_chromosome v, ws, we) \<in> set (polish_windows src cfg (view_chromosome v) s e)"
    and "l = polish_window src cfg (view_chromosome v, ws, we)"
proof -
  from assms polish_result [OF assms(1)] obtain win
    where win: "win \<in> set (polish_windows src cfg (view_chromosome v) s e)"
      and l: "l = polish_window src cfg win" by auto
  obtain c ws we where cw: "win = (c, ws, we)" by (cases win) auto
  with win have "c = view_chromosome v"
    by (auto simp: polish_windows_def dest: find_windows_tight)
  with win l cw show ?thesis using that by blast
qed

lemma scenario_windows:
  "polish_windows scenario_sources (scenario_config n) ''3'' 100000 200000 = [(''3'', 150000, 150000)]"
  by code_simp

lemma scenario_window_list:
  "polish_window scenario_sources (scenario_config 1) (''3'', 150000, 150000) =
    \<lparr>wcl_chromosome = ''3'', wcl_start = 150000, wcl_end = 150000, wcl_reference = ''A'',
     wcl_candidates = [\<lparr>cand_start = 150000, cand_end = 150000, cand_alt = TBase CHR ''C'', cand_support = 1\<rparr>]\<rparr>"
  by code_simp

lemma scenario_run:
  "fst (parse_region (polish_pipeline scenario_sources (scenario_config n)) scenario_view 100000 200000 False w) =
   Inr \<lparr>chromosome_name = ''3'', start_position = 100000, end_position = 200000,
        all_candidates = [polish_window scenario_sources (scenario_config n) (''3'', 150000, 150000)]\<rparr>"
  by (simp add: parse_region_run expected_polish_region scenario_windows)

lemma reference_accessor_pileup_free [simp]:
  "reference_accessor (src\<lparr>src_pileup := f\<rparr>) = reference_accessor src"
  by (simp add: fun_eq_iff reference_accessor_def)

lemma polish_windows_pileup_free [simp]:
  "polish_windows (src\<lparr>src_pileup := f\<rparr>) cfg chr s e = polish_windows src cfg chr s e"
  by (simp add: polish_windows_def reference_accessor_def)

lemma polish_dumps_ok:
  "\<exists>doc. json_dumps_sorted (region_reprJSON (candidate_obj (polish_pipeline src cfg)) r) = Inr doc \<and>
     json_has_type doc (region_json_type window_list_json_type)"
proof -
  obtain js where "py_list_to_json (map window_list_repr (all_candidates r)) = Inr js"
    "all_have_type (map json_sort_keys js) window_list_json_type"
    using py_list_to_json_typed [of "all_candidates r" window_list_repr] window_list_typed by blast
  then show ?thesis
    by (simp add: json_dumps_sorted_def region_reprJSON_def region_json_type_def polish_pipeline_def)
qed

section \<open>Properties\<close>

text \<open>C18: Encoding never fails for the program's candidate lists, and every artifact it
  writes has the documented shape: an object with the region's chromosome name and integer
  bounds and an array of window objects, each with its chromosome, integer bounds,
  reference text and an array of candidate objects with their alternate text and integer
  bounds and support, keys sorted at every level.\<close>

theorem polish_artifact_typed:
  "\<exists>doc. json_dumps_sorted (region_reprJSON (candidate_obj (polish_pipeline src cfg)) r) = Inr doc \<and>
     json_has_type doc (region_json_type window_list_json_type)"
  by (rule polish_dumps_ok)

end
