(* ===== verification/Shards.thy ===== *)
theory Shards
  imports PyBuiltins
begin

text \<open>
  The shard partitioner, \<open>do_parallel\<close> of \<open>src/main.py\<close> (lines 162--190). It reads the
  chromosome length from the reference, computes the segment length
  \<open>int(math.ceil(whole_length / max_threads))\<close> and, for \<open>i in range(max_threads)\<close>,
  starts one process running \<open>View.parse_region(i * seg, (i + 1) * seg + 1000, json_out)\<close>.
  A started process is modelled by the job it runs (\<open>shard_job\<close>); running the jobs,
  concurrently, is the theory \<open>Dispatch\<close>. Proved here: the jobs and their bounds, the
  error on zero threads, the empty dispatch on a negative count, that every shard lies in
  \<open>[0, L + N + 1000)\<close>, that the shards cover the chromosome without a gap, that neighbours overlap by exactly 1000 bases, and that the
  shard starts are strictly increasing once the chromosome is not empty.
\<close>

definition shard_overlap :: int where
  "shard_overlap = 1000"

text \<open>\<open>range(n)\<close> for an integer \<open>n\<close>: empty when \<open>n \<le> 0\<close>.\<close>

definition py_range :: "int \<Rightarrow> int list" where
  "py_range n = [0..n - 1]"

text \<open>A worker process: the \<open>View\<close> it builds and the arguments of its \<open>parse_region\<close>.\<close>

record shard_job =
  job_chromosome :: string
  job_bam :: string
  job_ref :: string
  job_output_dir :: string
  job_start :: int
  job_end :: int
  job_json :: bool

text \<open>The body of the loop of \<open>do_parallel\<close> for index \<open>i\<close>.\<close>

definition shard_job_for ::
  "string \<Rightarrow> string \<Rightarrow> string \<Rightarrow> bool \<Rightarrow> string \<Rightarrow> int \<Rightarrow> int \<Rightarrow> shard_job" where
  "shard_job_for chr_name bam_file ref_file json_out output_dir each_segment_length i =
     \<lparr>job_chromosome = chr_name, job_bam = bam_file, job_ref = ref_file,
      job_output_dir = output_dir,
      job_start = i * each_segment_length,
      job_end = (i + 1) * each_segment_length + shard_overlap,
      job_json = json_out\<rparr>"

definition do_parallel ::
  "(string \<Rightarrow> int) \<Rightarrow> string \<Rightarrow> string \<Rightarrow> string \<Rightarrow> bool \<Rightarrow> string \<Rightarrow> int \<Rightarrow>
   shard_job list result" where
  "do_parallel get_chr_sequence_length chr_name bam_file ref_file json_out output_dir max_threads =
     (let whole_length = get_chr_sequence_length chr_name in
      bind_result (py_ceil_div whole_length max_threads) (\<lambda>each_segment_length.
        Inr (map (shard_job_for chr_name bam_file ref_file json_out output_dir each_segment_length)
                 (py_range max_threads))))"

section \<open>Lemmas\<close>

lemma length_py_range [simp]: "length (py_range n) = nat n"
  by (simp add: py_range_def)

lemma nth_py_range [simp]: "i < nat n \<Longrightarrow> py_range n ! i = int i"
  by (simp add: py_range_def)

lemma py_range_nonpos: "n \<le> 0 \<Longrightarrow> py_range n = []"
  by (simp add: py_range_def)

lemma shard_job_for_simps [simp]:
  "job_start (shard_job_for c b r js od seg i) = i * seg"
  "job_end (shard_job_for c b r js od seg i) = (i + 1) * seg + shard_overlap"
  "job_chromosome (shard_job_for c b r js od seg i) = c"
  "job_json (shard_job_for c b r js od seg i) = js"
  "job_output_dir (shard_job_for c b r js od seg i) = od"
  by (simp_all add: shard_job_for_def)

text \<open>Every successful run of \<open>do_parallel\<close> has this shape.\<close>

lemma do_parallel_Inr_iff:
  "do_parallel g c b r js od n = Inr jobs \<longleftrightarrow>
     (\<exists>seg. py_ceil_div (g c) n = Inr seg \<and> jobs = map (shard_job_for c b r js od seg) (py_range n))"
  by (auto simp: do_parallel_def bind_result_eq_Inr)

lemma do_parallel_nth:
  assumes "do_parallel g c b r js od n = Inr jobs"
  obtains seg where "py_ceil_div (g c) n = Inr seg" and "length jobs = nat n"
    and "\<And>k. k < nat n \<Longrightarrow> jobs ! k = shard_job_for c b r js od seg (int k)"
  using assms by (auto simp: do_parallel_Inr_iff)

lemma ceil_seg_nonneg:
  "do_parallel g c b r js od n = Inr jobs \<Longrightarrow> 0 \<le> g c \<Longrightarrow> 0 < n \<Longrightarrow>
   \<exists>seg. py_ceil_div (g c) n = Inr seg \<and> 0 \<le> seg \<and> (seg - 1) * n < g c \<and> g c \<le> seg * n"
  using py_ceil_div_nonneg py_ceil_div_pos by (fastforce simp: do_parallel_Inr_iff)

text \<open>Arithmetic core of coverage: with the ceiling bounds on the segment length, every
  position below \<open>L + overlap\<close> lies in the range of one of the \<open>n\<close> indices.\<close>

lemma segment_covers:
  fixes seg n L x :: int
  assumes seg: "0 \<le> seg" and n: "0 < n" and lo: "(seg - 1) * n < L" and hi: "L \<le> seg * n"
    and x: "0 \<le> x" "x < L + shard_overlap"
  shows "\<exists>i. 0 \<le> i \<and> i < n \<and> i * seg \<le> x \<and> x < (i + 1) * seg + shard_overlap"
proof (cases "seg = 0")
  case True
  with hi n x show ?thesis by (intro exI [of _ 0]) auto
next
  case False
  with seg have pos: "0 < seg" by simp
  define q where "q = x div seg"
  have q0: "0 \<le> q" using x pos by (simp add: q_def pos_imp_zdiv_nonneg_iff)
  have qlo: "q * seg \<le> x" and qhi: "x < (q + 1) * seg"
    using pos by (simp_all add: q_def algebra_simps minus_mod_eq_mult_div [symmetric]
      pos_mod_bound)
  show ?thesis
  proof (cases "q \<le> n - 1")
    case True
    with q0 qlo qhi show ?thesis
      by (intro exI [of _ q]) (simp add: shard_overlap_def)
  next
    case False
    have "(n - 1) * seg \<le> q * seg"
      using False pos by (simp add: mult_right_mono)
    moreover have "L \<le> n * seg" using hi by (simp add: mult.commute)
    ultimately show ?thesis
      using n x qlo by (intro exI [of _ "n - 1"]) (simp add: algebra_simps)
  qed
qed

lemma set_do_parallel:
  "do_parallel g c b r js od n = Inr jobs \<Longrightarrow> py_ceil_div (g c) n = Inr seg \<Longrightarrow>
   set jobs = shard_job_for c b r js od seg ` {0..n - 1}"
  by (auto simp: do_parallel_Inr_iff py_range_def)

lemma shard_end_bound:
  fixes seg n L i :: int
  assumes "0 \<le> seg" and "0 \<le> i" and "i < n" and "(seg - 1) * n < L"
  shows "(i + 1) * seg + shard_overlap < L + n + shard_overlap"
proof -
  have "(i + 1) * seg \<le> n * seg" using assms(1,3) by (simp add: mult_right_mono)
  moreover have "n * seg < L + n" using assms(4) by (simp add: algebra_simps)
  ultimately show ?thesis by simp
qed

section \<open>Properties of the partition\<close>

text \<open>C1: With a positive thread count, \<open>do_parallel\<close> starts exactly \<open>max_threads\<close> jobs; the
  \<open>i\<close>-th covers \<open>[i * seg, (i + 1) * seg + 1000)\<close> of the requested chromosome, with
  \<open>seg\<close> the ceiling of the chromosome length over the thread count, and passes the JSON flag
  and the output directory on unchanged.\<close>

theorem do_parallel_jobs:
  assumes "0 < max_threads"
  shows "\<exists>seg jobs. py_ceil_div (g chr) max_threads = Inr seg \<and>
     do_parallel g chr bam ref json_out out max_threads = Inr jobs \<and>
     length jobs = nat max_threads \<and>
     (\<forall>i < nat max_threads. job_start (jobs ! i) = int i * seg \<and>
        job_end (jobs ! i) = (int i + 1) * seg + 1000 \<and>
        job_chromosome (jobs ! i) = chr \<and> job_json (jobs ! i) = json_out \<and>
        job_output_dir (jobs ! i) = out)"
proof -
  obtain seg where seg: "py_ceil_div (g chr) max_threads = Inr seg"
    using py_ceil_div_pos [OF assms] by blast
  then show ?thesis
    by (auto simp: do_parallel_Inr_iff shard_overlap_def)
qed

text \<open>C28: A thread count of zero makes the segment computation divide by zero:
  \<open>do_parallel\<close> raises ZeroDivisionError before starting any process.\<close>

theorem do_parallel_zero_threads:
  "do_parallel g chr bam ref json_out out 0 = Inl ZeroDivisionError"
  by (simp add: do_parallel_def py_ceil_div_def)

text \<open>C29: A negative thread count raises nothing: \<open>range\<close> of it is empty and
  \<open>do_parallel\<close> returns having started no process at all.\<close>

theorem do_parallel_negative_threads:
  "max_threads < 0 \<Longrightarrow> do_parallel g chr bam ref json_out out max_threads = Inr []"
  by (simp add: do_parallel_def py_ceil_div_def py_range_nonpos)

text \<open>C8: The shards leave no gap: every position from 0 up to the chromosome length plus the
  overlap lies in the range \<open>[start, end)\<close> of some shard.\<close>

theorem do_parallel_covers:
  assumes run: "do_parallel g chr bam ref json_out out n = Inr jobs"
    and n: "0 < n" and len: "0 \<le> g chr" and x: "0 \<le> x" "x < g chr + shard_overlap"
  shows "\<exists>j\<in>set jobs. job_start j \<le> x \<and> x < job_end j"
proof -
  obtain seg where seg: "py_ceil_div (g chr) n = Inr seg" "0 \<le> seg"
    and lo: "(seg - 1) * n < g chr" and hi: "g chr \<le> seg * n"
    using ceil_seg_nonneg [OF run len n] by blast
  obtain i where i: "0 \<le> i" "i < n" "i * seg \<le> x" "x < (i + 1) * seg + shard_overlap"
    using segment_covers [OF seg(2) n lo hi x] by blast
  have "shard_job_for chr bam ref json_out out seg i \<in> set jobs"
    using set_do_parallel [OF run seg(1)] i(1,2) by simp
  with i(3,4) show ?thesis by force
qed

text \<open>C16: Every shard is a non-empty range starting at or after 0, and no shard reaches
  \<open>max_threads + 1000\<close> bases past the chromosome end: the last shard overshoots the
  end by the overlap plus less than one base per thread (the rounding of the ceiling).\<close>

theorem do_parallel_bounds:
  assumes run: "do_parallel g chr bam ref json_out out n = Inr jobs" and len: "0 \<le> g chr"
  shows "\<forall>j\<in>set jobs. 0 \<le> job_start j \<and> job_start j < job_end j \<and>
           job_end j < g chr + n + shard_overlap"
proof (cases "0 < n")
  case True
  obtain seg where seg: "py_ceil_div (g chr) n = Inr seg" "0 \<le> seg" and lo: "(seg - 1) * n < g chr"
    using ceil_seg_nonneg [OF run len True] by blast
  show ?thesis
  proof
    fix j assume "j \<in> set jobs"
    then obtain i where i: "0 \<le> i" "i \<le> n - 1" and j: "j = shard_job_for chr bam ref json_out out seg i"
      using set_do_parallel [OF run seg(1)] by auto
    have "0 \<le> i * seg" using i(1) seg(2) by simp
    moreover have "(i + 1) * seg + shard_overlap < g chr + n + shard_overlap"
      using shard_end_bound [OF seg(2) i(1) _ lo] i(2) by simp
    ultimately show "0 \<le> job_start j \<and> job_start j < job_end j \<and> job_end j < g chr + n + shard_overlap"
      using seg(2) by (simp add: j shard_overlap_def algebra_simps)
  qed
next
  case False
  then have "jobs = []"
    using run by (auto simp: do_parallel_def py_ceil_div_def py_range_nonpos split: if_splits)
  then show ?thesis by simp
qed

text \<open>C15: Consecutive shards overlap by exactly the fixed constant: the end of shard \<open>i\<close>
  lies 1000 bases beyond the start of shard \<open>i + 1\<close>.\<close>

theorem do_parallel_overlap:
  assumes run: "do_parallel g chr bam ref json_out out n = Inr jobs"
    and i: "Suc i < length jobs"
  shows "job_end (jobs ! i) - job_start (jobs ! Suc i) = shard_overlap"
proof -
  obtain seg where "py_ceil_div (g chr) n = Inr seg" and "length jobs = nat n"
    and nth: "\<And>k. k < nat n \<Longrightarrow> jobs ! k = shard_job_for chr bam ref json_out out seg (int k)"
    using do_parallel_nth [OF run] by blast
  with i show ?thesis by (simp add: algebra_simps)
qed

text \<open>C30: On a non-empty chromosome the shard starts strictly increase, so no two shards
  share a start coordinate.\<close>

theorem do_parallel_starts_increasing:
  assumes run: "do_parallel g chr bam ref json_out out n = Inr jobs" and len: "0 < g chr"
  shows "sorted_wrt (<) (map job_start jobs)"
proof (cases "0 < n")
  case True
  obtain seg where seg: "py_ceil_div (g chr) n = Inr seg"
    and jobs: "jobs = map (shard_job_for chr bam ref json_out out seg) (py_range n)"
    using run by (auto simp: do_parallel_Inr_iff)
  have "0 < seg" using py_ceil_div_pos_pos [OF len True seg] .
  have "sorted_wrt (\<lambda>a b. a * seg < b * seg) [0..n - 1]"
    by (intro sorted_wrt_mono_rel [OF _ sorted_wrt_upto]) (simp add: \<open>0 < seg\<close>)
  then show ?thesis
    by (simp add: jobs py_range_def sorted_wrt_map)
next
  case False
  then show ?thesis
    using run by (auto simp: do_parallel_def py_ceil_div_def py_range_nonpos split: if_splits)
qed

text \<open>C31: On an empty chromosome the segment length is 0 and every shard is the same range
  \<open>[0, 1000)\<close>: all \<open>max_threads\<close> processes do the same work.\<close>

theorem do_parallel_empty_chromosome:
  assumes run: "do_parallel g chr bam ref json_out out n = Inr jobs" and len: "g chr = 0"
  shows "\<forall>j\<in>set jobs. job_start j = 0 \<and> job_end j = shard_overlap"
  using run len by (auto simp: do_parallel_Inr_iff py_ceil_div_def split: if_splits)

section \<open>Witnesses\<close>

lemma do_parallel_10_3:
  "do_parallel (\<lambda>_. 10) ''3'' ''b.bam'' ''r.fa'' True ''output/'' 3 =
     Inr (map (shard_job_for ''3'' ''b.bam'' ''r.fa'' True ''output/'' 4) [0, 1, 2])"
  by (simp add: do_parallel_def py_ceil_div_def py_range_def upto.simps)

theorem do_parallel_jobs_witness:
  "\<exists>seg jobs. py_ceil_div 10 3 = Inr seg \<and>
     do_parallel (\<lambda>_. 10) ''3'' ''b.bam'' ''r.fa'' True ''output/'' 3 = Inr jobs \<and>
     length jobs = 3 \<and> job_start (jobs ! 2) = 8 \<and> job_end (jobs ! 2) = 1012"
proof -
  from do_parallel_jobs [of 3 "\<lambda>_. 10" "''3''" "''b.bam''" "''r.fa''" True "''output/''"]
  obtain seg jobs where "py_ceil_div 10 3 = Inr seg"
    and "do_parallel (\<lambda>_. 10) ''3'' ''b.bam'' ''r.fa'' True ''output/'' 3 = Inr jobs"
    and "length jobs = 3"
    and "\<forall>i<3. job_start (jobs ! i) = int i * seg \<and> job_end (jobs ! i) = (int i + 1) * seg + 1000"
    by auto
  moreover have "seg = 4" using \<open>py_ceil_div 10 3 = Inr seg\<close> by (simp add: py_ceil_div_def)
  ultimately show ?thesis by fastforce
qed

theorem do_parallel_negative_threads_witness:
  "do_parallel (\<lambda>_. 10) ''3'' ''b.bam'' ''r.fa'' True ''output/'' (-2) = Inr []"
  by (rule do_parallel_negative_threads) simp

theorem do_parallel_covers_witness:
  "\<exists>j\<in>set (map (shard_job_for ''3'' ''b.bam'' ''r.fa'' True ''output/'' 4) [0, 1, 2]).
     job_start j \<le> 1009 \<and> 1009 < job_end j"
  by (rule do_parallel_covers [OF do_parallel_10_3]) (simp_all add: shard_overlap_def)

theorem do_parallel_bounds_witness:
  "0 \<le> job_start (shard_job_for ''3'' ''b.bam'' ''r.fa'' True ''output/'' 4 2) \<and>
   job_end (shard_job_for ''3'' ''b.bam'' ''r.fa'' True ''output/'' 4 2) < 10 + 3 + shard_overlap"
  using do_parallel_bounds [OF do_parallel_10_3] by simp

theorem do_parallel_overlap_witness:
  "job_end (map (shard_job_for ''3'' ''b.bam'' ''r.fa'' True ''output/'' 4) [0, 1, 2] ! 1)
   - job_start (map (shard_job_for ''3'' ''b.bam'' ''r.fa'' True ''output/'' 4) [0, 1, 2] ! 2)
   = shard_overlap"
  using do_parallel_overlap [OF do_parallel_10_3, of 1] by (simp add: numeral_2_eq_2)

theorem do_parallel_starts_increasing_witness:
  "sorted_wrt (<) (map job_start (map (shard_job_for ''3'' ''b.bam'' ''r.fa'' True ''output/'' 4)
     [0, 1, 2]))"
  by (rule do_parallel_starts_increasing [OF do_parallel_10_3]) simp

theorem do_parallel_empty_chromosome_witness:
  "job_start (shard_job_for ''3'' ''b.bam'' ''r.fa'' True ''output/'' 0 0) = 0 \<and>
   job_start (shard_job_for ''3'' ''b.bam'' ''r.fa'' True ''output/'' 0 1) = 0 \<and>
   job_end (shard_job_for ''3'' ''b.bam'' ''r.fa'' True ''output/'' 0 1) = shard_overlap"
proof -
  have run: "do_parallel (\<lambda>_. 0) ''3'' ''b.bam'' ''r.fa'' True ''output/'' 2 =
     Inr (map (shard_job_for ''3'' ''b.bam'' ''r.fa'' True ''output/'' 0) [0, 1])"
    by (simp add: do_parallel_def py_ceil_div_def py_range_def upto.simps)
  show ?thesis
    using do_parallel_empty_chromosome [OF run] by simp
qed

end
