(* ===== verification/Cli.thy ===== *)
theory Cli
  imports Orchestrator Shards
begin

text \<open>
  The command line, \<open>if __name__ == '__main__'\<close> of \<open>src/main.py\<close> (lines 193--261):
  \<open>argparse\<close> with seven options and \<open>parse_known_args\<close>, the normalisation and creation
  of the output directory, and the choice between one test region (\<open>View.test\<close>) and the
  sharded run (\<open>do_parallel\<close>).

  The argument scanner takes \<open>--name value\<close> and \<open>--name=value\<close> for the seven known
  options and their unique abbreviations, the last occurrence winning; every other token
  goes to the unparsed list, and so does everything after \<open>--\<close>. An option with no value
  after it, or followed by another option, an ambiguous abbreviation, a missing required
  option and a value its converter rejects are argparse errors (\<open>SystemExit\<close>). The converters are those
  the options name: \<open>str\<close>, \<open>int\<close> (optional minus sign and decimal digits) and the
  built-in \<open>bool\<close>, which is true for every non-empty string. The converter registered
  under the name \<open>"bool"\<close> (line 198) is never used: argparse looks converters up by the
  \<open>type\<close> object, and \<open>type=bool\<close> is the built-in, not the string \<open>"bool"\<close>.
\<close>

datatype arg_type = ArgStr | ArgInt | ArgBool

text \<open>The value of one option after conversion.\<close>

datatype arg_value = VStr string | VInt int | VBool bool

record flags =
  flag_ref :: string
  flag_bam :: string
  flag_chromosome_name :: string
  flag_max_threads :: int
  flag_test :: bool
  flag_json :: bool
  flag_output_dir :: string

text \<open>What \<open>__main__\<close> ends with: the test region's result, or the shard jobs started.\<close>

datatype 'c main_outcome = RanTest "'c all_candidates_in_region" | Started "shard_job list"

section \<open>The parser\<close>

text \<open>The options in the order \<open>add_argument\<close> declares them, with their types.\<close>

definition known_options :: "(string \<times> arg_type) list" where
  "known_options =
     [(''--ref'', ArgStr), (''--bam'', ArgStr), (''--chromosome_name'', ArgStr),
      (''--max_threads'', ArgInt), (''--test'', ArgBool), (''--json'', ArgBool),
      (''--output_dir'', ArgStr)]"

definition is_known_option :: "string \<Rightarrow> bool" where
  "is_known_option t \<longleftrightarrow> t \<in> fst ` set known_options"

definition is_prefix_of :: "string \<Rightarrow> string \<Rightarrow> bool" where
  "is_prefix_of n opt \<longleftrightarrow> take (length n) opt = n"

text \<open>A token argparse reads as an option string: a leading dash and more, unless the
  token is a negative number or contains a space (\<open>_parse_optional\<close>).\<close>

definition looks_like_option :: "string \<Rightarrow> bool" where
  "looks_like_option t \<longleftrightarrow>
     t \<noteq> [] \<and> hd t = CHR ''-'' \<and> t \<noteq> ''-'' \<and> parse_int t = None \<and> CHR '' '' \<notin> set t"

text \<open>The option an option string names: itself when it is known, otherwise the one known
  option it abbreviates (\<open>allow_abbrev\<close>); an abbreviation of several is an error, one of
  none an unknown option.\<close>

definition resolve_option :: "string \<Rightarrow> string option result" where
  "resolve_option n =
     (if is_known_option n then Inr (Some n)
      else (case filter (is_prefix_of n) (map fst known_options) of
              [] \<Rightarrow> Inr None
            | [opt] \<Rightarrow> Inr (Some opt)
            | _ \<Rightarrow> Inl SystemExit))"

text \<open>The scan of \<open>parse_known_args\<close>: the values given to known options, in order, and
  the unparsed tokens. \<open>--\<close> ends the options: what follows is unparsed.\<close>

fun scan_args :: "string list \<Rightarrow> ((string \<times> string) list \<times> string list) result" where
  "scan_args [] = Inr ([], [])"
| "scan_args (t # ts) =
     (if t = ''--'' then Inr ([], ts)
      else if looks_like_option t then
        (let n = takeWhile (\<lambda>c. c \<noteq> CHR ''='') t in
         bind_result (resolve_option n) (\<lambda>r.
           case r of
             None \<Rightarrow> bind_result (scan_args ts) (\<lambda>(kvs, un). Inr (kvs, t # un))
           | Some opt \<Rightarrow>
               (if n \<noteq> t then
                  bind_result (scan_args ts) (\<lambda>(kvs, un). Inr ((opt, drop (Suc (length n)) t) # kvs, un))
                else
                  (case ts of
                     [] \<Rightarrow> Inl SystemExit
                   | v # rest \<Rightarrow>
                       (if looks_like_option v then Inl SystemExit
                        else bind_result (scan_args rest) (\<lambda>(kvs, un). Inr ((opt, v) # kvs, un)))))))
      else bind_result (scan_args ts) (\<lambda>(kvs, un). Inr (kvs, t # un)))"

text \<open>The value of an option: its last occurrence.\<close>

definition option_value :: "(string \<times> string) list \<Rightarrow> string \<Rightarrow> string option" where
  "option_value kvs name = map_of (rev kvs) name"

definition convert :: "arg_type \<Rightarrow> string \<Rightarrow> arg_value result" where
  "convert ty s =
     (case ty of
        ArgStr \<Rightarrow> Inr (VStr s)
      | ArgInt \<Rightarrow> (case parse_int s of None \<Rightarrow> Inl SystemExit | Some i \<Rightarrow> Inr (VInt i))
      | ArgBool \<Rightarrow> Inr (VBool (py_bool_of_str s)))"

definition str_option :: "(string \<times> string) list \<Rightarrow> string \<Rightarrow> string option \<Rightarrow> string result" where
  "str_option kvs name dflt =
     (case option_value kvs name of
        Some s \<Rightarrow> Inr s
      | None \<Rightarrow> (case dflt of None \<Rightarrow> Inl SystemExit | Some d \<Rightarrow> Inr d))"

definition int_option :: "(string \<times> string) list \<Rightarrow> string \<Rightarrow> int \<Rightarrow> int result" where
  "int_option kvs name dflt =
     (case option_value kvs name of
        None \<Rightarrow> Inr dflt
      | Some s \<Rightarrow> bind_result (convert ArgInt s)
                   (\<lambda>v. case v of VInt i \<Rightarrow> Inr i | _ \<Rightarrow> Inl SystemExit))"

definition bool_option :: "(string \<times> string) list \<Rightarrow> string \<Rightarrow> bool \<Rightarrow> bool result" where
  "bool_option kvs name dflt =
     (case option_value kvs name of
        None \<Rightarrow> Inr dflt
      | Some s \<Rightarrow> bind_result (convert ArgBool s)
                   (\<lambda>v. case v of VBool b \<Rightarrow> Inr b | _ \<Rightarrow> Inl SystemExit))"

text \<open>\<open>parser.parse_known_args()\<close>: the flags with their defaults (lines 197--242).\<close>

definition parse_known_args :: "string list \<Rightarrow> (flags \<times> string list) result" where
  "parse_known_args args =
     bind_result (scan_args args) (\<lambda>(kvs, unparsed).
     bind_result (str_option kvs ''--ref'' None) (\<lambda>r.
     bind_result (str_option kvs ''--bam'' None) (\<lambda>b.
     bind_result (str_option kvs ''--chromosome_name'' (Some ''3'')) (\<lambda>c.
     bind_result (int_option kvs ''--max_threads'' 5) (\<lambda>m.
     bind_result (bool_option kvs ''--test'' False) (\<lambda>t.
     bind_result (bool_option kvs ''--json'' False) (\<lambda>j.
     bind_result (str_option kvs ''--output_dir'' (Some ''output/'')) (\<lambda>od.
       Inr (\<lparr>flag_ref = r, flag_bam = b, flag_chromosome_name = c, flag_max_threads = m,
              flag_test = t, flag_json = j, flag_output_dir = od\<rparr>, unparsed)))))))))"

text \<open>The converter registered under \<open>"bool"\<close>, as it would read \<open>--test\<close> if it were used.\<close>

definition registered_bool :: "string \<Rightarrow> bool" where
  "registered_bool v \<longleftrightarrow> py_lower v = ''true''"

section \<open>The main block\<close>

definition st_result :: "'a result \<Rightarrow> ('s, 'a) st" where
  "st_result r = (\<lambda>w. (r, w))"

text \<open>\<open>if FLAGS.output_dir[-1] != '/': FLAGS.output_dir += '/'\<close> (lines 244--245).\<close>

definition normalise_output_dir :: "string \<Rightarrow> string result" where
  "normalise_output_dir od =
     bind_result (py_index od (-1)) (\<lambda>c. Inr (if c \<noteq> CHR ''/'' then od @ ''/'' else od))"

definition view_of_flags :: "flags \<Rightarrow> string \<Rightarrow> view" where
  "view_of_flags fl od =
     \<lparr>view_chromosome = flag_chromosome_name fl, view_bam = flag_bam fl, view_ref = flag_ref fl,
      view_output_dir = od\<rparr>"

text \<open>Lines 242--261. \<open>pl bam ref\<close> is the pipeline a \<open>View\<close> builds over the two files, and
  \<open>chr_len ref\<close> the chromosome lengths \<open>FastaHandler(ref)\<close> reports.\<close>

definition main ::
  "(string \<Rightarrow> string \<Rightarrow> ('r, 'p, 'c) pipeline) \<Rightarrow> (string \<Rightarrow> string \<Rightarrow> int) \<Rightarrow> string list \<Rightarrow>
   (world, 'c main_outcome) st" where
  "main pl chr_len args =
     st_bind (st_result (parse_known_args args)) (\<lambda>(fl, unparsed).
     st_bind (st_result (normalise_output_dir (flag_output_dir fl))) (\<lambda>od.
     st_bind (os_path_exists od) (\<lambda>ex.
     st_bind (if \<not> ex then os_mkdir od else st_return ()) (\<lambda>_.
       if flag_test fl then
         st_bind (view_test (pl (flag_bam fl) (flag_ref fl)) (view_of_flags fl od) (flag_json fl))
           (\<lambda>r. st_return (RanTest r))
       else
         st_bind (st_result (do_parallel (chr_len (flag_ref fl)) (flag_chromosome_name fl) (flag_bam fl)
                               (flag_ref fl) (flag_json fl) od (flag_max_threads fl)))
           (\<lambda>jobs. st_return (Started jobs))))))"

section \<open>Lemmas\<close>

lemma main_apply:
  "main pl chr_len args w =
     (case parse_known_args args of
        Inl e \<Rightarrow> (Inl e, w)
      | Inr (fl, un) \<Rightarrow>
          (case normalise_output_dir (flag_output_dir fl) of
             Inl e \<Rightarrow> (Inl e, w)
           | Inr od \<Rightarrow>
               st_bind (if \<not> path_exists w od then os_mkdir od else st_return ()) (\<lambda>_.
                 if flag_test fl then
                   st_bind (view_test (pl (flag_bam fl) (flag_ref fl)) (view_of_flags fl od) (flag_json fl))
                     (\<lambda>r. st_return (RanTest r))
                 else
                   st_bind (st_result (do_parallel (chr_len (flag_ref fl)) (flag_chromosome_name fl)
                     (flag_bam fl) (flag_ref fl) (flag_json fl) od (flag_max_threads fl)))
                     (\<lambda>jobs. st_return (Started jobs))) w))"
  by (simp add: main_def st_bind_def st_result_def split: sum.splits prod.splits)

lemma args_test_false:
  "parse_known_args [''--ref'', ''r.fa'', ''--bam'', ''b.bam'', ''--test'', ''False''] =
     Inr (\<lparr>flag_ref = ''r.fa'', flag_bam = ''b.bam'', flag_chromosome_name = ''3'', flag_max_threads = 5,
           flag_test = True, flag_json = False, flag_output_dir = ''output/''\<rparr>, [])"
  by code_simp

lemma normalise_output_dir_eq:
  "normalise_output_dir od = (if od = [] then Inl IndexError else Inr (if last od = CHR ''/'' then od else od @ ''/''))"
  by (cases od rule: rev_cases) (simp_all add: normalise_output_dir_def)

lemma args_defaults:
  "parse_known_args [''--ref'', ''r.fa'', ''--bam'', ''b.bam''] =
     Inr (\<lparr>flag_ref = ''r.fa'', flag_bam = ''b.bam'', flag_chromosome_name = ''3'', flag_max_threads = 5,
           flag_test = False, flag_json = False, flag_output_dir = ''output/''\<rparr>, [])"
  by code_simp

lemma resolve_option_error: "resolve_option n = Inl e \<Longrightarrow> e = SystemExit"
  by (auto simp: resolve_option_def split: if_splits list.splits)

lemma resolve_option_prefix: "resolve_option n = Inr (Some opt) \<Longrightarrow> is_prefix_of n opt"
proof (cases "is_known_option n")
  case True
  then show "resolve_option n = Inr (Some opt) \<Longrightarrow> is_prefix_of n opt"
    by (simp add: resolve_option_def is_prefix_of_def)
next
  case False
  assume r: "resolve_option n = Inr (Some opt)"
  with False have eq: "filter (is_prefix_of n) (map fst known_options) = [opt]"
    by (auto simp: resolve_option_def split: list.splits)
  have "opt \<in> set (filter (is_prefix_of n) (map fst known_options))"
    by (simp add: eq)
  then show ?thesis by simp
qed

lemma scan_args_option:
  assumes "t \<noteq> ''--''" and "looks_like_option t" and "n = takeWhile (\<lambda>c. c \<noteq> CHR ''='') t"
  shows "scan_args (t # ts) =
      bind_result (resolve_option n) (\<lambda>r. case r of
             None \<Rightarrow> bind_result (scan_args ts) (\<lambda>(kvs, un). Inr (kvs, t # un))
           | Some opt \<Rightarrow>
               (if n \<noteq> t then
                  bind_result (scan_args ts) (\<lambda>(kvs, un). Inr ((opt, drop (Suc (length n)) t) # kvs, un))
                else
                  (case ts of
                     [] \<Rightarrow> Inl SystemExit
                   | v # rest \<Rightarrow>
                       (if looks_like_option v then Inl SystemExit
                        else bind_result (scan_args rest) (\<lambda>(kvs, un). Inr ((opt, v) # kvs, un))))))"
  using assms by (simp only: scan_args.simps Let_def if_False if_True)

lemma scan_args_error: "scan_args args = Inl e \<Longrightarrow> e = SystemExit"
proof (induction args arbitrary: e rule: scan_args.induct)
  case 1
  then show ?case by simp
next
  case (2 t ts)
  have ts_ih: "scan_args ts = Inl e' \<Longrightarrow> e' = SystemExit" if "t \<noteq> ''--''" for e'
    using that "2.IH"(1) [OF _ _ refl] "2.IH"(4) by blast
  have rest_ih: "scan_args rest = Inl e' \<Longrightarrow> e' = SystemExit"
    if "t \<noteq> ''--''" "looks_like_option t" "takeWhile (\<lambda>c. c \<noteq> CHR ''='') t = t"
       "ts = v # rest" "\<not> looks_like_option v" for v rest e'
    using that "2.IH"(3) [OF _ _ refl] by blast
  show ?case
  proof (cases "t = ''--'' \<or> \<not> looks_like_option t")
    case True
    with "2.prems" ts_ih show ?thesis
      by (auto simp: bind_result_eq_Inl split: if_splits)
  next
    case False
    then have t: "t \<noteq> ''--''" "looks_like_option t" by auto
    define n where "n = takeWhile (\<lambda>c. c \<noteq> CHR ''='') t"
    have pre: "bind_result (resolve_option n) (\<lambda>r. case r of
             None \<Rightarrow> bind_result (scan_args ts) (\<lambda>(kvs, un). Inr (kvs, t # un))
           | Some opt \<Rightarrow>
               (if n \<noteq> t then
                  bind_result (scan_args ts) (\<lambda>(kvs, un). Inr ((opt, drop (Suc (length n)) t) # kvs, un))
                else
                  (case ts of
                     [] \<Rightarrow> Inl SystemExit
                   | v # rest \<Rightarrow>
                       (if looks_like_option v then Inl SystemExit
                        else bind_result (scan_args rest) (\<lambda>(kvs, un). Inr ((opt, v) # kvs, un)))))) = Inl e"
      using "2.prems" by (simp only: scan_args_option [OF t n_def])
    show ?thesis
    proof (cases "resolve_option n")
      case (Inl e'')
      with pre show ?thesis by (simp add: resolve_option_error)
    next
      case (Inr r)
      show ?thesis
      proof (cases "r = None \<or> n \<noteq> t")
        case True
        with pre Inr have "scan_args ts = Inl e"
          by (auto simp: bind_result_eq_Inl simp del: scan_args.simps split: option.splits prod.splits)
        then show ?thesis by (rule ts_ih [OF t(1)])
      next
        case False
        then obtain opt where r: "r = Some opt" and nt: "n = t" by auto
        show ?thesis
        proof (cases ts)
          case Nil
          with pre Inr r nt show ?thesis by simp
        next
          case (Cons v rest)
          show ?thesis
          proof (cases "looks_like_option v")
            case True
            with pre Inr r nt Cons show ?thesis by simp
          next
            case nv: False
            with pre Inr r nt Cons have "scan_args rest = Inl e"
              by (auto simp: bind_result_eq_Inl simp del: scan_args.simps split: prod.splits)
            then show ?thesis using rest_ih [OF t _ Cons nv] nt by (simp add: n_def)
          qed
        qed
      qed
    qed
  qed
qed

lemma scan_args_keys:
  "scan_args args = Inr (kvs, un) \<Longrightarrow> k \<in> fst ` set kvs \<Longrightarrow>
   \<exists>t\<in>set args. is_prefix_of (takeWhile (\<lambda>c. c \<noteq> CHR ''='') t) k"
proof (induction args arbitrary: kvs un rule: scan_args.induct)
  case 1
  then show ?case by simp
next
  case (2 t ts)
  have ts_ih: "\<exists>t'\<in>set ts. is_prefix_of (takeWhile (\<lambda>c. c \<noteq> CHR ''='') t') k"
    if "t \<noteq> ''--''" "scan_args ts = Inr (kvs', un')" "k \<in> fst ` set kvs'" for kvs' un'
    using that "2.IH"(1) [OF _ _ refl] "2.IH"(4) by blast
  have rest_ih: "\<exists>t'\<in>set rest. is_prefix_of (takeWhile (\<lambda>c. c \<noteq> CHR ''='') t') k"
    if "t \<noteq> ''--''" "looks_like_option t" "takeWhile (\<lambda>c. c \<noteq> CHR ''='') t = t"
       "ts = v # rest" "\<not> looks_like_option v" "scan_args rest = Inr (kvs', un')"
       "k \<in> fst ` set kvs'" for v rest kvs' un'
    using that "2.IH"(3) [OF _ _ refl] by blast
  show ?case
  proof (cases "t = ''--'' \<or> \<not> looks_like_option t")
    case dash: True
    show ?thesis
    proof (cases "t = ''--''")
      case True
      with "2.prems" show ?thesis by simp
    next
      case False
      with dash have "\<not> looks_like_option t" by simp
      with False "2.prems"(1) obtain un' where "scan_args ts = Inr (kvs, un')"
        by (auto simp: bind_result_eq_Inr)
      with ts_ih [OF False] "2.prems"(2) show ?thesis by auto
    qed
  next
    case False
    then have t: "t \<noteq> ''--''" "looks_like_option t" by auto
    define n where "n = takeWhile (\<lambda>c. c \<noteq> CHR ''='') t"
    note pre = "2.prems"(1) [unfolded scan_args_option [OF t n_def]]
    obtain r where r: "resolve_option n = Inr r"
      using pre by (cases "resolve_option n") simp_all
    show ?thesis
    proof (cases r)
      case None
      with pre r obtain un' where "scan_args ts = Inr (kvs, un')"
        by (auto simp: bind_result_eq_Inr simp del: scan_args.simps)
      with ts_ih [OF t(1)] "2.prems"(2) show ?thesis by auto
    next
      case (Some opt)
      have pk: "is_prefix_of n opt" using r Some by (simp add: resolve_option_prefix)
      show ?thesis
      proof (cases "n \<noteq> t")
        case True
        with pre r Some obtain kvs' where sc: "scan_args ts = Inr (kvs', un)"
          and kvs: "kvs = (opt, drop (Suc (length n)) t) # kvs'"
          by (auto simp: bind_result_eq_Inr simp del: scan_args.simps)
        show ?thesis
        proof (cases "k = opt")
          case True
          with pk show ?thesis by (auto simp: n_def)
        next
          case False
          with kvs "2.prems"(2) have "k \<in> fst ` set kvs'" by auto
          with ts_ih [OF t(1) sc] show ?thesis by auto
        qed
      next
        case False
        then have nt: "n = t" by simp
        with pre r Some obtain v rest kvs' where ts: "ts = v # rest" and nv: "\<not> looks_like_option v"
          and sc: "scan_args rest = Inr (kvs', un)" and kvs: "kvs = (opt, v) # kvs'"
          by (cases ts) (auto simp: bind_result_eq_Inr simp del: scan_args.simps split: if_splits)
        show ?thesis
        proof (cases "k = opt")
          case True
          with pk show ?thesis by (auto simp: n_def)
        next
          case False
          with kvs "2.prems"(2) have "k \<in> fst ` set kvs'" by auto
          with rest_ih [OF t _ ts nv sc] nt ts show ?thesis by (auto simp: n_def)
        qed
      qed
    qed
  qed
qed

lemma option_errors:
  "str_option kvs n d = Inl e \<Longrightarrow> e = SystemExit"
  "int_option kvs n i = Inl e \<Longrightarrow> e = SystemExit"
  "bool_option kvs n b = Inl e \<Longrightarrow> e = SystemExit"
  by (auto simp: str_option_def int_option_def bool_option_def convert_def bind_result_eq_Inl
      split: option.splits arg_value.splits)

lemma parse_known_args_error: "parse_known_args args = Inl e \<Longrightarrow> e = SystemExit"
  unfolding parse_known_args_def
  by (auto simp: bind_result_eq_Inl dest: scan_args_error option_errors split: prod.splits)

section \<open>Properties of the command line\<close>

text \<open>C23: \<open>--test False\<close> runs the single test region, not the sharded run:
  \<open>type=bool\<close> makes every non-empty string true, while the converter
  registered for \<open>"bool"\<close>, which would read \<open>False\<close> as false,
  is never used.\<close>

theorem cli_test_false_runs_test:
  assumes "''output/'' \<in> dirs w"
  shows "main pl chr_len [''--ref'', ''r.fa'', ''--bam'', ''b.bam'', ''--test'', ''False''] w =
           st_bind (view_test (pl ''b.bam'' ''r.fa'')
              \<lparr>view_chromosome = ''3'', view_bam = ''b.bam'', view_ref = ''r.fa'', view_output_dir = ''output/''\<rparr>
              False) (\<lambda>r. st_return (RanTest r)) w \<and>
         \<not> registered_bool ''False''"
proof
  have "path_exists w ''output/''" using assms by (simp add: path_exists_def)
  then show "main pl chr_len [''--ref'', ''r.fa'', ''--bam'', ''b.bam'', ''--test'', ''False''] w =
           st_bind (view_test (pl ''b.bam'' ''r.fa'')
              \<lparr>view_chromosome = ''3'', view_bam = ''b.bam'', view_ref = ''r.fa'', view_output_dir = ''output/''\<rparr>
              False) (\<lambda>r. st_return (RanTest r)) w"
    by (simp add: main_apply args_test_false normalise_output_dir_eq view_of_flags_def)
  show "\<not> registered_bool ''False''" by code_simp
qed

text \<open>C24: With only \<open>--ref\<close> and \<open>--bam\<close> and an existing
  \<open>output/\<close>, the program starts the sharded run on chromosome 3 with 5
  shards, JSON output off, into \<open>output/\<close>, and changes nothing on disk.\<close>

theorem cli_defaults:
  assumes "''output/'' \<in> dirs w"
  shows "main pl chr_len [''--ref'', ''r.fa'', ''--bam'', ''b.bam''] w =
           (case do_parallel (chr_len ''r.fa'') ''3'' ''b.bam'' ''r.fa'' False ''output/'' 5 of
              Inl e \<Rightarrow> (Inl e, w) | Inr jobs \<Rightarrow> (Inr (Started jobs), w))"
proof -
  have "path_exists w ''output/''" using assms by (simp add: path_exists_def)
  then show ?thesis
    by (simp add: main_apply args_defaults normalise_output_dir_eq st_bind_def st_result_def
        split: sum.splits)
qed

text \<open>C32: An empty \<open>--output_dir\<close> makes \<open>FLAGS.output_dir[-1]\<close> raise
  IndexError before anything is created or started.\<close>

theorem cli_empty_output_dir:
  "main pl chr_len [''--ref'', ''r.fa'', ''--bam'', ''b.bam'', ''--output_dir'', []] w = (Inl IndexError, w)"
proof -
  have "parse_known_args [''--ref'', ''r.fa'', ''--bam'', ''b.bam'', ''--output_dir'', []] =
     Inr (\<lparr>flag_ref = ''r.fa'', flag_bam = ''b.bam'', flag_chromosome_name = ''3'', flag_max_threads = 5,
           flag_test = False, flag_json = False, flag_output_dir = []\<rparr>, [])"
    by code_simp
  then show ?thesis by (simp add: main_apply normalise_output_dir_eq)
qed

text \<open>C33: \<open>--max_threads 0\<close> raises ZeroDivisionError in
  \<open>do_parallel\<close>, after the output directory has already been created: the
  invalid shard count is not rejected before work starts.\<close>

theorem cli_zero_threads_after_mkdir:
  assumes "\<not> path_exists w ''output/''" and "[] \<in> dirs w"
  shows "main pl chr_len [''--ref'', ''r.fa'', ''--bam'', ''b.bam'', ''--max_threads'', ''0''] w =
           (Inl ZeroDivisionError, log_event (MakeDir ''output/'') (w\<lparr>dirs := insert ''output/'' (dirs w)\<rparr>))"
proof -
  have "parse_known_args [''--ref'', ''r.fa'', ''--bam'', ''b.bam'', ''--max_threads'', ''0''] =
     Inr (\<lparr>flag_ref = ''r.fa'', flag_bam = ''b.bam'', flag_chromosome_name = ''3'', flag_max_threads = 0,
           flag_test = False, flag_json = False, flag_output_dir = ''output/''\<rparr>, [])"
    by code_simp
  moreover have "parent_dir ''output/'' = []" by (simp add: parent_dir_def)
  ultimately show ?thesis
    using assms
    by (simp add: main_apply normalise_output_dir_eq os_mkdir_ok st_result_def do_parallel_def
        py_ceil_div_def)
qed

text \<open>C34: Without \<open>--ref\<close> (no token names it or abbreviates it) the parser exits
  with SystemExit and the world is untouched.\<close>

theorem cli_missing_ref:
  assumes "\<forall>t\<in>set args. \<not> is_prefix_of (takeWhile (\<lambda>c. c \<noteq> CHR ''='') t) ''--ref''"
  shows "main pl chr_len args w = (Inl SystemExit, w)"
proof -
  have "\<not> (\<exists>fl. parse_known_args args = Inr fl)"
  proof
    assume "\<exists>fl. parse_known_args args = Inr fl"
    then obtain kvs un r where sc: "scan_args args = Inr (kvs, un)" and "str_option kvs ''--ref'' None = Inr r"
      by (auto simp: parse_known_args_def bind_result_eq_Inr)
    then obtain v where "map_of (rev kvs) ''--ref'' = Some v"
      by (auto simp: str_option_def option_value_def split: option.splits)
    then have "''--ref'' \<in> fst ` set kvs"
      by (metis fst_conv image_eqI map_of_SomeD set_rev)
    with scan_args_keys [OF sc] assms show False by blast
  qed
  then obtain e where "parse_known_args args = Inl e" by (cases "parse_known_args args") auto
  then show ?thesis using parse_known_args_error by (simp add: main_apply)
qed

section \<open>Witnesses\<close>

theorem cli_test_false_runs_test_witness:
  "main (\<lambda>_ _. example_pipeline) (\<lambda>_ _. 10) [''--ref'', ''r.fa'', ''--bam'', ''b.bam'', ''--test'', ''False'']
     (example_world {[], ''output/''}) =
   st_bind (view_test example_pipeline
      \<lparr>view_chromosome = ''3'', view_bam = ''b.bam'', view_ref = ''r.fa'', view_output_dir = ''output/''\<rparr>
      False) (\<lambda>r. st_return (RanTest r)) (example_world {[], ''output/''})"
  using cli_test_false_runs_test [where w = "example_world {[], ''output/''}" and pl = "\<lambda>_ _. example_pipeline"
      and chr_len = "\<lambda>_ _. 10"] by simp

theorem cli_defaults_witness:
  "main (\<lambda>_ _. example_pipeline) (\<lambda>_ _. 10) [''--ref'', ''r.fa'', ''--bam'', ''b.bam'']
     (example_world {[], ''output/''}) =
   (Inr (Started (map (shard_job_for ''3'' ''b.bam'' ''r.fa'' False ''output/'' 2) [0, 1, 2, 3, 4])),
    example_world {[], ''output/''})"
proof -
  have "do_parallel (\<lambda>_. 10) ''3'' ''b.bam'' ''r.fa'' False ''output/'' 5 =
      Inr (map (shard_job_for ''3'' ''b.bam'' ''r.fa'' False ''output/'' 2) [0, 1, 2, 3, 4])"
    by (simp add: do_parallel_def py_ceil_div_def py_range_def upto.simps)
  with cli_defaults [of "example_world {[], ''output/''}" "\<lambda>_ _. example_pipeline" "\<lambda>_ _. 10"]
  show ?thesis by simp
qed

theorem cli_zero_threads_after_mkdir_witness:
  "main (\<lambda>_ _. example_pipeline) (\<lambda>_ _. 10) [''--ref'', ''r.fa'', ''--bam'', ''b.bam'', ''--max_threads'', ''0'']
     (example_world {[]}) =
   (Inl ZeroDivisionError, \<lparr>dirs = {''output/'', []}, files = Map.empty, io_log = [MakeDir ''output/'']\<rparr>)"
  using cli_zero_threads_after_mkdir [where w = "example_world {[]}" and pl = "\<lambda>_ _. example_pipeline"
      and chr_len = "\<lambda>_ _. 10"]
  by (simp add: path_exists_def log_event_def insert_commute)

theorem cli_missing_ref_witness:
  "main (\<lambda>_ _. example_pipeline) (\<lambda>_ _. 10) [''--bam'', ''b.bam'', ''--reference=r.fa''] (example_world {}) =
   (Inl SystemExit, example_world {})"
  by (rule cli_missing_ref) (simp add: is_prefix_of_def)

end
