(* ===== verification/Dispatch.thy ===== *)
theory Dispatch
  imports Orchestrator Shards
begin

text \<open>
  The shard processes \<open>do_parallel\<close> starts (\<open>Process(target=view.parse_region, ...)\<close>,
  lines 180--190) run concurrently over one file system and are never joined. Each is
  a small-step machine over the shared \<open>world\<close>: one atomic step for the work that touches
  only its own handles (the reads and the fetches, which only append to the log), then the
  four file-system calls of \<open>View.write_json\<close> (lines 101--105), one step each:
  \<open>os.path.exists\<close>, \<open>os.mkdir\<close> when the directory was missing, \<open>open\<close>, \<open>write\<close>. The
  encoded document is computed privately, so an encoding error surfaces at the write step,
  after the file has been opened, exactly where the sequential code raises it.

  \<open>sys_step\<close> lets any unfinished process take its next step: every interleaving the
  operating system may choose is a run of it. The lemmas show that one process run alone
  for five steps is \<open>parse_region\<close> (a refinement of the sequential model), that two shards racing on a missing \<open>json_output/\<close> directory can make one of
  them fail with FileExistsError, and that with distinct artifact names every finished
  shard's artifact holds its own document in every interleaving. The state predicate
  \<open>dir_ready\<close> is the invariant under which no process can fail, used in the root theory
  for the case where \<open>json_output/\<close> already exists.
\<close>

datatype shard_pc = PCompute | PExists | PMkdir | POpen | PWrite | PDone | PFailed py_error

record shard_proc =
  sp_dir :: string
  sp_path :: string
  sp_doc :: "json result"
  sp_json :: bool
  sp_log :: "io_event list"
  sp_pc :: shard_pc

type_synonym sys_state = "shard_proc list \<times> world"

section \<open>One shard process\<close>

text \<open>The process \<open>parse_region(start, end, json_out)\<close> of a view, before its first step.\<close>

definition shard_proc_of ::
  "('r, 'p, 'c) pipeline \<Rightarrow> view \<Rightarrow> int \<Rightarrow> int \<Rightarrow> bool \<Rightarrow> shard_proc" where
  "shard_proc_of pl v s e j =
     \<lparr>sp_dir = json_output_dir (view_output_dir v),
      sp_path = artifact_path (view_output_dir v) (view_chromosome v) s e,
      sp_doc = json_dumps_sorted (region_reprJSON (candidate_obj pl) (expected_region pl v s e)),
      sp_json = j, sp_log = read_log pl v s e, sp_pc = PCompute\<rparr>"

text \<open>The process \<open>Process(target=view.parse_region, args=(start, end, json_out))\<close> that
  \<open>do_parallel\<close> starts for a job, over the \<open>View\<close> the loop builds for it.\<close>

definition job_view :: "shard_job \<Rightarrow> view" where
  "job_view jb =
     \<lparr>view_chromosome = job_chromosome jb, view_bam = job_bam jb, view_ref = job_ref jb,
      view_output_dir = job_output_dir jb\<rparr>"

definition job_proc :: "('r, 'p, 'c) pipeline \<Rightarrow> shard_job \<Rightarrow> shard_proc" where
  "job_proc pl jb = shard_proc_of pl (job_view jb) (job_start jb) (job_end jb) (job_json jb)"

definition proc_final :: "shard_proc \<Rightarrow> bool" where
  "proc_final p \<longleftrightarrow> (case sp_pc p of PDone \<Rightarrow> True | PFailed _ \<Rightarrow> True | _ \<Rightarrow> False)"

text \<open>One step of a process: the call at its program counter, on the shared world.\<close>

definition proc_step :: "shard_proc \<Rightarrow> world \<Rightarrow> shard_proc \<times> world" where
  "proc_step p w =
     (case sp_pc p of
        PCompute \<Rightarrow>
          (p\<lparr>sp_pc := (if sp_json p then PExists else PDone)\<rparr>, w\<lparr>io_log := io_log w @ sp_log p\<rparr>)
      | PExists \<Rightarrow> (p\<lparr>sp_pc := (if path_exists w (sp_dir p) then POpen else PMkdir)\<rparr>, w)
      | PMkdir \<Rightarrow>
          (case os_mkdir (sp_dir p) w of
             (Inl e, w') \<Rightarrow> (p\<lparr>sp_pc := PFailed e\<rparr>, w')
           | (Inr _, w') \<Rightarrow> (p\<lparr>sp_pc := POpen\<rparr>, w'))
      | POpen \<Rightarrow>
          (case open_write (sp_path p) w of
             (Inl e, w') \<Rightarrow> (p\<lparr>sp_pc := PFailed e\<rparr>, w')
           | (Inr _, w') \<Rightarrow> (p\<lparr>sp_pc := PWrite\<rparr>, w'))
      | PWrite \<Rightarrow>
          (case sp_doc p of
             Inl e \<Rightarrow> (p\<lparr>sp_pc := PFailed e\<rparr>, w)
           | Inr doc \<Rightarrow> (p\<lparr>sp_pc := PDone\<rparr>, snd (write_file (sp_path p) doc w)))
      | _ \<Rightarrow> (p, w))"

text \<open>A process run alone for \<open>n\<close> steps; five steps are the longest path of
  \<open>parse_region\<close>, so five is the fuel that finishes any process.\<close>

primrec proc_run :: "nat \<Rightarrow> shard_proc \<Rightarrow> world \<Rightarrow> shard_proc \<times> world" where
  "proc_run 0 p w = (p, w)"
| "proc_run (Suc n) p w = (let (p', w') = proc_step p w in proc_run n p' w')"

text \<open>The file-system calls of \<open>write_json\<close> a process makes, in one sequence.\<close>

definition proc_write :: "shard_proc \<Rightarrow> (world, unit) st" where
  "proc_write p =
     st_bind (os_path_exists (sp_dir p)) (\<lambda>ex.
       st_bind (if ex then st_return () else os_mkdir (sp_dir p)) (\<lambda>_.
         st_bind (open_write (sp_path p)) (\<lambda>_.
           (case sp_doc p of Inl e \<Rightarrow> st_raise e | Inr doc \<Rightarrow> write_file (sp_path p) doc))))"

definition proc_result :: "shard_proc \<Rightarrow> unit result" where
  "proc_result p = (case sp_pc p of PFailed e \<Rightarrow> Inl e | _ \<Rightarrow> Inr ())"

section \<open>Interleaved processes\<close>

inductive sys_step :: "sys_state \<Rightarrow> sys_state \<Rightarrow> bool" where
  step: "i < length ps \<Longrightarrow> \<not> proc_final (ps ! i) \<Longrightarrow> proc_step (ps ! i) w = (p', w') \<Longrightarrow>
         sys_step (ps, w) (ps[i := p'], w')"

inductive_cases sys_stepE: "sys_step s s'"

text \<open>The processes of a \<open>do_parallel\<close> run, all started, over the world they start in.\<close>

definition dispatch_state :: "('r, 'p, 'c) pipeline \<Rightarrow> shard_job list \<Rightarrow> world \<Rightarrow> sys_state" where
  "dispatch_state pl jobs w = (map (job_proc pl) jobs, w)"

text \<open>A scheduler: run the processes in the order of the list of indices, stopping at an
  index whose process is missing or has finished.\<close>

fun sys_sched :: "nat list \<Rightarrow> sys_state \<Rightarrow> sys_state" where
  "sys_sched [] s = s"
| "sys_sched (i # is) (ps, w) =
     (if i < length ps \<and> \<not> proc_final (ps ! i)
      then (case proc_step (ps ! i) w of (p', w') \<Rightarrow> sys_sched is (ps[i := p'], w'))
      else (ps, w))"

text \<open>The state reached when every process has finished and every finished process that
  writes JSON holds its document in its artifact.\<close>

definition artifacts_written :: "sys_state \<Rightarrow> bool" where
  "artifacts_written s \<longleftrightarrow>
     (\<forall>p\<in>set (fst s). sp_pc p = PDone \<and> sp_json p \<longrightarrow>
        (\<exists>doc. sp_doc p = Inr doc \<and> files (snd s) (sp_path p) = Some (FileJson doc)))"

text \<open>The state in which no process can fail: the directory \<open>d\<close> exists, every process
  writes into it a file whose name is not a directory, has its document, and has neither
  failed nor is about to create the directory.\<close>

definition dir_ready :: "string \<Rightarrow> sys_state \<Rightarrow> bool" where
  "dir_ready d s \<longleftrightarrow> d \<in> dirs (snd s) \<and>
     (\<forall>p\<in>set (fst s). sp_dir p = d \<and> parent_dir (sp_path p) = d \<and> sp_path p \<notin> dirs (snd s) \<and>
        (\<exists>doc. sp_doc p = Inr doc) \<and> sp_pc p \<noteq> PMkdir \<and> (\<forall>e. sp_pc p \<noteq> PFailed e))"

section \<open>Lemmas\<close>

lemma proc_step_frame [simp]:
  "sp_dir (fst (proc_step p w)) = sp_dir p" "sp_path (fst (proc_step p w)) = sp_path p"
  "sp_doc (fst (proc_step p w)) = sp_doc p" "sp_json (fst (proc_step p w)) = sp_json p"
  "sp_log (fst (proc_step p w)) = sp_log p"
  by (auto simp: proc_step_def split: shard_pc.splits prod.splits sum.splits)

lemma proc_step_final: "proc_final p \<Longrightarrow> proc_step p w = (p, w)"
  by (auto simp: proc_step_def proc_final_def split: shard_pc.splits)

lemma proc_run_final: "proc_final p \<Longrightarrow> proc_run n p w = (p, w)"
  by (induction n) (simp_all add: proc_step_final)

lemma proc_final_simps [simp]:
  "proc_final (p\<lparr>sp_pc := PDone\<rparr>)" "proc_final (p\<lparr>sp_pc := PFailed e\<rparr>)"
  by (simp_all add: proc_final_def)

lemma proc_run_Suc: "proc_run (Suc n) p w = proc_run n (fst (proc_step p w)) (snd (proc_step p w))"
  by (simp add: Let_def split_def)

lemma proc_run_write:
  "sp_pc p = PWrite \<Longrightarrow>
   proc_run (Suc n) p w =
     (case sp_doc p of Inl e \<Rightarrow> (p\<lparr>sp_pc := PFailed e\<rparr>, w)
      | Inr doc \<Rightarrow> (p\<lparr>sp_pc := PDone\<rparr>, snd (write_file (sp_path p) doc w)))"
  by (cases "sp_doc p") (simp_all only: proc_run_Suc, simp_all add: proc_step_def proc_run_final)

lemma shard_proc_pc_frame [simp]:
  "sp_path (p\<lparr>sp_pc := x\<rparr>) = sp_path p" "sp_doc (p\<lparr>sp_pc := x\<rparr>) = sp_doc p"
  "sp_dir (p\<lparr>sp_pc := x\<rparr>) = sp_dir p"
  by simp_all

lemma proc_run_open_write:
  assumes "sp_pc p = POpen"
  shows "proc_final (fst (proc_run (Suc (Suc n)) p w)) \<and>
    (proc_result (fst (proc_run (Suc (Suc n)) p w)), snd (proc_run (Suc (Suc n)) p w)) =
    st_bind (open_write (sp_path p)) (\<lambda>_.
       case sp_doc p of Inl e \<Rightarrow> st_raise e | Inr doc \<Rightarrow> write_file (sp_path p) doc) w"
proof (cases "open_write (sp_path p) w")
  case (Pair r w')
  show ?thesis
  proof (cases r)
    case (Inl e)
    with Pair assms show ?thesis
      by (simp only: proc_run_Suc) (simp add: proc_step_def proc_run_final proc_result_def st_bind_def)
  next
    case (Inr u)
    with Pair assms have "proc_run (Suc (Suc n)) p w = proc_run (Suc n) (p\<lparr>sp_pc := PWrite\<rparr>) w'"
      by (simp only: proc_run_Suc) (simp add: proc_step_def)
    with Pair Inr show ?thesis
      by (cases "sp_doc p") (simp_all add: proc_run_write proc_result_def st_bind_def del: proc_run.simps)
  qed
qed

lemma proc_run_exists:
  assumes "sp_pc p = PExists"
  shows "proc_final (fst (proc_run (Suc (Suc (Suc (Suc n)))) p w)) \<and>
    (proc_result (fst (proc_run (Suc (Suc (Suc (Suc n)))) p w)), snd (proc_run (Suc (Suc (Suc (Suc n)))) p w)) =
    proc_write p w"
proof (cases "path_exists w (sp_dir p)")
  case True
  then have step: "proc_step p w = (p\<lparr>sp_pc := POpen\<rparr>, w)"
    using assms by (simp add: proc_step_def)
  have "proc_run (Suc (Suc (Suc (Suc n)))) p w = proc_run (Suc (Suc (Suc n))) (p\<lparr>sp_pc := POpen\<rparr>) w"
    by (simp only: proc_run_Suc [of "Suc (Suc (Suc n))"] step fst_conv snd_conv)
  with True show ?thesis
    using proc_run_open_write [of "p\<lparr>sp_pc := POpen\<rparr>" "Suc n" w, unfolded shard_proc_pc_frame]
    by (simp add: proc_write_def st_bind_def del: proc_run.simps)
next
  case False
  then have step: "proc_step p w = (p\<lparr>sp_pc := PMkdir\<rparr>, w)"
    using assms by (simp add: proc_step_def)
  show ?thesis
  proof (cases "os_mkdir (sp_dir p) w")
    case (Pair r w')
    show ?thesis
    proof (cases r)
      case (Inl e)
      with Pair have step2: "proc_step (p\<lparr>sp_pc := PMkdir\<rparr>) w = (p\<lparr>sp_pc := PFailed e\<rparr>, w')"
        by (simp add: proc_step_def)
      have "proc_run (Suc (Suc (Suc (Suc n)))) p w = (p\<lparr>sp_pc := PFailed e\<rparr>, w')"
        by (simp only: proc_run_Suc [of "Suc (Suc (Suc n))"] proc_run_Suc [of "Suc (Suc n)"] step step2
            fst_conv snd_conv) (simp add: proc_run_final del: proc_run.simps)
      with Pair Inl False show ?thesis
        by (simp add: proc_write_def proc_result_def st_bind_def del: proc_run.simps)
    next
      case (Inr u)
      with Pair have step2: "proc_step (p\<lparr>sp_pc := PMkdir\<rparr>) w = (p\<lparr>sp_pc := POpen\<rparr>, w')"
        by (simp add: proc_step_def)
      have "proc_run (Suc (Suc (Suc (Suc n)))) p w = proc_run (Suc (Suc n)) (p\<lparr>sp_pc := POpen\<rparr>) w'"
        by (simp only: proc_run_Suc [of "Suc (Suc (Suc n))"] proc_run_Suc [of "Suc (Suc n)"] step step2
            fst_conv snd_conv)
      with Pair Inr False show ?thesis
        using proc_run_open_write [of "p\<lparr>sp_pc := POpen\<rparr>" n w', unfolded shard_proc_pc_frame]
        by (simp add: proc_write_def st_bind_def del: proc_run.simps)
    qed
  qed
qed

lemma write_json_proc_write:
  "write_json pl v s e (expected_region pl v s e) = proc_write ((shard_proc_of pl v s e j)\<lparr>sp_pc := x\<rparr>)"
  by (simp add: write_json_def proc_write_def shard_proc_of_def Let_def cong: if_cong sum.case_cong)

lemma proc_step_start:
  "proc_step (shard_proc_of pl v s e j) w =
     ((shard_proc_of pl v s e j)\<lparr>sp_pc := (if j then PExists else PDone)\<rparr>,
      w\<lparr>io_log := io_log w @ read_log pl v s e\<rparr>)"
  by (simp add: proc_step_def shard_proc_of_def)

lemma sys_sched_reachable: "sys_step\<^sup>*\<^sup>* s (sys_sched sched s)"
proof (induction sched s rule: sys_sched.induct)
  case (2 i sched ps w)
  show ?case
  proof (cases "i < length ps \<and> \<not> proc_final (ps ! i)")
    case True
    obtain p' w' where pw: "proc_step (ps ! i) w = (p', w')" by fastforce
    with True have "sys_step (ps, w) (ps[i := p'], w')" by (blast intro: sys_step.step)
    with "2.IH" [OF True pw [symmetric]] True pw show ?thesis
      by (simp add: converse_rtranclp_into_rtranclp)
  qed auto
qed simp

lemma proc_step_files_other:
  "q \<noteq> sp_path p \<Longrightarrow> files (snd (proc_step p w)) q = files w q"
  by (cases "sp_pc p"; cases "sp_doc p") (simp_all add: proc_step_def os_mkdir_def open_write_def)

lemma proc_step_done:
  assumes "\<not> proc_final p" and "sp_pc (fst (proc_step p w)) = PDone" and "sp_json p"
  shows "\<exists>doc. sp_doc p = Inr doc \<and> files (snd (proc_step p w)) (sp_path p) = Some (FileJson doc)"
  using assms
  by (cases "sp_pc p"; cases "sp_doc p") (simp_all add: proc_step_def proc_final_def os_mkdir_def open_write_def split: if_splits)

lemma sys_step_paths: "sys_step s s' \<Longrightarrow> map sp_path (fst s') = map sp_path (fst s)"
proof (induction rule: sys_step.induct)
  case (step i ps w p' w')
  from step.hyps(3) have "p' = fst (proc_step (ps ! i) w)" by simp
  then have "map sp_path (ps[i := p']) = (map sp_path ps)[i := map sp_path ps ! i]"
    using step.hyps(1) by (simp add: map_update)
  then show ?case by simp
qed

lemma artifacts_written_nth:
  "artifacts_written (ps, w) \<longleftrightarrow>
     (\<forall>j<length ps. sp_pc (ps ! j) = PDone \<and> sp_json (ps ! j) \<longrightarrow>
        (\<exists>doc. sp_doc (ps ! j) = Inr doc \<and> files w (sp_path (ps ! j)) = Some (FileJson doc)))"
  by (auto simp: artifacts_written_def all_set_conv_all_nth)

lemma sys_step_artifacts:
  assumes "sys_step s s'" and "distinct (map sp_path (fst s))" and "artifacts_written s"
  shows "artifacts_written s'"
  using assms
proof (induction rule: sys_step.induct)
  case (step i ps w p' w')
  have p': "p' = fst (proc_step (ps ! i) w)" and w': "w' = snd (proc_step (ps ! i) w)"
    using step.hyps(3) by simp_all
  show ?case
    unfolding artifacts_written_nth
  proof (intro allI impI)
    fix j
    assume j: "j < length (ps[i := p'])"
      and fin: "sp_pc (ps[i := p'] ! j) = PDone \<and> sp_json (ps[i := p'] ! j)"
    show "\<exists>doc. sp_doc (ps[i := p'] ! j) = Inr doc \<and> files w' (sp_path (ps[i := p'] ! j)) = Some (FileJson doc)"
    proof (cases "j = i")
      case True
      with fin step.hyps(1) have "sp_pc p' = PDone" "sp_json (ps ! i)"
        by (simp_all add: p')
      with proc_step_done [OF step.hyps(2)] True step.hyps(1) show ?thesis
        by (simp add: p' w')
    next
      case False
      with j have jl: "j < length ps" and nth: "ps[i := p'] ! j = ps ! j" by simp_all
      from step.prems(2) jl fin nth obtain doc
        where "sp_doc (ps ! j) = Inr doc" "files w (sp_path (ps ! j)) = Some (FileJson doc)"
        unfolding artifacts_written_nth by auto
      moreover have "sp_path (ps ! j) \<noteq> sp_path (ps ! i)"
        using nth_eq_iff_index_eq [OF step.prems(1), of j i] False step.hyps(1) jl by simp
      ultimately show ?thesis
        by (simp add: nth w' proc_step_files_other)
    qed
  qed
qed

lemma reachable_artifacts:
  assumes "sys_step\<^sup>*\<^sup>* s s'" and "distinct (map sp_path (fst s))" and "artifacts_written s"
  shows "artifacts_written s' \<and> map sp_path (fst s') = map sp_path (fst s)"
  using assms
proof (induction rule: rtranclp_induct)
  case (step s'' s')
  then have "artifacts_written s''" and "map sp_path (fst s'') = map sp_path (fst s)" by simp_all
  with step.prems(1) have "distinct (map sp_path (fst s''))" by simp
  with \<open>artifacts_written s''\<close> \<open>map sp_path (fst s'') = map sp_path (fst s)\<close> show ?case
    using sys_step_artifacts [OF step.hyps(2)] sys_step_paths [OF step.hyps(2)] by simp
qed simp

lemma job_proc_fields [simp]:
  "sp_path (job_proc pl jb) = artifact_path (job_output_dir jb) (job_chromosome jb) (job_start jb) (job_end jb)"
  "sp_dir (job_proc pl jb) = json_output_dir (job_output_dir jb)"
  "sp_json (job_proc pl jb) = job_json jb"
  "sp_pc (job_proc pl jb) = PCompute"
  by (simp_all add: job_proc_def shard_proc_of_def job_view_def)

lemma shard_paths_differ:
  assumes run: "do_parallel g chr bam ref json_out out n = Inr jobs" and len: "0 < g chr"
    and ij: "i \<noteq> j" "i < length jobs" "j < length jobs"
  shows "artifact_path (job_output_dir (jobs ! i)) (job_chromosome (jobs ! i)) (job_start (jobs ! i))
           (job_end (jobs ! i)) \<noteq>
         artifact_path (job_output_dir (jobs ! j)) (job_chromosome (jobs ! j)) (job_start (jobs ! j))
           (job_end (jobs ! j))"
proof
  obtain seg where seg: "py_ceil_div (g chr) n = Inr seg" and l: "length jobs = nat n"
    and nth: "\<And>k. k < nat n \<Longrightarrow> jobs ! k = shard_job_for chr bam ref json_out out seg (int k)"
    using do_parallel_nth [OF run] by blast
  have "0 < n" using ij(2) l by simp
  then have pos: "0 < seg" using py_ceil_div_pos_pos [OF len _ seg] by blast
  have si: "job_start (jobs ! i) = int i * seg" using ij l by (simp add: nth)
  have sj: "job_start (jobs ! j) = int j * seg" using ij l by (simp add: nth)
  have oi: "job_output_dir (jobs ! i) = out" and oj: "job_output_dir (jobs ! j) = out"
    using ij l by (simp_all add: nth)
  assume eq: "artifact_path (job_output_dir (jobs ! i)) (job_chromosome (jobs ! i)) (job_start (jobs ! i))
           (job_end (jobs ! i)) =
         artifact_path (job_output_dir (jobs ! j)) (job_chromosome (jobs ! j)) (job_start (jobs ! j))
           (job_end (jobs ! j))"
  from artifact_path_inj [OF eq [unfolded oi oj]] have "job_start (jobs ! i) = job_start (jobs ! j)"
    by (rule conjunct1 [OF conjunct2])
  then have "int i * seg = int j * seg" by (simp only: si sj)
  with pos have "int i = int j" by simp
  with ij(1) show False by simp
qed

lemma dispatch_paths_distinct:
  assumes "do_parallel g chr bam ref json_out out n = Inr jobs" and "0 < g chr"
  shows "distinct (map sp_path (fst (dispatch_state pl jobs w)))"
  using shard_paths_differ [OF assms] by (simp add: dispatch_state_def distinct_conv_nth)

lemma mkdir_race_two:
  assumes "1 < length ps" and "sp_pc (ps ! 0) = PCompute" and "sp_pc (ps ! 1) = PCompute"
    and "sp_json (ps ! 0)" and "sp_json (ps ! 1)" and "sp_dir (ps ! 0) = d" and "sp_dir (ps ! 1) = d"
    and "\<not> path_exists w d" and "parent_dir d \<in> dirs w"
  shows "d \<in> dirs (snd (sys_sched [0, 1, 0, 1, 0, 1] (ps, w))) \<and>
         sp_pc (fst (sys_sched [0, 1, 0, 1, 0, 1] (ps, w)) ! 1) = PFailed FileExistsError"
proof -
  have "ps \<noteq> []" using assms(1) by auto
  with assms show ?thesis by (simp add: proc_step_def proc_final_def os_mkdir_def path_exists_def)
qed

lemma proc_step_ready:
  assumes "sp_dir p = d" "d \<in> dirs w" "parent_dir (sp_path p) = d" "sp_path p \<notin> dirs w"
    "sp_doc p = Inr doc" "sp_pc p \<noteq> PMkdir" "\<forall>e. sp_pc p \<noteq> PFailed e"
  shows "sp_pc (fst (proc_step p w)) \<noteq> PMkdir \<and> (\<forall>e. sp_pc (fst (proc_step p w)) \<noteq> PFailed e) \<and>
         dirs (snd (proc_step p w)) = dirs w"
  using assms
  by (cases "sp_pc p") (simp_all add: proc_step_def path_exists_def open_write_def)

lemma sys_step_ready:
  assumes "sys_step s s'" and "dir_ready d s"
  shows "dir_ready d s'"
  using assms
proof (induction rule: sys_step.induct)
  case (step i ps w p' w')
  have pi: "ps ! i \<in> set ps" using step.hyps(1) by simp
  with step.prems obtain doc where
    r: "sp_dir (ps ! i) = d" "d \<in> dirs w" "parent_dir (sp_path (ps ! i)) = d"
    "sp_path (ps ! i) \<notin> dirs w" "sp_doc (ps ! i) = Inr doc" "sp_pc (ps ! i) \<noteq> PMkdir"
    "\<forall>e. sp_pc (ps ! i) \<noteq> PFailed e"
    unfolding dir_ready_def by auto
  have p': "p' = fst (proc_step (ps ! i) w)" and w': "w' = snd (proc_step (ps ! i) w)"
    using step.hyps(3) by simp_all
  from proc_step_ready [OF r] have new: "sp_pc p' \<noteq> PMkdir" "\<forall>e. sp_pc p' \<noteq> PFailed e"
    and dw: "dirs w' = dirs w"
    by (simp_all add: p' w')
  have "\<forall>q\<in>insert p' (set ps). sp_dir q = d \<and> parent_dir (sp_path q) = d \<and> sp_path q \<notin> dirs w' \<and>
        (\<exists>doc. sp_doc q = Inr doc) \<and> sp_pc q \<noteq> PMkdir \<and> (\<forall>e. sp_pc q \<noteq> PFailed e)"
    using step.prems r new by (auto simp: dir_ready_def dw p')
  then show ?case
    using set_update_subset_insert [of ps i p'] r(2) dw by (auto simp: dir_ready_def)
qed

lemma reachable_ready: "sys_step\<^sup>*\<^sup>* s s' \<Longrightarrow> dir_ready d s \<Longrightarrow> dir_ready d s'"
  by (induction rule: rtranclp_induct) (auto intro: sys_step_ready)

lemma artifact_path_last: "artifact_path out chr s e \<noteq> [] \<and> last (artifact_path out chr s e) = CHR ''n''"
  by (simp add: artifact_path_def)

section \<open>Properties of the interleaved shards\<close>

text \<open>C4: A shard process run alone is the sequential \<open>View.parse_region\<close>: after five
  steps from its start it has finished, its outcome is the exception or the normal return of
  \<open>parse_region(start, end, json_out)\<close>, and it leaves the file system and the log exactly as
  \<open>parse_region\<close> does.\<close>

theorem shard_run_refines_parse_region:
  "proc_final (fst (proc_run 5 (shard_proc_of pl v s e j) w)) \<and>
   proc_result (fst (proc_run 5 (shard_proc_of pl v s e j) w)) =
     map_sum id (\<lambda>_. ()) (fst (parse_region pl v s e j w)) \<and>
   snd (proc_run 5 (shard_proc_of pl v s e j) w) = snd (parse_region pl v s e j w)"
proof -
  let ?p = "(shard_proc_of pl v s e j)\<lparr>sp_pc := (if j then PExists else PDone)\<rparr>"
  let ?w = "w\<lparr>io_log := io_log w @ read_log pl v s e\<rparr>"
  have "proc_run (Suc 4) (shard_proc_of pl v s e j) w = proc_run 4 ?p ?w"
    by (simp only: proc_run_Suc proc_step_start fst_conv snd_conv)
  then have run: "proc_run 5 (shard_proc_of pl v s e j) w = proc_run 4 ?p ?w"
    by (simp del: proc_run.simps)
  show ?thesis
  proof (cases j)
    case True
    have four: "Suc (Suc (Suc (Suc 0))) = 4" by simp
    have pe: "sp_pc ?p = PExists" using True by simp
    have A: "proc_final (fst (proc_run 4 ?p ?w)) \<and>
        (proc_result (fst (proc_run 4 ?p ?w)), snd (proc_run 4 ?p ?w)) = proc_write ?p ?w"
      using proc_run_exists [OF pe, of 0 ?w] unfolding four .
    have pw: "proc_write ?p ?w = write_json pl v s e (expected_region pl v s e) ?w"
      by (simp only: write_json_proc_write [where j = j and x = "if j then PExists else PDone"])
    have pr: "parse_region pl v s e j w =
        st_bind (write_json pl v s e (expected_region pl v s e)) (\<lambda>_. st_return (expected_region pl v s e)) ?w"
      using True by (simp add: parse_region_run)
    show ?thesis
    proof (cases "write_json pl v s e (expected_region pl v s e) ?w")
      case (Pair r w')
      with A pw pr show ?thesis
        unfolding run by (cases r) (simp_all add: st_bind_def del: proc_run.simps)
    qed
  next
    case False
    then have "proc_final ?p" by (simp add: proc_final_def)
    with False show ?thesis
      unfolding run by (simp add: proc_run_final parse_region_run proc_result_def del: proc_run.simps)
  qed
qed

text \<open>C5: In every interleaving of the shards of \<open>do_parallel\<close> on a non-empty
  chromosome, every shard that has finished writing holds its own encoded document in its
  artifact file: no other shard truncates or overwrites it.\<close>

theorem dispatch_artifacts_safe:
  assumes run: "do_parallel g chr bam ref json_out out n = Inr jobs" and len: "0 < g chr"
    and reach: "sys_step\<^sup>*\<^sup>* (dispatch_state pl jobs w) s'"
  shows "artifacts_written s'"
proof -
  have "artifacts_written (dispatch_state pl jobs w)"
    by (simp add: artifacts_written_def dispatch_state_def)
  with reachable_artifacts [OF reach dispatch_paths_distinct [OF run len]] show ?thesis by simp
qed

text \<open>C6: With \<open>--json\<close>, at least two threads and no \<open>json_output/\<close> directory yet,
  there is an interleaving in which both shards see the directory missing, the first
  creates it and the second's \<open>os.mkdir\<close> fails with FileExistsError, so that shard
  never writes its artifact (a check-then-create race in \<open>write_json\<close>).\<close>

theorem dispatch_mkdir_race:
  assumes run: "do_parallel g chr bam ref True out n = Inr jobs" and two: "2 \<le> n"
    and "\<not> path_exists w (json_output_dir out)" and "parent_dir (json_output_dir out) \<in> dirs w"
  shows "\<exists>s'. sys_step\<^sup>*\<^sup>* (dispatch_state pl jobs w) s' \<and> json_output_dir out \<in> dirs (snd s') \<and>
           sp_pc (fst s' ! 1) = PFailed FileExistsError"
proof -
  obtain seg where l: "length jobs = nat n"
    and nth: "\<And>k. k < nat n \<Longrightarrow> jobs ! k = shard_job_for chr bam ref True out seg (int k)"
    using do_parallel_nth [OF run] by blast
  let ?ps = "map (job_proc pl) jobs"
  have "1 < length ?ps" using l two by simp
  moreover have "0 < nat n" "1 < nat n" using two by simp_all
  ultimately have "json_output_dir out \<in> dirs (snd (sys_sched [0, 1, 0, 1, 0, 1] (?ps, w))) \<and>
      sp_pc (fst (sys_sched [0, 1, 0, 1, 0, 1] (?ps, w)) ! 1) = PFailed FileExistsError"
    using assms(3,4) l by (intro mkdir_race_two) (simp_all add: nth)
  with sys_sched_reachable show ?thesis unfolding dispatch_state_def by blast
qed

section \<open>Witnesses\<close>

theorem dispatch_artifacts_safe_witness:
  "artifacts_written (sys_sched [0, 0, 0, 0, 0]
     (dispatch_state example_pipeline (map (shard_job_for ''3'' ''b.bam'' ''r.fa'' True ''output/'' 4) [0, 1, 2])
       (example_world {''output/''})))"
  using dispatch_artifacts_safe [OF do_parallel_10_3 _ sys_sched_reachable] by simp

theorem dispatch_mkdir_race_witness:
  "\<exists>s'. sys_step\<^sup>*\<^sup>* (dispatch_state example_pipeline
       (map (shard_job_for ''3'' ''b.bam'' ''r.fa'' True ''output/'' 4) [0, 1, 2]) (example_world {''output/''})) s' \<and>
     ''output/json_output/'' \<in> dirs (snd s') \<and> sp_pc (fst s' ! 1) = PFailed FileExistsError"
  using dispatch_mkdir_race [OF do_parallel_10_3, where pl = example_pipeline and w = "example_world {''output/''}"]
  by (simp add: json_output_dir_def path_exists_def parent_dir_def)

end
