(* ===== verification/Sources.thy ===== *)
theory Sources
  imports Polish
begin

text \<open>
  The two external collaborators of \<open>View\<close> (\<open>src/main.py\<close> lines 84--85), which live in
  \<open>modules/\<close> and not under \<open>src/\<close>, modelled from the specification (section 6) over the
  data they read: the alignment file as the reads of each chromosome and the reference
  file as a map from chromosome names to sequences. \<open>BamHandler.get_reads\<close> returns the
  reads overlapping \<open>[start, end)\<close> in file order; its pileup returns one column per
  coordinate of \<open>[start, end)\<close>, holding every read's token there: the aligned base, an
  insertion at the coordinate it precedes (the coordinate the window detector flags), or a
  deletion at its first coordinate. \<open>FastaHandler.get_sequence\<close> slices \<open>[start, end)\<close>,
  clamped to the sequence. \<open>file_sources\<close> is the \<open>sources\<close> record these give.

  The main theorem composes every stage of \<open>parse_region\<close> over these sources: a variant
  that a kept read shows at a reference coordinate, and that meets the thresholds on the
  column, is reported as a candidate of a window of the region.
\<close>

section \<open>The alignment source\<close>

text \<open>The reference bases a read's operations span, and the coordinate just after them.\<close>

fun ops_span :: "aln_op list \<Rightarrow> nat" where
  "ops_span [] = 0"
| "ops_span (AlnMatch n # ops) = n + ops_span ops"
| "ops_span (AlnIns n # ops) = ops_span ops"
| "ops_span (AlnDel n # ops) = n + ops_span ops"

definition read_end :: "aligned_read \<Rightarrow> int" where
  "read_end rd = read_start rd + int (ops_span (read_ops rd))"

definition bam_get_reads :: "(string \<Rightarrow> aligned_read list) \<Rightarrow> string \<Rightarrow> int \<Rightarrow> int \<Rightarrow> aligned_read list" where
  "bam_get_reads bam chr s e = filter (\<lambda>rd. read_start rd < e \<and> s < read_end rd) (bam chr)"

text \<open>The tokens a read's operations show at coordinate \<open>p\<close>, walking them as the
  window detector does.\<close>

fun ops_tokens :: "int \<Rightarrow> string \<Rightarrow> aln_op list \<Rightarrow> int \<Rightarrow> allele_token list" where
  "ops_tokens pos bases [] p = []"
| "ops_tokens pos bases (AlnMatch n # ops) p =
     (if pos \<le> p \<and> p < pos + int n \<and> nat (p - pos) < length bases
      then [TBase (bases ! nat (p - pos))] else []) @ ops_tokens (pos + int n) (drop n bases) ops p"
| "ops_tokens pos bases (AlnIns n # ops) p =
     (if p = pos then [TIns (take n bases)] else []) @ ops_tokens pos (drop n bases) ops p"
| "ops_tokens pos bases (AlnDel n # ops) p =
     (if p = pos \<and> 0 < n then [TDel n] else []) @ ops_tokens (pos + int n) bases ops p"

definition read_tokens :: "aligned_read \<Rightarrow> int \<Rightarrow> allele_token list" where
  "read_tokens rd p = ops_tokens (read_start rd) (read_bases rd) (read_ops rd) p"

text \<open>A pileup column: the tokens every read of the chromosome shows at the coordinate.\<close>

definition pileup_tokens :: "(string \<Rightarrow> aligned_read list) \<Rightarrow> string \<Rightarrow> int \<Rightarrow> allele_token list" where
  "pileup_tokens bam chr p = concat (map (\<lambda>rd. read_tokens rd p) (bam chr))"

definition bam_get_pileup ::
  "(string \<Rightarrow> aligned_read list) \<Rightarrow> string \<Rightarrow> int \<Rightarrow> int \<Rightarrow> pileup_column list" where
  "bam_get_pileup bam chr s e =
     map (\<lambda>p. \<lparr>col_pos = p, col_tokens = pileup_tokens bam chr p\<rparr>) [s..e - 1]"

section \<open>The reference source\<close>

definition fasta_get_sequence :: "(string \<rightharpoonup> string) \<Rightarrow> string \<Rightarrow> int \<Rightarrow> int \<Rightarrow> string" where
  "fasta_get_sequence genome chr s e =
     (case genome chr of None \<Rightarrow> [] | Some seq \<Rightarrow> take (nat (e - max s 0)) (drop (nat s) seq))"

definition fasta_length :: "(string \<rightharpoonup> string) \<Rightarrow> string \<Rightarrow> int" where
  "fasta_length genome chr = (case genome chr of None \<Rightarrow> 0 | Some seq \<Rightarrow> int (length seq))"

definition file_sources :: "(string \<Rightarrow> aligned_read list) \<Rightarrow> (string \<rightharpoonup> string) \<Rightarrow> sources" where
  "file_sources bam genome =
     \<lparr>src_reads = bam_get_reads bam, src_pileup = bam_get_pileup bam,
      src_sequence = fasta_get_sequence genome\<rparr>"

text \<open>Evidence a read gives at coordinate \<open>p\<close>: one of its tokens, at a coordinate
  \<open>q\<close> of the read, disagrees with the reference there (a base other than the reference
  base, or an insertion, or a deletion) and spans \<open>p\<close>.\<close>

definition token_disagrees :: "(int \<Rightarrow> char option) \<Rightarrow> int \<Rightarrow> allele_token \<Rightarrow> bool" where
  "token_disagrees ref q t = (case t of TBase b \<Rightarrow> (case ref q of Some r \<Rightarrow> r \<noteq> b | None \<Rightarrow> False) | _ \<Rightarrow> True)"

definition read_evidence :: "(int \<Rightarrow> char option) \<Rightarrow> aligned_read \<Rightarrow> int \<Rightarrow> bool" where
  "read_evidence ref rd p \<longleftrightarrow>
     (\<exists>q\<in>set [read_start rd..read_end rd]. \<exists>t\<in>set (read_tokens rd q).
        q \<le> p \<and> p \<le> allele_end q t \<and> token_disagrees ref q t)"

section \<open>Data of the witnesses\<close>

text \<open>One read with a \<open>C\<close> at 150000 over a reference of \<open>A\<close>s.\<close>

definition variant_read :: aligned_read where
  "variant_read = \<lparr>read_start = 150000, read_ops = [AlnMatch 1], read_bases = ''C''\<rparr>"

definition variant_bam :: "string \<Rightarrow> aligned_read list" where
  "variant_bam chr = (if chr = ''3'' then [variant_read] else [])"

definition variant_genome :: "string \<rightharpoonup> string" where
  "variant_genome = [''3'' \<mapsto> replicate 200001 CHR ''A'']"

text \<open>Two reads of chromosome 3, in either order.\<close>

definition agree_read :: aligned_read where
  "agree_read = \<lparr>read_start = 149999, read_ops = [AlnMatch 3], read_bases = ''AAA''\<rparr>"

definition two_reads_bam :: "bool \<Rightarrow> string \<Rightarrow> aligned_read list" where
  "two_reads_bam swapped chr =
     (if chr = ''3'' then (if swapped then [agree_read, variant_read] else [variant_read, agree_read]) else [])"

section \<open>Lemmas\<close>

lemma fst_scan_match_Cons:
  "fst (scan_match ref pos (b # bs)) =
     (case ref pos of Some r \<Rightarrow> if r = b then [] else [pos] | None \<Rightarrow> []) @ fst (scan_match ref (pos + 1) bs)"
  by (simp add: split_def Let_def split: option.splits)

lemma fst_scan_ops:
  "fst (scan_ops ref pos bases (AlnMatch n # ops)) =
     fst (scan_match ref pos (take n bases)) @ fst (scan_ops ref (pos + int n) (drop n bases) ops)"
  "fst (scan_ops ref pos bases (AlnIns n # ops)) = pos # fst (scan_ops ref pos (drop n bases) ops)"
  "fst (scan_ops ref pos bases (AlnDel n # ops)) = [pos..pos + int n - 1] @ fst (scan_ops ref (pos + int n) bases ops)"
  by (simp_all add: split_def Let_def)

lemma fst_scan_ops_Nil: "fst (scan_ops ref pos bases []) = []"
  by simp

lemmas scan_fst = fst_scan_match_Cons fst_scan_ops fst_scan_ops_Nil

lemma scan_match_flags:
  "pos \<le> p \<Longrightarrow> p - pos < int (length bs) \<Longrightarrow> ref p = Some r \<Longrightarrow> bs ! nat (p - pos) \<noteq> r \<Longrightarrow>
   p \<in> set (fst (scan_match ref pos bs))"
proof (induction bs arbitrary: pos)
  case Nil
  then show ?case by simp
next
  case (Cons b bs)
  show ?case
  proof (cases "p = pos")
    case True
    with Cons.prems show ?thesis by (simp add: scan_fst del: scan_match.simps)
  next
    case False
    then have k: "nat (p - pos) = Suc (nat (p - (pos + 1)))" using Cons.prems(1) by simp
    with False Cons.prems have "pos + 1 \<le> p" "p - (pos + 1) < int (length bs)"
      "bs ! nat (p - (pos + 1)) \<noteq> r"
      by simp_all
    from Cons.IH [OF this(1,2) Cons.prems(3) this(3)] show ?thesis
      by (simp add: scan_fst del: scan_match.simps)
  qed
qed

lemma scan_match_ge: "q \<in> set (fst (scan_match ref pos bs)) \<Longrightarrow> pos \<le> q"
proof (induction bs arbitrary: pos)
  case (Cons b bs)
  then show ?case by (fastforce simp: scan_fst simp del: scan_match.simps split: option.splits if_splits)
qed simp

lemma scan_ops_ge: "q \<in> set (fst (scan_ops ref pos bases ops)) \<Longrightarrow> pos \<le> q"
proof (induction ops arbitrary: pos bases)
  case (Cons op ops)
  then show ?case
    by (cases op) (fastforce simp: scan_fst simp del: scan_ops.simps dest: scan_match_ge)+
qed simp

lemma ops_tokens_flagged:
  "tok \<in> set (ops_tokens pos bases ops p) \<Longrightarrow> ref p = Some r \<Longrightarrow> tok \<noteq> TBase r \<Longrightarrow>
   p \<in> set (fst (scan_ops ref pos bases ops))"
proof (induction pos bases ops p rule: ops_tokens.induct)
  case (2 pos bases n ops p)
  show ?case
  proof (cases "tok \<in> set (ops_tokens (pos + int n) (drop n bases) ops p)")
    case True
    with "2.IH" "2.prems"(2,3) show ?thesis by (simp add: scan_fst del: scan_ops.simps)
  next
    case False
    with "2.prems"(1) have t: "tok = TBase (bases ! nat (p - pos))" and
      c: "pos \<le> p" "p < pos + int n" "nat (p - pos) < length bases" by (auto split: if_splits)
    have "p \<in> set (fst (scan_match ref pos (take n bases)))"
      using c t "2.prems"(2,3) by (intro scan_match_flags) auto
    then show ?thesis by (simp add: scan_fst del: scan_ops.simps)
  qed
qed (auto simp: scan_fst simp del: scan_ops.simps split: if_splits)

lemma file_reference_accessor:
  "genome chr = Some seq \<Longrightarrow>
   reference_accessor (file_sources bam genome) chr p =
     (if 0 \<le> p \<and> p < int (length seq) then Some (seq ! nat p) else None)"
proof (cases "0 \<le> p")
  case True
  assume g: "genome chr = Some seq"
  have "take 1 (drop (nat p) seq) = (if nat p < length seq then [seq ! nat p] else [])"
    by (simp add: take_Suc_conv_app_nth)
  moreover have "nat p < length seq \<longleftrightarrow> p < int (length seq)" using True by linarith
  ultimately show ?thesis using True g
    by (simp add: reference_accessor_def file_sources_def fasta_get_sequence_def)
next
  case False
  then have "nat (p + 1 - max p 0) = 0" by simp
  with False show "genome chr = Some seq \<Longrightarrow> ?thesis"
    by (simp add: reference_accessor_def file_sources_def fasta_get_sequence_def)
qed

lemma bam_column_tokens:
  "column_tokens (bam_get_pileup bam chr a b) p = (if a \<le> p \<and> p < b then pileup_tokens bam chr p else [])"
proof (cases "a \<le> p \<and> p < b")
  case True
  let ?cols = "bam_get_pileup bam chr a b"
  have "column_at ?cols p \<noteq> None"
    using True by (auto simp: column_at_def bam_get_pileup_def find_None_iff)
  then obtain c where "column_at ?cols p = Some c" by blast
  with column_at_Some [OF this] True show ?thesis
    by (auto simp: column_tokens_def bam_get_pileup_def)
next
  case False
  then have "column_at (bam_get_pileup bam chr a b) p = None"
    by (auto simp: column_at_def bam_get_pileup_def find_None_iff)
  with False show ?thesis by (auto simp: column_tokens_def)
qed

lemma fasta_ref_base:
  assumes "genome chr = Some seq" and "0 \<le> a" and "a \<le> p" and "p \<le> b" and "p < int (length seq)"
  shows "ref_base_at (fasta_get_sequence genome chr a (b + 1)) a p = Some (seq ! nat p)"
proof -
  have "nat p = nat a + nat (p - a)" using assms(2,3) by simp
  with assms show ?thesis
    by (simp add: ref_base_at_def fasta_get_sequence_def)
qed

lemma kept_flags_ge:
  "q \<in> set (kept_flags keep ref rds) \<Longrightarrow> \<exists>rd\<in>set rds. read_start rd \<le> q"
  by (auto simp: kept_flags_def scan_read_def dest: scan_ops_ge)

lemma kept_flags_set:
  "set rds = set rds' \<Longrightarrow> set (kept_flags keep ref rds) = set (kept_flags keep ref rds')"
  by (simp add: kept_flags_def)

lemma scan_match_flagged_inv:
  "p \<in> set (fst (scan_match ref pos bs)) \<Longrightarrow>
   pos \<le> p \<and> p - pos < int (length bs) \<and> (\<exists>r. ref p = Some r \<and> r \<noteq> bs ! nat (p - pos))"
proof (induction bs arbitrary: pos)
  case (Cons b bs)
  show ?case
  proof (cases "p \<in> set (fst (scan_match ref (pos + 1) bs))")
    case True
    from Cons.IH [OF True] have "pos + 1 \<le> p" "p - (pos + 1) < int (length bs)"
      "\<exists>r. ref p = Some r \<and> r \<noteq> bs ! nat (p - (pos + 1))" by simp_all
    moreover have "nat (p - pos) = Suc (nat (p - (pos + 1)))" using \<open>pos + 1 \<le> p\<close> by simp
    ultimately show ?thesis by simp
  next
    case False
    with Cons.prems show ?thesis
      by (cases "ref pos") (auto simp: scan_fst simp del: scan_match.simps split: if_splits)
  qed
qed simp

lemma ops_tokens_range:
  "t \<in> set (ops_tokens pos bases ops q) \<Longrightarrow> pos \<le> q \<and> q \<le> pos + int (ops_span ops)"
  by (induction pos bases ops q rule: ops_tokens.induct) (fastforce split: if_splits)+

lemma scan_ops_flagged_inv:
  "p \<in> set (fst (scan_ops ref pos bases ops)) \<Longrightarrow>
   \<exists>q t. t \<in> set (ops_tokens pos bases ops q) \<and> q \<le> p \<and> p \<le> allele_end q t \<and> token_disagrees ref q t"
proof (induction ops arbitrary: pos bases)
  case (Cons op ops)
  show ?case
  proof (cases op)
    case (AlnMatch n)
    show ?thesis
    proof (cases "p \<in> set (fst (scan_match ref pos (take n bases)))")
      case True
      from scan_match_flagged_inv [OF True] obtain r where
        c: "pos \<le> p" "p - pos < int (length (take n bases))" "ref p = Some r"
           "r \<noteq> take n bases ! nat (p - pos)" by blast
      then have "TBase (bases ! nat (p - pos)) \<in> set (ops_tokens pos bases (op # ops) p)"
        by (auto simp: AlnMatch)
      with c show ?thesis
        by (intro exI [of _ p] exI [of _ "TBase (bases ! nat (p - pos))"])
           (simp add: allele_end_def token_disagrees_def)
    next
      case False
      with Cons.prems have "p \<in> set (fst (scan_ops ref (pos + int n) (drop n bases) ops))"
        by (simp add: AlnMatch scan_fst del: scan_ops.simps)
      from Cons.IH [OF this] show ?thesis by (auto simp: AlnMatch)
    qed
  next
    case (AlnIns n)
    show ?thesis
    proof (cases "p = pos")
      case True
      then show ?thesis
        by (intro exI [of _ p] exI [of _ "TIns (take n bases)"])
           (simp add: AlnIns allele_end_def token_disagrees_def)
    next
      case False
      with Cons.prems have "p \<in> set (fst (scan_ops ref pos (drop n bases) ops))"
        by (simp add: AlnIns scan_fst del: scan_ops.simps)
      from Cons.IH [OF this] show ?thesis by (auto simp: AlnIns)
    qed
  next
    case (AlnDel n)
    show ?thesis
    proof (cases "pos \<le> p \<and> p < pos + int n")
      case True
      then have "0 < n" by simp
      with True show ?thesis
        by (intro exI [of _ pos] exI [of _ "TDel n"])
           (simp add: AlnDel allele_end_def token_disagrees_def of_nat_diff)
    next
      case False
      with Cons.prems have "p \<in> set (fst (scan_ops ref (pos + int n) bases ops))"
        by (auto simp: AlnDel scan_fst simp del: scan_ops.simps)
      from Cons.IH [OF this] show ?thesis by (auto simp: AlnDel)
    qed
  qed
qed simp

lemma kept_flag_evidence:
  assumes "p \<in> set (kept_flags keep ref rds)"
  shows "\<exists>rd\<in>set rds. keep rd \<and> read_evidence ref rd p"
proof -
  from assms obtain rd where rd: "rd \<in> set rds" "keep rd" and p: "p \<in> set (fst (scan_read ref rd))"
    by (auto simp: kept_flags_def)
  from scan_ops_flagged_inv [OF p [unfolded scan_read_def]] obtain q t where
    "t \<in> set (read_tokens rd q)" "q \<le> p" "p \<le> allele_end q t" "token_disagrees ref q t"
    by (auto simp: read_tokens_def)
  moreover from this(1) have "q \<in> set [read_start rd..read_end rd]"
    using ops_tokens_range by (fastforce simp: read_tokens_def read_end_def)
  ultimately show ?thesis using rd unfolding read_evidence_def by blast
qed

section \<open>Properties\<close>

text \<open>C12: End to end over the file sources: if a read the filter keeps, among the reads of
  the region, shows a token at a coordinate of the reference other than the reference base,
  and the token's count in the coordinate's pileup column meets the support and frequency
  thresholds, then the region's result has a window containing the coordinate whose
  candidate list holds that token there with that support. Reads are assumed to start at
  non-negative coordinates, as alignment files require.\<close>

theorem polish_reports_observed_variant:
  assumes run: "fst (parse_region (polish_pipeline (file_sources bam genome) cfg) v s e j w) = Inr r"
    and chr: "genome (view_chromosome v) = Some seq"
    and wf: "\<forall>rd'\<in>set (bam (view_chromosome v)). 0 \<le> read_start rd'"
    and rd: "rd \<in> set (bam_get_reads bam (view_chromosome v) s e)" and keep: "cfg_keep cfg rd"
    and tok: "tok \<in> set (read_tokens rd p)" and p: "0 \<le> p" "p < int (length seq)"
    and q: "qualifies (cfg_thresholds cfg) (seq ! nat p) (length (pileup_tokens bam (view_chromosome v) p)) tok
              (count_list (pileup_tokens bam (view_chromosome v) p) tok)"
  shows "\<exists>l\<in>set (all_candidates r). wcl_start l \<le> p \<and> p \<le> wcl_end l \<and>
           \<lparr>cand_start = p, cand_end = allele_end p tok, cand_alt = tok,
            cand_support = count_list (pileup_tokens bam (view_chromosome v) p) tok\<rparr> \<in> set (wcl_candidates l)"
proof -
  let ?src = "file_sources bam genome" and ?c = "view_chromosome v"
  let ?ref = "reference_accessor ?src ?c" and ?toks = "pileup_tokens bam ?c p"
  have refp: "?ref p = Some (seq ! nat p)" using p by (simp add: file_reference_accessor [where genome = genome and chr = "view_chromosome v", OF chr])
  have "tok \<noteq> TBase (seq ! nat p)" using q by (simp add: qualifies_def)
  with tok refp have "p \<in> set (fst (scan_read ?ref rd))"
    unfolding read_tokens_def scan_read_def by (rule ops_tokens_flagged)
  with rd keep have flag: "p \<in> set (kept_flags (cfg_keep cfg) ?ref (src_reads ?src ?c s e))"
    by (auto simp: kept_flags_def file_sources_def)
  obtain a b where win: "(?c, a, b) \<in> set (polish_windows ?src cfg ?c s e)" and ab: "a \<le> p" "p \<le> b"
    using find_windows_covers [OF flag] by (fastforce simp: polish_windows_def)
  have "a \<in> set (kept_flags (cfg_keep cfg) ?ref (src_reads ?src ?c s e))"
    using find_windows_tight win by (fastforce simp: polish_windows_def)
  then obtain rd' where "rd' \<in> set (src_reads ?src ?c s e)" "read_start rd' \<le> a"
    using kept_flags_ge by blast
  with wf have a0: "0 \<le> a" by (auto simp: file_sources_def bam_get_reads_def)
  have l: "polish_window ?src cfg (?c, a, b) \<in> set (all_candidates r)"
    using win by (simp add: polish_result [OF run])
  have "tok \<in> set ?toks" using rd tok by (auto simp: pileup_tokens_def bam_get_reads_def)
  then have "\<lparr>cand_start = p, cand_end = allele_end p tok, cand_alt = tok, cand_support = count_list ?toks tok\<rparr>
      \<in> set (wcl_candidates (polish_window ?src cfg (?c, a, b)))"
    using ab a0 p q
    by (simp add: generate_candidates_iff position_candidates_iff file_sources_def bam_column_tokens
        fasta_ref_base [where genome = genome and chr = "view_chromosome v", OF chr])
  with l ab show ?thesis by force
qed

text \<open>C14: Read order does not matter (the determinism the specification requires of both
  finders, sections 4.1 and 4.2): two alignment files holding the same reads of every
  chromosome, in any order, give the same run of \<open>parse_region\<close>, with the same result,
  the same calls and the same artifact, provided no insertion token is empty.\<close>

theorem polish_read_order_independent:
  assumes perm: "\<forall>c. mset (bam c) = mset (bam' c)"
    and ok: "\<forall>c p. \<forall>t\<in>set (pileup_tokens bam c p). token_ok t"
  shows "parse_region (polish_pipeline (file_sources bam genome) cfg) v s e j w =
         parse_region (polish_pipeline (file_sources bam' genome) cfg) v s e j w"
proof -
  let ?src = "file_sources bam genome" and ?src' = "file_sources bam' genome"
  let ?pl = "polish_pipeline ?src cfg" and ?pl' = "polish_pipeline ?src' cfg"
  have toks: "mset (pileup_tokens bam c p) = mset (pileup_tokens bam' c p)" for c p
    using perm by (simp add: pileup_tokens_def mset_concat_map)
  have ok': "\<forall>c p. \<forall>t\<in>set (pileup_tokens bam' c p). token_ok t"
    using ok toks by (metis mset_eq_setD)
  have wins: "polish_windows ?src cfg c s e = polish_windows ?src' cfg c s e" for c
  proof -
    have "set (bam c) = set (bam' c)" using perm by (metis mset_eq_setD)
    then have rs: "set (src_reads ?src c s e) = set (src_reads ?src' c s e)"
      by (simp add: file_sources_def bam_get_reads_def)
    have ra: "reference_accessor ?src c = reference_accessor ?src' c"
      by (simp add: fun_eq_iff reference_accessor_def file_sources_def)
    have "set (kept_flags (cfg_keep cfg) (reference_accessor ?src c) (src_reads ?src c s e)) =
          set (kept_flags (cfg_keep cfg) (reference_accessor ?src' c) (src_reads ?src' c s e))"
      unfolding ra by (rule kept_flags_set [OF rs])
    then show ?thesis by (simp only: polish_windows_def find_windows_eq)
  qed
  have win: "polish_window ?src cfg x = polish_window ?src' cfg x" for x
  proof -
    obtain c a b where x: "x = (c, a, b)" by (cases x) auto
    have "generate_candidates th a b (bam_get_pileup bam c a (b + 1)) sq =
          generate_candidates th a b (bam_get_pileup bam' c a (b + 1)) sq" for th sq
    proof (rule generate_candidates_perm)
      show "mset (column_tokens (bam_get_pileup bam c a (b + 1)) p) =
            mset (column_tokens (bam_get_pileup bam' c a (b + 1)) p)" for p
        by (simp add: bam_column_tokens toks)
      show "\<forall>col\<in>set (bam_get_pileup bam c a (b + 1)). \<forall>t\<in>set (col_tokens col). token_ok t"
        using ok by (auto simp: bam_get_pileup_def)
      show "\<forall>col\<in>set (bam_get_pileup bam' c a (b + 1)). \<forall>t\<in>set (col_tokens col). token_ok t"
        using ok' by (auto simp: bam_get_pileup_def)
    qed
    then show ?thesis
      by (simp add: x polish_window_def generate_candidate_allele_list_def file_sources_def)
  qed
  have "region_windows ?pl v s e = region_windows ?pl' v s e"
    using wins by (simp add: region_windows_def polish_pipeline_def polish_windows_def)
  moreover have "window_alleles ?pl = window_alleles ?pl'"
    using win by (simp add: fun_eq_iff window_alleles_def polish_window_def polish_pipeline_def)
  ultimately have "expected_region ?pl v s e = expected_region ?pl' v s e" "read_log ?pl v s e = read_log ?pl' v s e"
    by (simp_all add: expected_region_def read_log_def)
  moreover have "candidate_obj ?pl = candidate_obj ?pl'" by (simp add: polish_pipeline_def)
  ultimately show ?thesis
    by (simp add: parse_region_run write_json_def)
qed

text \<open>C13: No window without evidence: the first and the last coordinate of every window in
  the result of \<open>parse_region\<close> over the file sources are each spanned by a disagreement
  with the reference (a mismatching base, an insertion or a deletion) shown by a read of
  the region that the filter keeps.\<close>

theorem polish_windows_evidenced:
  assumes run: "fst (parse_region (polish_pipeline (file_sources bam genome) cfg) v s e j w) = Inr r"
    and l: "l \<in> set (all_candidates r)"
  shows "(\<exists>rd\<in>set (bam_get_reads bam (view_chromosome v) s e). cfg_keep cfg rd \<and>
            read_evidence (reference_accessor (file_sources bam genome) (view_chromosome v)) rd (wcl_start l)) \<and>
         (\<exists>rd\<in>set (bam_get_reads bam (view_chromosome v) s e). cfg_keep cfg rd \<and>
            read_evidence (reference_accessor (file_sources bam genome) (view_chromosome v)) rd (wcl_end l))"
proof -
  let ?src = "file_sources bam genome" and ?c = "view_chromosome v"
  obtain ws we where win: "(?c, ws, we) \<in> set (polish_windows ?src cfg ?c s e)"
    and l: "l = polish_window ?src cfg (?c, ws, we)"
    using polish_result_member [OF run l] by blast
  from find_windows_tight win
  have "ws \<in> set (kept_flags (cfg_keep cfg) (reference_accessor ?src ?c) (src_reads ?src ?c s e))"
       "we \<in> set (kept_flags (cfg_keep cfg) (reference_accessor ?src ?c) (src_reads ?src ?c s e))"
    by (fastforce simp: polish_windows_def)+
  then show ?thesis
    by (auto simp: l file_sources_def dest!: kept_flag_evidence)
qed

section \<open>Witnesses\<close>

theorem polish_reports_observed_variant_witness:
  "\<exists>l\<in>set (all_candidates (expected_region (polish_pipeline (file_sources variant_bam variant_genome)
        (scenario_config 1)) scenario_view 100000 200000)).
     wcl_start l \<le> 150000 \<and> 150000 \<le> wcl_end l \<and>
     \<lparr>cand_start = 150000, cand_end = 150000, cand_alt = TBase CHR ''C'', cand_support = 1\<rparr>
       \<in> set (wcl_candidates l)"
proof -
  have run: "fst (parse_region (polish_pipeline (file_sources variant_bam variant_genome) (scenario_config 1))
      scenario_view 100000 200000 False (example_world {})) =
    Inr (expected_region (polish_pipeline (file_sources variant_bam variant_genome) (scenario_config 1))
      scenario_view 100000 200000)"
    by (simp add: parse_region_run)
  have toks: "pileup_tokens variant_bam ''3'' 150000 = [TBase CHR ''C'']"
    by (simp add: pileup_tokens_def variant_bam_def variant_read_def read_tokens_def)
  show ?thesis
    using polish_reports_observed_variant [OF run, where seq = "replicate 200001 CHR ''A''"
        and rd = variant_read and tok = "TBase CHR ''C''" and p = 150000]
    by (simp add: toks variant_genome_def variant_bam_def variant_read_def bam_get_reads_def
        read_end_def read_tokens_def scenario_config_def qualifies_def allele_end_def)
qed

theorem polish_read_order_independent_witness:
  "parse_region (polish_pipeline (file_sources (two_reads_bam False) variant_genome) (scenario_config 1))
     scenario_view 100000 200000 True (example_world {''output/''}) =
   parse_region (polish_pipeline (file_sources (two_reads_bam True) variant_genome) (scenario_config 1))
     scenario_view 100000 200000 True (example_world {''output/''})"
proof (rule polish_read_order_independent)
  show "\<forall>c. mset (two_reads_bam False c) = mset (two_reads_bam True c)"
    by (simp add: two_reads_bam_def)
  show "\<forall>c p. \<forall>t\<in>set (pileup_tokens (two_reads_bam False) c p). token_ok t"
    by (simp add: two_reads_bam_def pileup_tokens_def read_tokens_def variant_read_def agree_read_def
        token_ok_def)
qed

theorem polish_windows_evidenced_witness:
  "\<exists>rd\<in>set (bam_get_reads variant_bam ''3'' 100000 200000). cfg_keep (scenario_config 1) rd \<and>
     read_evidence (reference_accessor (file_sources variant_bam variant_genome) ''3'') rd 150000"
proof -
  let ?src = "file_sources variant_bam variant_genome"
  have wins: "polish_windows ?src (scenario_config n) ''3'' 100000 200000 = [(''3'', 150000, 150000)]" for n
    by (simp add: polish_windows_def find_windows_eq kept_flags_def file_sources_def bam_get_reads_def
        variant_bam_def variant_read_def read_end_def scan_read_def reference_accessor_def
        fasta_get_sequence_def variant_genome_def scenario_config_def merge_sorted_def)
  have run: "fst (parse_region (polish_pipeline ?src (scenario_config 1)) scenario_view 100000 200000 False
      (example_world {})) = Inr (expected_region (polish_pipeline ?src (scenario_config 1)) scenario_view 100000 200000)"
    by (simp add: parse_region_run)
  have l: "polish_window ?src (scenario_config 1) (''3'', 150000, 150000) \<in>
      set (all_candidates (expected_region (polish_pipeline ?src (scenario_config 1)) scenario_view 100000 200000))"
    by (simp add: expected_polish_region wins)
  from conjunct1 [OF polish_windows_evidenced [OF run l]] show ?thesis by simp
qed

end
