(* ===== verification/Spec2Isabelle.thy ===== *)
theory Spec2Isabelle
  imports Polish Cli Dispatch Sources
begin

text \<open>
  A verification development for alignmentPolish (\<open>src/main.py\<close>), which scans the aligned
  reads of a BAM file against a reference, finds windows of likely variation and lists the
  candidate alleles of each window, one chromosome split into overlapping shards that run
  as independent processes.

  \<^bold>\<open>Parts of the program and where they are modelled.\<close>
  \<^item> \<open>Prelude\<close>: the Python exceptions as \<open>py_error\<close>, results as \<open>py_error + 'a\<close>,
    Python list indexing, a state-and-exception monad \<open>('s, 'a) st\<close> in which effects made
    before an exception persist, and the counting dictionary (\<open>d[k] = d.get(k, 0) + 1\<close>
    as an association list in insertion order) shared by both finders.
  \<^item> \<open>PyBuiltins\<close>: \<open>str\<close> of an integer with a parser back and its round trip,
    \<open>int(math.ceil(a / b))\<close> as exact ceiling division (exact for \<open>|a| < 2^53\<close>, every
    chromosome length), \<open>bool\<close> of a string, ASCII \<open>str.lower\<close>.
  \<^item> \<open>Shards\<close>: \<open>do_parallel\<close> (lines 162--190), returning the list of jobs
    (\<open>shard_job\<close>: the \<open>View\<close> and the \<open>parse_region\<close> arguments of each started
    \<open>Process\<close>) or the error it raises.
  \<^item> \<open>RegionResult\<close>: \<open>AllCandidatesInRegion\<close> (lines 47--77) and the serialisation
    \<open>json.dumps(..., cls=ComplexEncoder, sort_keys=True)\<close> (lines 36--44, 105) over a
    datatype of Python values and one of JSON documents, with a reader back.
  \<^item> \<open>FileSystem\<close>: \<open>os.path.exists\<close>, \<open>os.mkdir\<close>, \<open>open(p, 'w')\<close> and \<open>write\<close> on a
    world of directories, files and an ordered log of every call.
  \<^item> \<open>Orchestrator\<close>: \<open>View\<close> (lines 80--159): \<open>write_json\<close>, \<open>parse_region\<close> with its
    window loop, \<open>test\<close>, over the interface \<open>pipeline\<close> to the sources and the two
    finders, each call one step of the monad over the world.
  \<^item> \<open>WindowDetector\<close> and \<open>AlleleEnumerator\<close>: \<open>CandidateFinder\<close> and \<open>AlleleFinder\<close>,
    which are imported from \<open>modules/\<close>, not under \<open>src/\<close>, and are modelled from the
    specification (sections 4.1, 4.2): scanning reads into a dictionary of flagged
    coordinates, merging them into windows with gap \<open>G\<close>, frequency tables per coordinate,
    threshold candidates with \<open>S\<close> and \<open>F\<close>, their order and their JSON form.
  \<^item> \<open>Polish\<close>: the instance \<open>polish_pipeline\<close> of the interface that \<open>main.py\<close>
    builds, the external sources (\<open>BamHandler\<close>, \<open>FastaHandler\<close>) as the record
    \<open>sources\<close> of what their calls return, and the data of the specification's scenarios.
  \<^item> \<open>Sources\<close>: the external collaborators \<open>BamHandler\<close> and \<open>FastaHandler\<close>
    (constructed at lines 84--85, defined in \<open>modules/\<close>), modelled from the
    specification (section 6) over an alignment file given as the reads of each chromosome
    and a reference given as a map from chromosome names to sequences; \<open>file_sources\<close>
    is the \<open>sources\<close> record they give.
  \<^item> \<open>Cli\<close>: \<open>__main__\<close> (lines 193--261): the argparse scanner and converters
    (\<open>parse_known_args\<close>), the output-directory normalisation and \<open>os.mkdir\<close>, and the
    choice between \<open>View.test\<close> and \<open>do_parallel\<close> (\<open>main\<close>).
  \<^item> \<open>Dispatch\<close>: the processes \<open>do_parallel\<close> starts (\<open>Process(...).start()\<close>,
    lines 179--188), never joined, as small-step machines \<open>shard_proc\<close> over the shared
    world: one step for the reads and fetches of \<open>parse_region\<close>, then one step for each
    file-system call of \<open>write_json\<close> (\<open>proc_step\<close>). \<open>sys_step\<close> lets any unfinished
    process step, so every interleaving the operating system may choose is a run of it;
    \<open>dispatch_state\<close> is the state once the loop has started every process.

  \<^bold>\<open>What the lemmas show.\<close> Shards: the jobs and their coordinates, ZeroDivisionError on
  zero threads, shards within \<open>[0, L + N + 1000)\<close>, no job on a negative count, coverage of the chromosome without a gap,
  neighbouring shards overlapping by exactly 1000 bases, strictly increasing starts on a
  non-empty chromosome and identical shards on an empty one. Region runs: the result and
  the exact sequence of calls with and without JSON output, the artifact written at its
  name, the FileNotFoundError of a missing output directory, and the empty artifact left
  behind when the encoding fails (a defect: the file is opened before the document is
  built). Serialisation: the TypeError of an object without \<open>reprJSON\<close>, the round trip
  of an artifact, and (in \<open>Polish\<close>) the schema every artifact of the program has, as a
  \<open>json_type\<close>, with encoding never failing for the program's candidate lists.
  This theory: the properties of a whole run of \<open>parse_region\<close> over the two finders and
  arbitrary sources (well-formed windows covering every flagged coordinate; sound,
  complete and strictly ordered candidates; windows kept with no candidates), that two
  shards never share an artifact name, and that no shard fails when \<open>json_output/\<close>
  already exists. Command line: the option scanner's
  errors and defaults, \<open>--test False\<close> running the test region (the built-in \<open>bool\<close>
  converter), the IndexError of an empty \<open>--output_dir\<close>, the directory created before
  zero threads fail, the SystemExit of a missing \<open>--ref\<close>. Processes: a process run alone
  refines \<open>parse_region\<close> (same outcome, file system and log), every finished shard
  holds its own document in every interleaving, and two shards racing on a missing
  \<open>json_output/\<close> make one fail with FileExistsError.

  Sources: over the file-backed sources, a variant a kept read shows at a coordinate and
  that meets the thresholds on its column is reported, with its support, in a window of
  the region (the whole of \<open>parse_region\<close>: scanning, merging, fetching and enumerating);
  conversely both bounds of every reported window are spanned by a disagreement a kept
  read shows; and the run does not depend on the order of the reads in the file (the
  determinism of sections 4.1 and 4.2: the windows depend only on the set of flagged
  coordinates, and a candidate list, strictly sorted by its key, only on the multiset of
  each column's tokens).

  \<^bold>\<open>Not modelled.\<close> The file formats of the alignment and reference files and the pysam
  library behind the two handlers (the properties of \<open>Polish\<close> and of this theory hold
  for arbitrary sources; \<open>Sources\<close> gives one model of them from the specification,
  whose behaviour on an unknown chromosome, the empty sequence, the specification does not
  fix); the reads of the reference the window detector makes through
  \<open>fasta_handler\<close>, which the call log leaves out (it records the orchestrator's own
  fetches); the construction of the handlers by \<open>View(...)\<close> in \<open>__main__\<close> and in
  \<open>do_parallel\<close>, so a file that fails to open is not an error of the model; the \<open>int\<close>
  converter of argparse, modelled for an optional minus sign and decimal digits only
  (Python also accepts a plus sign, surrounding spaces and underscores); a file at a path
  ending in a slash, which \<open>path_exists\<close> counts as existing; the text layout of
  \<open>indent=4\<close>; the debug printing
  behind the two module flags, which is off; the timing of \<open>__main__\<close>; the work of
  \<open>parse_region\<close> before its writes is one atomic step of a process, since it touches
  only the process's own handles and appends to the log. Every loop of the program runs
  over a finite list and is structural recursion, so no termination property is stated:
  with that atomic step, the termination and liveness of the interleaving would hold by
  construction of the model, whatever the code computes. The one fuel is that of
  \<open>proc_run\<close>, a process run alone: five steps, the longest path of a process (the reads,
  then exists, mkdir, open and write), and the refinement theorem shows that this fuel
  finishes every process.
\<close>

text \<open>C9: The windows of a region run come out sorted, each a non-empty interval, neighbours
  more than \<open>G\<close> apart, and all on the chromosome of the view, whatever the
  sources and whether or not JSON is written.\<close>

theorem polish_windows_well_formed:
  assumes "fst (parse_region (polish_pipeline src cfg) v s e j w) = Inr r"
  shows "windows_ok (cfg_gap cfg) (map (\<lambda>l. (wcl_start l, wcl_end l)) (all_candidates r)) \<and>
         (\<forall>l\<in>set (all_candidates r). wcl_chromosome l = view_chromosome v)"
proof
  show "windows_ok (cfg_gap cfg) (map (\<lambda>l. (wcl_start l, wcl_end l)) (all_candidates r))"
    using find_windows_ok polish_window_bounds
    by (simp add: polish_result [OF assms] polish_windows_def comp_def)
  show "\<forall>l\<in>set (all_candidates r). wcl_chromosome l = view_chromosome v"
    using polish_result_member [OF assms] by (metis polish_window_fields(1))
qed

text \<open>C19: Every coordinate flagged by a read the filter keeps lies inside one of the windows
  of the region result.\<close>

theorem polish_windows_cover:
  assumes "fst (parse_region (polish_pipeline src cfg) v s e j w) = Inr r"
    and "p \<in> set (region_flags src cfg (view_chromosome v) s e)"
  shows "\<exists>l\<in>set (all_candidates r). wcl_start l \<le> p \<and> p \<le> wcl_end l"
proof -
  obtain c a b where win: "(c, a, b) \<in> set (polish_windows src cfg (view_chromosome v) s e)"
      and "a \<le> p" "p \<le> b"
    using find_windows_covers [of p] assms(2)
    by (fastforce simp: region_flags_def polish_windows_def)
  moreover have "polish_window src cfg (c, a, b) \<in> set (all_candidates r)"
    using win by (simp add: polish_result [OF assms(1)])
  ultimately show ?thesis by force
qed

text \<open>C10: Every candidate of a window is backed by the window's pileup: it starts inside the
  window, its token was observed at its start, its support is the token's count there, a
  deletion spans its deleted coordinates, and the token differs from the reference base
  and meets both thresholds.\<close>

theorem polish_candidates_sound:
  assumes "fst (parse_region (polish_pipeline src cfg) v s e j w) = Inr r"
    and "l \<in> set (all_candidates r)" and "c \<in> set (wcl_candidates l)"
  shows "wcl_start l \<le> cand_start c \<and> cand_start c \<le> wcl_end l \<and>
         cand_alt c \<in> set (window_tokens src l (cand_start c)) \<and>
         cand_support c = count_list (window_tokens src l (cand_start c)) (cand_alt c) \<and>
         cand_end c = allele_end (cand_start c) (cand_alt c) \<and>
         (\<exists>rb. ref_base_at (wcl_reference l) (wcl_start l) (cand_start c) = Some rb \<and>
               qualifies (cfg_thresholds cfg) rb (length (window_tokens src l (cand_start c)))
                 (cand_alt c) (cand_support c))"
proof -
  obtain ws we where l: "l = polish_window src cfg (view_chromosome v, ws, we)"
    using polish_result_member [OF assms(1,2)] by blast
  have "c \<in> set (generate_candidates (cfg_thresholds cfg) ws we
                  (src_pileup src (view_chromosome v) ws (we + 1))
                  (src_sequence src (view_chromosome v) ws (we + 1)))"
    using assms(3) by (simp add: l)
  then have "ws \<le> cand_start c \<and> cand_start c \<le> we \<and>
    (\<exists>rb. ref_base_at (src_sequence src (view_chromosome v) ws (we + 1)) ws (cand_start c) = Some rb \<and>
      cand_alt c \<in> set (column_tokens (src_pileup src (view_chromosome v) ws (we + 1)) (cand_start c)) \<and>
      cand_support c = count_list (column_tokens (src_pileup src (view_chromosome v) ws (we + 1)) (cand_start c)) (cand_alt c) \<and>
      qualifies (cfg_thresholds cfg) rb (length (column_tokens (src_pileup src (view_chromosome v) ws (we + 1)) (cand_start c)))
        (cand_alt c) (cand_support c) \<and>
      cand_start c = cand_start c \<and> cand_end c = allele_end (cand_start c) (cand_alt c))"
    by (simp only: generate_candidates_iff position_candidates_iff)
  then show ?thesis
    by (auto simp: l window_tokens_def)
qed

text \<open>C11: Every token observed inside a window that differs from the reference base and meets
  both thresholds is a candidate of the window, with its count as support.\<close>

theorem polish_candidates_complete:
  assumes "fst (parse_region (polish_pipeline src cfg) v s e j w) = Inr r"
    and "l \<in> set (all_candidates r)" and "wcl_start l \<le> p" and "p \<le> wcl_end l"
    and "ref_base_at (wcl_reference l) (wcl_start l) p = Some rb"
    and "tok \<in> set (window_tokens src l p)"
    and "qualifies (cfg_thresholds cfg) rb (length (window_tokens src l p)) tok
           (count_list (window_tokens src l p) tok)"
  shows "\<lparr>cand_start = p, cand_end = allele_end p tok, cand_alt = tok,
          cand_support = count_list (window_tokens src l p) tok\<rparr> \<in> set (wcl_candidates l)"
proof -
  obtain ws we where l: "l = polish_window src cfg (view_chromosome v, ws, we)"
    using polish_result_member [OF assms(1,2)] by blast
  show ?thesis
    using assms(3-7)
    by (simp add: l generate_candidates_iff position_candidates_iff window_tokens_def
        polish_window_def generate_candidate_allele_list_def)
qed

text \<open>C20: The candidates of every window are in strictly increasing order of (descending
  support, token text, start): the order is total, with no ties, when insertion tokens
  insert at least one base.\<close>

theorem polish_candidates_ordered:
  assumes "fst (parse_region (polish_pipeline src cfg) v s e j w) = Inr r"
    and "\<forall>a b. \<forall>col\<in>set (src_pileup src (view_chromosome v) a b). \<forall>t\<in>set (col_tokens col). token_ok t"
    and "l \<in> set (all_candidates r)"
  shows "sorted_wrt (<) (map candidate_key (wcl_candidates l))"
proof -
  obtain ws we where l: "l = polish_window src cfg (view_chromosome v, ws, we)"
    using polish_result_member [OF assms(1,3)] by blast
  show ?thesis
    using assms(2) by (simp add: l generate_candidates_strict)
qed

text \<open>C21: A window whose pileup agrees with the reference at every coordinate is still in the
  result, with an empty candidate list.\<close>

theorem polish_agreement_keeps_window:
  assumes "fst (parse_region (polish_pipeline src cfg) v s e j w) = Inr r"
    and "(view_chromosome v, ws, we) \<in> set (polish_windows src cfg (view_chromosome v) s e)"
    and "\<forall>p\<in>{ws..we}. set (column_tokens (src_pileup src (view_chromosome v) ws (we + 1)) p) \<subseteq>
            TBase ` set_option (ref_base_at (src_sequence src (view_chromosome v) ws (we + 1)) ws p)"
  shows "\<lparr>wcl_chromosome = view_chromosome v, wcl_start = ws, wcl_end = we,
          wcl_reference = src_sequence src (view_chromosome v) ws (we + 1), wcl_candidates = []\<rparr>
         \<in> set (all_candidates r)"
proof -
  have "polish_window src cfg (view_chromosome v, ws, we) \<in> set (all_candidates r)"
    using assms(2) by (simp add: polish_result [OF assms(1)])
  moreover have "polish_window src cfg (view_chromosome v, ws, we) =
      \<lparr>wcl_chromosome = view_chromosome v, wcl_start = ws, wcl_end = we,
       wcl_reference = src_sequence src (view_chromosome v) ws (we + 1), wcl_candidates = []\<rparr>"
    using agreement_no_candidates [OF assms(3)]
    by (simp add: polish_window_def generate_candidate_allele_list_def)
  ultimately show ?thesis by simp
qed

text \<open>C22: On a non-empty chromosome, any two shards started by \<open>do_parallel\<close>
  write their artifacts under different file names, so concurrent shards never write the
  same file.\<close>

theorem shards_distinct_artifacts:
  assumes run: "do_parallel g chr bam ref json_out out n = Inr jobs" and len: "0 < g chr"
    and ij: "i < j" "j < length jobs"
  shows "artifact_path (job_output_dir (jobs ! i)) (job_chromosome (jobs ! i)) (job_start (jobs ! i))
           (job_end (jobs ! i)) \<noteq>
         artifact_path (job_output_dir (jobs ! j)) (job_chromosome (jobs ! j)) (job_start (jobs ! j))
           (job_end (jobs ! j))"
  using shard_paths_differ [OF run len, of i j] ij by simp

text \<open>C7: When \<open>json_output/\<close> already exists (and the world names its directories with a
  trailing slash, and the chromosome name has no slash), no interleaving of the shards of
  the polishing program makes any shard fail: the FileExistsError of the race needs the
  directory to be missing.\<close>

theorem dispatch_existing_dir_no_failure:
  assumes run: "do_parallel g chr bam ref json_out out n = Inr jobs" and chr: "CHR ''/'' \<notin> set chr"
    and dir: "json_output_dir out \<in> dirs w" and slash: "\<forall>d\<in>dirs w. d = [] \<or> last d = CHR ''/''"
    and reach: "sys_step\<^sup>*\<^sup>* (dispatch_state (polish_pipeline src cfg) jobs w) s'"
  shows "\<forall>p\<in>set (fst s'). \<forall>e. sp_pc p \<noteq> PFailed e"
proof -
  have "sp_dir p = json_output_dir out \<and> parent_dir (sp_path p) = json_output_dir out \<and>
      sp_path p \<notin> dirs w \<and> (\<exists>doc. sp_doc p = Inr doc) \<and> sp_pc p = PCompute"
    if p: "p \<in> set (fst (dispatch_state (polish_pipeline src cfg) jobs w))" for p
  proof -
    from p run obtain seg i where p: "p = job_proc (polish_pipeline src cfg) (shard_job_for chr bam ref json_out out seg i)"
      by (auto simp: dispatch_state_def do_parallel_Inr_iff)
    have "sp_path p \<notin> dirs w"
      using slash artifact_path_last [of out chr] by (auto simp: p)
    moreover have "\<exists>doc. sp_doc p = Inr doc"
      using polish_dumps_ok by (simp add: p job_proc_def shard_proc_of_def) blast
    ultimately show ?thesis
      using chr by (simp add: p parent_artifact_path)
  qed
  then have "dir_ready (json_output_dir out) (dispatch_state (polish_pipeline src cfg) jobs w)"
    using dir by (auto simp: dir_ready_def dispatch_state_def)
  from reachable_ready [OF reach this] show ?thesis by (simp add: dir_ready_def)
qed

section \<open>Witnesses\<close>

theorem polish_windows_well_formed_witness:
  "windows_ok 10 [(150000, 150000)] \<and> ''3'' = view_chromosome scenario_view"
  using polish_windows_well_formed [OF scenario_run [of 1 "example_world {}"]]
  by (simp add: scenario_config_def scenario_window_list)

theorem polish_windows_cover_witness:
  "150000 \<le> (150000::int) \<and> (150000::int) \<le> 150000"
proof -
  have "(150000::int) \<in> set (region_flags scenario_sources (scenario_config 1)
      (view_chromosome scenario_view) 100000 200000)"
    by code_simp
  from polish_windows_cover [OF scenario_run [of 1 "example_world {}"] this] show ?thesis
    by (simp add: scenario_window_list)
qed

theorem polish_candidates_sound_witness:
  "TBase CHR ''C'' \<in> set (window_tokens scenario_sources
      \<lparr>wcl_chromosome = ''3'', wcl_start = 150000, wcl_end = 150000, wcl_reference = ''A'',
       wcl_candidates = [\<lparr>cand_start = 150000, cand_end = 150000, cand_alt = TBase CHR ''C'',
                           cand_support = 1\<rparr>]\<rparr> 150000) \<and>
   ref_base_at ''A'' 150000 150000 = Some CHR ''A''"
proof -
  have l: "polish_window scenario_sources (scenario_config 1) (''3'', 150000, 150000)
      \<in> set (all_candidates \<lparr>chromosome_name = ''3'', start_position = 100000, end_position = 200000,
        all_candidates = [polish_window scenario_sources (scenario_config 1) (''3'', 150000, 150000)]\<rparr>)"
    by simp
  have c: "\<lparr>cand_start = 150000, cand_end = 150000, cand_alt = TBase CHR ''C'', cand_support = 1\<rparr>
      \<in> set (wcl_candidates (polish_window scenario_sources (scenario_config 1) (''3'', 150000, 150000)))"
    unfolding scenario_window_list by simp
  have "ref_base_at ''A'' 150000 150000 = Some CHR ''A''"
    by (simp add: ref_base_at_def)
  with polish_candidates_sound [OF scenario_run [of 1 "example_world {}"] l c, unfolded scenario_window_list]
  show ?thesis by simp
qed

theorem polish_candidates_complete_witness:
  "\<lparr>cand_start = 150000, cand_end = allele_end 150000 (TBase CHR ''C''), cand_alt = TBase CHR ''C'',
    cand_support = count_list [TBase CHR ''C''] (TBase CHR ''C'')\<rparr>
   \<in> set [\<lparr>cand_start = 150000, cand_end = 150000, cand_alt = TBase CHR ''C'', cand_support = 1\<rparr>]"
proof -
  let ?L = "\<lparr>wcl_chromosome = ''3'', wcl_start = 150000, wcl_end = 150000, wcl_reference = ''A'',
       wcl_candidates = [\<lparr>cand_start = 150000, cand_end = 150000, cand_alt = TBase CHR ''C'',
                           cand_support = 1\<rparr>]\<rparr>"
  have tok: "window_tokens scenario_sources ?L 150000 = [TBase CHR ''C'']"
    by code_simp
  have l: "?L \<in> set (all_candidates \<lparr>chromosome_name = ''3'', start_position = 100000, end_position = 200000,
        all_candidates = [polish_window scenario_sources (scenario_config 1) (''3'', 150000, 150000)]\<rparr>)"
    unfolding scenario_window_list by simp
  have q: "qualifies (cfg_thresholds (scenario_config 1)) CHR ''A'' (length [TBase CHR ''C''])
      (TBase CHR ''C'') (count_list [TBase CHR ''C''] (TBase CHR ''C''))"
    by (simp add: qualifies_def scenario_config_def)
  from polish_candidates_complete [OF scenario_run [of 1 "example_world {}"] l, of 150000 "CHR ''A''"
      "TBase CHR ''C''", unfolded tok] q
  show ?thesis by (simp add: ref_base_at_def allele_end_def)
qed

theorem polish_candidates_ordered_witness:
  "sorted_wrt (<) (map candidate_key
     [\<lparr>cand_start = 150000, cand_end = 150000, cand_alt = TBase CHR ''C'', cand_support = 1\<rparr>])"
proof -
  have ok: "\<forall>a b. \<forall>col\<in>set (src_pileup scenario_sources (view_chromosome scenario_view) a b).
      \<forall>t\<in>set (col_tokens col). token_ok t"
    by (simp add: scenario_sources_def token_ok_def)
  have l: "polish_window scenario_sources (scenario_config 1) (''3'', 150000, 150000)
      \<in> set (all_candidates \<lparr>chromosome_name = ''3'', start_position = 100000, end_position = 200000,
        all_candidates = [polish_window scenario_sources (scenario_config 1) (''3'', 150000, 150000)]\<rparr>)"
    by simp
  from polish_candidates_ordered [OF scenario_run [of 1 "example_world {}"] ok l] show ?thesis
    unfolding scenario_window_list by simp
qed

theorem polish_agreement_keeps_window_witness:
  "\<lparr>wcl_chromosome = ''3'', wcl_start = 150000, wcl_end = 150000, wcl_reference = ''A'',
    wcl_candidates = []\<rparr> \<in> set [\<lparr>wcl_chromosome = ''3'', wcl_start = 150000, wcl_end = 150000,
    wcl_reference = ''A'', wcl_candidates = []\<rparr>]"
proof -
  let ?src = "scenario_sources\<lparr>src_pileup := (\<lambda>chr s e.
       map (\<lambda>p. \<lparr>col_pos = p, col_tokens = [TBase CHR ''A'']\<rparr>) [s..e - 1])\<rparr>"
  have win: "(''3'', 150000, 150000) \<in> set (polish_windows ?src (scenario_config 1) ''3'' 100000 200000)"
    by (simp add: scenario_windows)
  have run: "fst (parse_region (polish_pipeline ?src (scenario_config 1)) scenario_view 100000 200000 False
      (example_world {})) = Inr \<lparr>chromosome_name = ''3'', start_position = 100000, end_position = 200000,
        all_candidates = [polish_window ?src (scenario_config 1) (''3'', 150000, 150000)]\<rparr>"
    by (simp add: parse_region_run expected_polish_region scenario_windows)
  have cols: "src_pileup ?src ''3'' 150000 (150000 + 1) = [\<lparr>col_pos = 150000, col_tokens = [TBase CHR ''A'']\<rparr>]"
    by (simp add: upto.simps)
  have seq: "src_sequence ?src ''3'' 150000 (150000 + 1) = ''A''"
    by (simp add: scenario_sources_def)
  have agree: "\<forall>p\<in>{150000..150000}. set (column_tokens (src_pileup ?src ''3'' 150000 (150000 + 1)) p) \<subseteq>
      TBase ` set_option (ref_base_at (src_sequence ?src ''3'' 150000 (150000 + 1)) 150000 p)"
    unfolding cols seq by (simp add: column_tokens_def column_at_def ref_base_at_def)
  from polish_agreement_keeps_window [OF run, of 150000 150000] win agree
  show ?thesis unfolding seq by (simp add: polish_window_def generate_candidate_allele_list_def)
qed

theorem shards_distinct_artifacts_witness:
  "artifact_path ''output/'' ''3'' 0 1004 \<noteq> artifact_path ''output/'' ''3'' 4 1008"
  using shards_distinct_artifacts [OF do_parallel_10_3, of 0 1] by (simp add: shard_overlap_def)

theorem dispatch_existing_dir_no_failure_witness:
  "list_all (\<lambda>p. \<forall>e. sp_pc p \<noteq> PFailed e) (fst (sys_sched [0, 0, 0, 0, 0, 1, 2]
       (dispatch_state (polish_pipeline scenario_sources (scenario_config 1))
         (map (shard_job_for ''3'' ''b.bam'' ''r.fa'' True ''output/'' 4) [0, 1, 2])
         (example_world {[], ''output/'', ''output/json_output/''}))))"
proof -
  have "\<forall>p\<in>set (fst (sys_sched [0, 0, 0, 0, 0, 1, 2]
         (dispatch_state (polish_pipeline scenario_sources (scenario_config 1))
           (map (shard_job_for ''3'' ''b.bam'' ''r.fa'' True ''output/'' 4) [0, 1, 2])
           (example_world {[], ''output/'', ''output/json_output/''})))).
      \<forall>e. sp_pc p \<noteq> PFailed e"
    using dispatch_existing_dir_no_failure [OF do_parallel_10_3 _ _ _
        sys_sched_reachable [where sched = "[0, 0, 0, 0, 0, 1, 2]"],
        where w = "example_world {[], ''output/'', ''output/json_output/''}" and src = scenario_sources
          and cfg = "scenario_config 1"]
    by (simp add: json_output_dir_def)
  then show ?thesis by (simp only: list_all_iff)
qed

end
